theory Spec2Isabelle
  imports Main "HOL-Library.Word" "HOL-Library.Tree" "HOL-Library.Product_Lexorder"
    "HOL-Library.List_Lexorder"
begin

unbundle bit_operations_syntax

section \<open>Common conventions\<close>

text \<open>
  The C functions return \<open>0\<close> on success and a negative errno on failure; the model keeps
  that convention and returns \<open>int\<close>. A function returning a pointer or \<open>ERR_PTR(err)\<close>
  returns a sum, \<open>Inl err\<close> for the error pointer. A C name starting with two underscores
  is written with the prefix \<open>uu_\<close>.

  Every call into code that is not part of the sources (locks, waits, allocations, the
  drm_mm allocator, the GPU engine, TTM) gets its result from an environment record, one
  field per call site, so that each error branch of the source is a branch of the model.

  A failing \<open>GEM_BUG_ON\<close> stops the kernel, and so does an access through a NULL or an
  error pointer: functions in which this can happen return an \<open>option\<close>, with \<open>None\<close> for
  the kernel that has stopped.
\<close>

type_synonym u32 = "32 word"
type_synonym u64 = "64 word"

definition E2BIG :: int where "E2BIG = 7"
definition EINTR :: int where "EINTR = 4"
definition ENOENT :: int where "ENOENT = 2"
definition EAGAIN :: int where "EAGAIN = 11"
definition ENOMEM :: int where "ENOMEM = 12"
definition EBUSY :: int where "EBUSY = 16"
definition ENODEV :: int where "ENODEV = 19"
definition EINVAL :: int where "EINVAL = 22"
definition ENOSPC :: int where "ENOSPC = 28"
definition ERESTARTSYS :: int where "ERESTARTSYS = 512"

definition gem_bug_on :: "bool \<Rightarrow> 'a option \<Rightarrow> 'a option" where
  "gem_bug_on c k = (if c then None else k)"

section \<open>The VMA and the parts of its address space and object that binding touches\<close>

text \<open>
  The layout of \<open>vma->flags\<close> and of the \<open>PIN_*\<close> request flags is declared in
  i915_vma_types.h and i915_gem_gtt.h, which are not among the sources. The constants below
  are the layout the functions rely on: the pin count in the low bits
  (\<open>I915_VMA_PIN_MASK\<close>, whose top bit is \<open>I915_VMA_OVERFLOW\<close>), then the two bind bits, which
  coincide with \<open>PIN_GLOBAL\<close> and \<open>PIN_USER\<close> (the \<open>BUILD_BUG_ON\<close>s of i915_vma_pin_ww).
\<close>

definition I915_VMA_PIN_MASK :: u32 where "I915_VMA_PIN_MASK = 0x3ff"
definition I915_VMA_OVERFLOW :: u32 where "I915_VMA_OVERFLOW = 0x200"
definition I915_VMA_GLOBAL_BIND :: u32 where "I915_VMA_GLOBAL_BIND = 0x400"
definition I915_VMA_LOCAL_BIND :: u32 where "I915_VMA_LOCAL_BIND = 0x800"
definition I915_VMA_BIND_MASK :: u32 where
  "I915_VMA_BIND_MASK = I915_VMA_GLOBAL_BIND OR I915_VMA_LOCAL_BIND"
definition I915_VMA_ERROR :: u32 where "I915_VMA_ERROR = 0x1000"
definition I915_VMA_GGTT :: u32 where "I915_VMA_GGTT = 0x2000"
definition I915_VMA_CAN_FENCE :: u32 where "I915_VMA_CAN_FENCE = 0x4000"
definition I915_VMA_GGTT_WRITE :: u32 where "I915_VMA_GGTT_WRITE = 0x10000"

definition I915_VMA_PAGES_BIAS :: nat where "I915_VMA_PAGES_BIAS = 24"
definition I915_VMA_PAGES_ACTIVE :: u32 where "I915_VMA_PAGES_ACTIVE = 0x1000001"

record drm_mm_node =
  node_start :: u64
  node_size :: u64
  node_color :: nat

text \<open>
  \<open>vma->pages\<close> is either the object's own table (\<open>obj->mm.pages\<close>, borrowed) or a table
  built for a rotated, remapped or partial view.
\<close>

datatype vma_pages = ObjPages | ViewPages

text \<open>
  One record holds the \<open>struct i915_vma\<close> fields the functions read or write, followed by
  the fields of the address space (\<open>vm_\<close>) and of the object (\<open>obj_\<close>) they reach through
  \<open>vma->vm\<close> and \<open>vma->obj\<close>. \<open>normal_view\<close> says whether \<open>vma->ggtt_view.type\<close> is the normal
  view; \<open>node = None\<close> is \<open>!drm_mm_node_allocated(&vma->node)\<close>;
  \<open>vm_mm\<close> lists the other allocated nodes of the address space in address order;
  \<open>vm_link\<close> says whether the vma is on \<open>vm->bound_list\<close>; \<open>obj_resv_shared\<close> are the fences
  added to the object's reservation object as shared fences.
\<close>

record vma_state =
  flags :: u32
  node :: "drm_mm_node option"
  vma_size :: u64
  display_alignment :: u64
  fence_size :: u64
  fence_alignment :: u64
  page_sizes_sg :: u64
  normal_view :: bool
  resource :: "nat option"
  iomap :: "nat option"
  vm_link :: bool
  closed :: bool
  pages_count :: u32
  pages :: "vma_pages option"
  vm_total :: u64
  vm_is_ggtt :: bool
  vm_mappable_end :: u64
  vm_has_cache_coloring :: bool
  vm_bind_async_flags :: u32
  vm_allocate_va_range :: bool
  vm_open :: bool
  vm_mm :: "drm_mm_node list"
  obj_cache_level :: nat
  obj_pages_pin_count :: int
  obj_has_rsgt :: bool
  obj_was_bound :: bool
  obj_resv_shared :: "nat list"

definition drm_mm_node_allocated :: "vma_state \<Rightarrow> bool" where
  "drm_mm_node_allocated s \<longleftrightarrow> node s \<noteq> None"

definition drm_mm_remove_node :: "vma_state \<Rightarrow> vma_state" where
  "drm_mm_remove_node s = s\<lparr>node := None\<rparr>"

definition i915_vma_is_pinned :: "vma_state \<Rightarrow> bool" where
  "i915_vma_is_pinned s \<longleftrightarrow> flags s AND I915_VMA_PIN_MASK \<noteq> 0"

definition i915_vma_is_bound :: "vma_state \<Rightarrow> u32 \<Rightarrow> bool" where
  "i915_vma_is_bound s w \<longleftrightarrow> flags s AND w \<noteq> 0"

definition i915_vma_is_map_and_fenceable :: "vma_state \<Rightarrow> bool" where
  "i915_vma_is_map_and_fenceable s \<longleftrightarrow> flags s AND I915_VMA_CAN_FENCE \<noteq> 0"

definition i915_vma_is_ggtt :: "vma_state \<Rightarrow> bool" where
  "i915_vma_is_ggtt s \<longleftrightarrow> flags s AND I915_VMA_GGTT \<noteq> 0"

definition i915_vma_is_closed :: "vma_state \<Rightarrow> bool" where
  "i915_vma_is_closed s \<longleftrightarrow> closed s"

subsection \<open>Releasing the pages of a vma\<close>

definition uu_vma_put_pages :: "vma_state \<Rightarrow> u32 \<Rightarrow> vma_state option" where
  "uu_vma_put_pages s count =
     gem_bug_on (pages_count s < count)
       (let s1 = s\<lparr>pages_count := pages_count s - count\<rparr>
        in if pages_count s1 = 0
           then Some (s1\<lparr>pages := None, obj_pages_pin_count := obj_pages_pin_count s1 - 1\<rparr>)
           else Some s1)"

definition i915_vma_put_pages :: "vma_state \<Rightarrow> vma_state option" where
  "i915_vma_put_pages s =
     (if pages_count s \<noteq> 1 then Some (s\<lparr>pages_count := pages_count s - 1\<rparr>)
      else uu_vma_put_pages s 1)"

definition vma_unbind_pages :: "vma_state \<Rightarrow> vma_state option" where
  "vma_unbind_pages s =
     (let count = drop_bit I915_VMA_PAGES_BIAS (pages_count s)
      in gem_bug_on (count = 0)
           (uu_vma_put_pages s (count OR push_bit I915_VMA_PAGES_BIAS count)))"

subsection \<open>Unbinding\<close>

text \<open>
  The results of the calls made while unbinding: the optimistic \<open>i915_vma_sync\<close> of
  i915_vma_unbind, the \<open>i915_vma_sync\<close> of __i915_vma_unbind, taking \<open>vm->mutex\<close>
  (interruptibly, or by trylock), \<open>dma_resv_reserve_shared\<close>, the test
  \<open>&vma->obj->mm.rsgt->table != vma->resource->bi.pages\<close>, \<open>i915_sw_fence_await_active\<close>, and
  the fence returned by \<open>i915_vma_resource_unbind\<close> (\<open>None\<close> for NULL).
\<close>

record unbind_env =
  opt_sync_ret :: int
  sync_ret :: int
  mutex_lock_ret :: int
  mutex_trylock_ok :: bool
  reserve_shared_ret :: int
  rsgt_is_resource_pages :: bool
  await_active_ret :: int
  resource_unbind_fence :: "nat option"

definition i915_vma_detach :: "vma_state \<Rightarrow> vma_state option" where
  "i915_vma_detach s =
     gem_bug_on (\<not> drm_mm_node_allocated s)
       (gem_bug_on (i915_vma_is_bound s (I915_VMA_GLOBAL_BIND OR I915_VMA_LOCAL_BIND))
          (Some (s\<lparr>vm_link := False\<rparr>)))"

text \<open>
  __i915_vma_evict: revoke the CPU mappings of a mappable vma, unbind the resource, clear the
  bind bits, leave the bound list and drop the pages held by the bindings. The result is the
  unbind fence, which the synchronous variant waits for and drops. \<open>vma->resource\<close> is
  written through (\<open>needs_wakeref\<close>) before it is cleared, which faults when it is NULL.
\<close>

definition uu_i915_vma_evict ::
  "unbind_env \<Rightarrow> vma_state \<Rightarrow> bool \<Rightarrow> (nat option \<times> vma_state) option" where
  "uu_i915_vma_evict env s async =
     gem_bug_on (i915_vma_is_pinned s)
       (let s1 = (if i915_vma_is_map_and_fenceable s
                  then s\<lparr>flags := flags s AND NOT I915_VMA_GGTT_WRITE AND NOT I915_VMA_CAN_FENCE,
                         iomap := None\<rparr>
                  else s)
        in case resource s1 of
             None \<Rightarrow> None
           | Some vma_res \<Rightarrow>
               (let unbind_fence = resource_unbind_fence env;
                    s2 = s1\<lparr>resource := None,
                            flags := flags s1 AND
                              NOT (I915_VMA_BIND_MASK OR I915_VMA_ERROR OR I915_VMA_GGTT_WRITE)\<rparr>
                in case i915_vma_detach s2 of
                     None \<Rightarrow> None
                   | Some s3 \<Rightarrow>
                       (let fence = (if \<not> async \<and> unbind_fence \<noteq> None then None
                                     else unbind_fence)
                        in case vma_unbind_pages s3 of
                             None \<Rightarrow> None
                           | Some s4 \<Rightarrow> Some (fence, s4))))"

definition uu_i915_vma_unbind :: "unbind_env \<Rightarrow> vma_state \<Rightarrow> (int \<times> vma_state) option" where
  "uu_i915_vma_unbind env s =
     (if \<not> drm_mm_node_allocated s then Some (0, s)
      else if i915_vma_is_pinned s then Some (- EAGAIN, s)
      else if sync_ret env \<noteq> 0 then Some (sync_ret env, s)
      else case uu_i915_vma_evict env s False of
             None \<Rightarrow> None
           | Some (fence, s1) \<Rightarrow> Some (0, drm_mm_remove_node s1))"

text \<open>
  __i915_vma_unbind_async compares the object's table with \<open>vma->resource->bi.pages\<close> once
  it knows that the vma is not pinned: that read faults when the resource is NULL.
\<close>

definition uu_i915_vma_unbind_async ::
  "unbind_env \<Rightarrow> vma_state \<Rightarrow> (int + nat option) option \<times> vma_state" where
  "uu_i915_vma_unbind_async env s =
     (if \<not> drm_mm_node_allocated s then (Some (Inr None), s)
      else if i915_vma_is_pinned s then (Some (Inl (- EAGAIN)), s)
      else if resource s = None then (None, s)
      else if \<not> rsgt_is_resource_pages env then (Some (Inl (- EAGAIN)), s)
      else if await_active_ret env < 0 then (Some (Inl (- EBUSY)), s)
      else case uu_i915_vma_evict env s True of
             None \<Rightarrow> (None, s)
           | Some (fence, s1) \<Rightarrow> (Some (Inr fence), drm_mm_remove_node s1))"

definition i915_vma_unbind :: "unbind_env \<Rightarrow> vma_state \<Rightarrow> (int \<times> vma_state) option" where
  "i915_vma_unbind env s =
     (if opt_sync_ret env \<noteq> 0 then Some (opt_sync_ret env, s)
      else if \<not> drm_mm_node_allocated s then Some (0, s)
      else if i915_vma_is_pinned s then Some (- EAGAIN, s)
      else if mutex_lock_ret env \<noteq> 0 then Some (mutex_lock_ret env, s)
      else uu_i915_vma_unbind env s)"

definition i915_vma_unbind_async ::
  "unbind_env \<Rightarrow> vma_state \<Rightarrow> bool \<Rightarrow> (int \<times> vma_state) option" where
  "i915_vma_unbind_async env s trylock_vm =
     (if \<not> drm_mm_node_allocated s then Some (0, s)
      else if i915_vma_is_pinned s then Some (- EAGAIN, s)
      else if \<not> obj_has_rsgt s then Some (- EBUSY, s)
      else if reserve_shared_ret env \<noteq> 0 then Some (- EBUSY, s)
      else if trylock_vm \<and> \<not> mutex_trylock_ok env then Some (- EBUSY, s)
      else if \<not> trylock_vm \<and> mutex_lock_ret env \<noteq> 0 then Some (mutex_lock_ret env, s)
      else case uu_i915_vma_unbind_async env s of
             (None, s1) \<Rightarrow> None
           | (Some (Inl err), s1) \<Rightarrow> Some (err, s1)
           | (Some (Inr None), s1) \<Rightarrow> Some (0, s1)
           | (Some (Inr (Some fence)), s1) \<Rightarrow>
               Some (0, s1\<lparr>obj_resv_shared := obj_resv_shared s1 @ [fence]\<rparr>))"

section \<open>Unbinding a pinned vma\<close>

text \<open>
  A vma bound into the global GTT at offset 0, with one pin and one binding's worth of
  pages, and an environment in which every call succeeds, except that in
  \<open>interrupted_env\<close> the optimistic wait of i915_vma_unbind is interrupted.
\<close>

definition pinned_vma :: vma_state where
  "pinned_vma =
     \<lparr>flags = 0x2401, node = Some \<lparr>node_start = 0, node_size = 4096, node_color = 0\<rparr>,
      vma_size = 4096, display_alignment = 4096, fence_size = 4096, fence_alignment = 4096,
      page_sizes_sg = 4096, normal_view = True, resource = Some 1, iomap = None, vm_link = True, closed = False,
      pages_count = 0x1000001, pages = Some ObjPages, vm_total = 0x100000000,
      vm_is_ggtt = True, vm_mappable_end = 0x10000000, vm_has_cache_coloring = False,
      vm_bind_async_flags = 0, vm_allocate_va_range = False, vm_open = True, vm_mm = [],
      obj_cache_level = 0, obj_pages_pin_count = 1, obj_has_rsgt = True,
      obj_was_bound = True, obj_resv_shared = []\<rparr>"

definition quiet_env :: unbind_env where
  "quiet_env =
     \<lparr>opt_sync_ret = 0, sync_ret = 0, mutex_lock_ret = 0, mutex_trylock_ok = True,
      reserve_shared_ret = 0, rsgt_is_resource_pages = True, await_active_ret = 0,
      resource_unbind_fence = None\<rparr>"

definition interrupted_env :: unbind_env where
  "interrupted_env = quiet_env\<lparr>opt_sync_ret := - EINTR\<rparr>"

text \<open>
  C4, as amended: for a vma whose pin count is greater than zero and whose node is allocated,
  none of the three unbind entry points succeeds and each leaves the vma (binding, bind bits,
  node) exactly as it was. __i915_vma_unbind and i915_vma_unbind_async return -EAGAIN;
  i915_vma_unbind returns -EAGAIN when its optimistic wait succeeds and the error of that
  wait otherwise.
\<close>

theorem pinned_vma_unbind_fails:
  assumes "i915_vma_is_pinned s" and "drm_mm_node_allocated s"
  shows "uu_i915_vma_unbind env s = Some (- EAGAIN, s)
       \<and> i915_vma_unbind_async env s trylock_vm = Some (- EAGAIN, s)
       \<and> i915_vma_unbind env s =
           Some (if opt_sync_ret env \<noteq> 0 then opt_sync_ret env else - EAGAIN, s)
       \<and> - EAGAIN \<noteq> (0::int)"
  using assms
  by (simp add: uu_i915_vma_unbind_def i915_vma_unbind_async_def i915_vma_unbind_def EAGAIN_def)

theorem pinned_vma_unbind_fails_witness:
  "i915_vma_is_pinned pinned_vma \<and> drm_mm_node_allocated pinned_vma
   \<and> uu_i915_vma_unbind quiet_env pinned_vma = Some (- EAGAIN, pinned_vma)
   \<and> i915_vma_unbind_async quiet_env pinned_vma True = Some (- EAGAIN, pinned_vma)
   \<and> i915_vma_unbind quiet_env pinned_vma = Some (- EAGAIN, pinned_vma)"
proof -
  have p: "i915_vma_is_pinned pinned_vma"
    by (simp add: i915_vma_is_pinned_def pinned_vma_def I915_VMA_PIN_MASK_def)
  have a: "drm_mm_node_allocated pinned_vma"
    by (simp add: drm_mm_node_allocated_def pinned_vma_def)
  show ?thesis
    using pinned_vma_unbind_fails [OF p a, of quiet_env True] p a
    by (simp add: quiet_env_def)
qed

text \<open>
  C4 as stated fails: a pinned, bound vma whose optimistic wait is interrupted makes
  i915_vma_unbind return -EINTR, not -EAGAIN.
\<close>

theorem pinned_vma_unbind_not_eagain:
  "i915_vma_is_pinned pinned_vma
   \<and> i915_vma_unbind interrupted_env pinned_vma = Some (- EINTR, pinned_vma)
   \<and> - EINTR \<noteq> - EAGAIN"
  by (simp add: i915_vma_unbind_def interrupted_env_def quiet_env_def EINTR_def EAGAIN_def
      i915_vma_is_pinned_def pinned_vma_def I915_VMA_PIN_MASK_def)

section \<open>Buffer migration\<close>

subsection \<open>Data\<close>

datatype ttm_caching = ttm_uncached | ttm_write_combined | ttm_cached

text \<open>
  \<open>struct ttm_tt\<close>: the caching mode, the page flags \<open>TTM_TT_FLAG_SWAPPED\<close> and
  \<open>TTM_TT_FLAG_ZERO_ALLOC\<close>, and \<open>ttm_tt_is_populated\<close>.
\<close>

record ttm_tt =
  caching :: ttm_caching
  tt_swapped :: bool
  tt_zero_alloc :: bool
  tt_populated :: bool

text \<open>
  \<open>struct ttm_resource\<close>. The helpers \<open>i915_ttm_cpu_maps_iomem\<close> and
  \<open>i915_ttm_gtt_binds_lmem\<close> and the manager flag \<open>ttm_manager_type(..)->use_tt\<close> are not
  among the sources: the resource carries their values.
\<close>

record ttm_resource =
  mem_type :: nat
  cpu_maps_iomem :: bool
  gtt_binds_lmem :: bool
  man_use_tt :: bool

text \<open>A memory region, with the value of \<open>intel_region_to_ttm_type\<close> for it.\<close>

record intel_memory_region =
  region_id :: nat
  region_ttm_type :: nat

datatype blit_kind = BlitClear | BlitCopy

datatype fence = BlitFence | WorkFence

text \<open>
  A \<open>struct dma_fence *\<close> that may be NULL or an error pointer. \<open>ERR_PTR(0)\<close> is NULL;
  fence errors are negative errnos (dma_fence_set_error), so every other \<open>ERR_PTR\<close> of the
  source satisfies \<open>IS_ERR\<close>.
\<close>

datatype fence_ptr = Null | Ptr fence | ErrPtr int

definition ERR_PTR :: "int \<Rightarrow> fence_ptr" where
  "ERR_PTR e = (if e = 0 then Null else ErrPtr e)"

fun IS_ERR :: "fence_ptr \<Rightarrow> bool" where
  "IS_ERR (ErrPtr e) = True"
| "IS_ERR p = False"

text \<open>
  \<open>struct i915_ttm_memcpy_arg\<close>: whether to clear, the number of pages, and the source
  scatter-list \<open>src_rsgt\<close>, of which the model keeps whether it is an error pointer:
  \<open>arg_src_rsgt_err\<close> is the error of an error pointer and 0 for NULL or a table.
\<close>

record i915_ttm_memcpy_arg =
  arg_clear :: bool
  arg_num_pages :: nat
  arg_src_rsgt_err :: int

text \<open>
  What the move does to the world outside the object is recorded as a trace of events:
  which blit was submitted, whether the async worker was allocated, which fences were
  waited for, where a CPU copy ran (inside the move, or in the deferred worker) and whether
  it cleared, and which of the two completion paths the fence callback took.
\<close>

datatype copy_ctx = InMove | InWorker

datatype event =
    GpuSubmit blit_kind
  | WorkAlloc
  | FenceWait
  | DepsSync
  | Memcpy copy_ctx bool
  | QueueWork
  | IrqWorkQueue
  | Purge
  | ResourceFree

text \<open>
  The two selftest switches, the device, the TTM buffer object, the GEM object's placement
  bookkeeping, the contents of the source and destination memory, the pending blit with the
  callback registered on its fence, the queued work items, and the trace.
\<close>

record ttm_state =
  fail_gpu_migration :: bool
  fail_work_allocation :: bool
  has_llc :: bool
  has_snoop :: bool
  migrate_context :: bool
  gt_wedged :: bool
  bo_resource :: ttm_resource
  bo_ttm :: "ttm_tt option"
  bo_type_kernel :: bool
  bo_size :: nat
  mm_region :: intel_memory_region
  mm_placements :: "intel_memory_region list"
  mem_flags :: u32
  cache_level :: nat
  write_domain :: u32
  read_domains :: u32
  cached_io_rsgt :: "nat option"
  get_io_page_sg_pos :: "nat option"
  get_io_page_sg_idx :: nat
  madv :: nat
  src_data :: "8 word list"
  dst_data :: "8 word list"
  blit :: "blit_kind option"
  blit_cb :: "i915_ttm_memcpy_arg option"
  queued_work :: "i915_ttm_memcpy_arg option"
  queued_irq_work :: "i915_ttm_memcpy_arg option"
  work_fence_signaled :: bool
  trace :: "event list"

text \<open>
  The results of the calls the move makes: i915_gem_object_unbind and
  __i915_gem_object_put_pages (move_notify), ttm_tt_populate, i915_ttm_resource_get_st for
  the destination (the error of an error pointer, 0 with the table otherwise), for the
  source in i915_ttm_accel_move and for the source in i915_ttm_memcpy_init, whether
  intel_memory_region_lookup finds a region for a memory type, i915_deps_add_dependency and
  i915_deps_add_resv
  (prev_deps), intel_context_migrate_clear/copy (its return value and whether it handed back
  a request), the error the blit fence is signalled with and what a failed blit leaves in
  the destination, kzalloc of the worker, dma_fence_add_callback, i915_deps_sync and
  ttm_bo_move_accel_cleanup.
\<close>

record move_env =
  unbind_ret :: int
  put_pages_ret :: int
  populate_ret :: int
  dst_st_err :: int
  dst_st_table :: nat
  src_st_err :: int
  init_src_st_err :: int
  region_known :: "nat \<Rightarrow> bool"
  add_dependency_ret :: int
  add_resv_ret :: int
  migrate_ret :: int
  migrate_rq :: bool
  blit_error :: int
  blit_garbage :: "8 word list"
  work_alloc_ok :: bool
  add_callback_ret :: int
  deps_sync_ret :: int
  accel_cleanup_ret :: int

text \<open>
  Constants of the i915 and TTM headers. \<open>I915_PL_SYSTEM\<close> is \<open>TTM_PL_SYSTEM\<close> and
  \<open>I915_PL_LMEM0\<close> is \<open>TTM_PL_PRIV\<close>, the first memory type a driver may define.
\<close>

definition I915_CACHE_NONE :: nat where "I915_CACHE_NONE = 0"
definition I915_CACHE_LLC :: nat where "I915_CACHE_LLC = 1"
definition I915_MADV_WILLNEED :: nat where "I915_MADV_WILLNEED = 0"
definition I915_MADV_DONTNEED :: nat where "I915_MADV_DONTNEED = 1"
definition I915_BO_FLAG_STRUCT_PAGE :: u32 where "I915_BO_FLAG_STRUCT_PAGE = 1"
definition I915_BO_FLAG_IOMEM :: u32 where "I915_BO_FLAG_IOMEM = 2"
definition I915_GEM_DOMAIN_CPU :: u32 where "I915_GEM_DOMAIN_CPU = 0x1"
definition I915_GEM_DOMAIN_WC :: u32 where "I915_GEM_DOMAIN_WC = 0x80"
definition PAGE_SHIFT :: nat where "PAGE_SHIFT = 12"
definition I915_PL_SYSTEM :: nat where "I915_PL_SYSTEM = 0"
definition I915_PL_LMEM0 :: nat where "I915_PL_LMEM0 = 3"

definition emit :: "event list \<Rightarrow> ttm_state \<Rightarrow> ttm_state" where
  "emit es s = s\<lparr>trace := trace s @ es\<rparr>"

subsection \<open>Placement bookkeeping after a move\<close>

text \<open>
  i915_ttm_cache_level reads \<open>ttm->caching\<close> only when the device has an LLC or snoops and
  the resource does not bind local memory; a NULL \<open>ttm\<close> faults there and nowhere else.
\<close>

definition i915_ttm_cache_level ::
  "ttm_state \<Rightarrow> ttm_resource \<Rightarrow> ttm_tt option \<Rightarrow> nat option" where
  "i915_ttm_cache_level s res ttm =
     (if (has_llc s \<or> has_snoop s) \<and> \<not> gtt_binds_lmem res
      then (case ttm of
              None \<Rightarrow> None
            | Some t \<Rightarrow> Some (if caching t = ttm_cached then I915_CACHE_LLC
                              else I915_CACHE_NONE))
      else Some I915_CACHE_NONE)"

text \<open>
  i915_ttm_adjust_domains_after_move reads \<open>bo->ttm->caching\<close> unless the CPU maps the
  resource as iomem.
\<close>

definition i915_ttm_adjust_domains_after_move :: "ttm_state \<Rightarrow> ttm_state option" where
  "i915_ttm_adjust_domains_after_move s =
     (case bo_ttm s of
        None \<Rightarrow> (if cpu_maps_iomem (bo_resource s)
                 then Some (s\<lparr>write_domain := I915_GEM_DOMAIN_WC,
                              read_domains := I915_GEM_DOMAIN_WC\<rparr>)
                 else None)
      | Some ttm \<Rightarrow>
          (if cpu_maps_iomem (bo_resource s) \<or> caching ttm \<noteq> ttm_cached
           then Some (s\<lparr>write_domain := I915_GEM_DOMAIN_WC, read_domains := I915_GEM_DOMAIN_WC\<rparr>)
           else Some (s\<lparr>write_domain := I915_GEM_DOMAIN_CPU,
                        read_domains := I915_GEM_DOMAIN_CPU\<rparr>)))"

definition i915_ttm_adjust_gem_after_move :: "ttm_state \<Rightarrow> ttm_state option" where
  "i915_ttm_adjust_gem_after_move s =
     (let s1 =
        (if region_ttm_type (mm_region s) \<noteq> mem_type (bo_resource s)
         then (case find (\<lambda>mr. region_ttm_type mr = mem_type (bo_resource s)
                                 \<and> mr \<noteq> mm_region s) (mm_placements s) of
                 Some mr \<Rightarrow> s\<lparr>mm_region := mr\<rparr>
               | None \<Rightarrow> s)
         else s);
          s2 = s1\<lparr>mem_flags := mem_flags s1
                    AND NOT (I915_BO_FLAG_STRUCT_PAGE OR I915_BO_FLAG_IOMEM)\<rparr>;
          s3 = s2\<lparr>mem_flags := mem_flags s2 OR
                    (if cpu_maps_iomem (bo_resource s2) then I915_BO_FLAG_IOMEM
                     else I915_BO_FLAG_STRUCT_PAGE)\<rparr>
      in case i915_ttm_cache_level s3 (bo_resource s3) (bo_ttm s3) of
           None \<Rightarrow> None
         | Some level \<Rightarrow> Some (s3\<lparr>cache_level := level\<rparr>))"

definition i915_ttm_move_notify :: "move_env \<Rightarrow> int" where
  "i915_ttm_move_notify env =
     (if unbind_ret env \<noteq> 0 then unbind_ret env
      else if put_pages_ret env \<noteq> 0 then put_pages_ret env
      else 0)"

subsection \<open>The blit, its fence and the CPU copy\<close>

text \<open>
  Modelled from the spec: ttm_move_memcpy is TTM code outside the sources; the spec calls it
  a CPU-side memcpy/clear of the destination from the source.
\<close>

definition ttm_move_memcpy :: "bool \<Rightarrow> 8 word list \<Rightarrow> 8 word list \<Rightarrow> 8 word list" where
  "ttm_move_memcpy clear dst src = (if clear then replicate (length dst) 0 else src)"

definition i915_ttm_move_memcpy ::
  "copy_ctx \<Rightarrow> i915_ttm_memcpy_arg \<Rightarrow> ttm_state \<Rightarrow> ttm_state" where
  "i915_ttm_move_memcpy ctx arg s =
     emit [Memcpy ctx (arg_clear arg)]
       (s\<lparr>dst_data := ttm_move_memcpy (arg_clear arg) (dst_data s) (src_data s)\<rparr>)"

text \<open>
  i915_ttm_region asserts that the memory type is system memory or a local-memory type and
  looks the region up; the result says whether a region was found.
\<close>

definition i915_ttm_region :: "move_env \<Rightarrow> nat \<Rightarrow> bool option" where
  "i915_ttm_region env ttm_mem_type =
     gem_bug_on (ttm_mem_type \<noteq> I915_PL_SYSTEM \<and> ttm_mem_type < I915_PL_LMEM0)
       (Some (region_known env ttm_mem_type))"

text \<open>
  i915_ttm_memcpy_init asserts that both regions were found and fills in the argument. For
  a copy it stores what i915_ttm_resource_get_st returns for the source without testing it
  for an error pointer; i915_ttm_memcpy_release puts that scatter-list, which faults on an
  error pointer. The kmap iterators of the argument are not modelled: ttm_move_memcpy is
  taken to copy or clear the whole buffer.
\<close>

definition memcpy_init_arg :: "move_env \<Rightarrow> ttm_state \<Rightarrow> bool \<Rightarrow> i915_ttm_memcpy_arg" where
  "memcpy_init_arg env s clear =
     \<lparr>arg_clear = clear, arg_num_pages = drop_bit PAGE_SHIFT (bo_size s),
      arg_src_rsgt_err = (if clear then 0 else init_src_st_err env)\<rparr>"

definition i915_ttm_memcpy_init ::
  "move_env \<Rightarrow> ttm_state \<Rightarrow> bool \<Rightarrow> ttm_resource \<Rightarrow> i915_ttm_memcpy_arg option" where
  "i915_ttm_memcpy_init env s clear dst_mem =
     (case i915_ttm_region env (mem_type dst_mem) of
        None \<Rightarrow> None
      | Some dst_reg \<Rightarrow>
          (case i915_ttm_region env (mem_type (bo_resource s)) of
             None \<Rightarrow> None
           | Some src_reg \<Rightarrow>
               gem_bug_on (\<not> dst_reg \<or> \<not> src_reg) (Some (memcpy_init_arg env s clear))))"

definition i915_ttm_memcpy_release :: "i915_ttm_memcpy_arg \<Rightarrow> 'a \<Rightarrow> 'a option" where
  "i915_ttm_memcpy_release arg k = (if arg_src_rsgt_err arg \<noteq> 0 then None else Some k)"

text \<open>
  The GPU finishes the pending blit: a blit that ends without error has cleared the
  destination or copied the source into it; one that ends in error leaves whatever the
  environment says.
\<close>

definition gpu_complete :: "move_env \<Rightarrow> ttm_state \<Rightarrow> ttm_state" where
  "gpu_complete env s =
     (case blit s of
        None \<Rightarrow> s
      | Some k \<Rightarrow>
          s\<lparr>blit := None,
            dst_data := (if blit_error env \<noteq> 0 then blit_garbage env
                         else case k of
                                BlitClear \<Rightarrow> replicate (length (dst_data s)) 0
                              | BlitCopy \<Rightarrow> src_data s)\<rparr>)"

text \<open>
  __memcpy_work copies, signals the fence of the worker and releases the argument;
  __memcpy_irq_work signals and releases.
\<close>

definition uu_memcpy_work :: "i915_ttm_memcpy_arg \<Rightarrow> ttm_state \<Rightarrow> ttm_state option" where
  "uu_memcpy_work arg s =
     i915_ttm_memcpy_release arg
       ((i915_ttm_move_memcpy InWorker arg s)\<lparr>work_fence_signaled := True\<rparr>)"

definition uu_memcpy_irq_work :: "i915_ttm_memcpy_arg \<Rightarrow> ttm_state \<Rightarrow> ttm_state option" where
  "uu_memcpy_irq_work arg s = i915_ttm_memcpy_release arg (s\<lparr>work_fence_signaled := True\<rparr>)"

definition uu_memcpy_cb :: "int \<Rightarrow> i915_ttm_memcpy_arg \<Rightarrow> ttm_state \<Rightarrow> ttm_state" where
  "uu_memcpy_cb fence_error arg s =
     (if fence_error \<noteq> 0 \<or> fail_gpu_migration s
      then emit [QueueWork] (s\<lparr>queued_work := Some arg\<rparr>)
      else emit [IrqWorkQueue] (s\<lparr>queued_irq_work := Some arg\<rparr>))"

text \<open>
  The blit fence signals: the blit is complete and the callback registered on the fence, if
  any, runs. Then the queued work items run. Waiting for a fence returns once all of this
  has happened. A fault in a work item stops the kernel like any other.
\<close>

definition signal_blit_fence :: "move_env \<Rightarrow> ttm_state \<Rightarrow> ttm_state" where
  "signal_blit_fence env s =
     (case blit s of
        None \<Rightarrow> s
      | Some k \<Rightarrow>
          (let s1 = gpu_complete env s
           in case blit_cb s1 of
                None \<Rightarrow> s1
              | Some arg \<Rightarrow> uu_memcpy_cb (blit_error env) arg (s1\<lparr>blit_cb := None\<rparr>)))"

definition run_queued :: "ttm_state \<Rightarrow> ttm_state option" where
  "run_queued s =
     (case (case queued_irq_work s of
              None \<Rightarrow> Some s
            | Some arg \<Rightarrow> uu_memcpy_irq_work arg (s\<lparr>queued_irq_work := None\<rparr>)) of
        None \<Rightarrow> None
      | Some s1 \<Rightarrow>
          (case queued_work s1 of
             None \<Rightarrow> Some s1
           | Some arg \<Rightarrow> uu_memcpy_work arg (s1\<lparr>queued_work := None\<rparr>)))"

definition dma_fence_wait :: "move_env \<Rightarrow> ttm_state \<Rightarrow> ttm_state option" where
  "dma_fence_wait env s = run_queued (signal_blit_fence env (emit [FenceWait] s))"

text \<open>Everything still in flight after the move has returned runs to completion.\<close>

definition settle :: "move_env \<Rightarrow> ttm_state \<Rightarrow> ttm_state option" where
  "settle env s = run_queued (signal_blit_fence env s)"

subsection \<open>The accelerated move and the error intercept\<close>

text \<open>
  intel_context_migrate_clear/copy: on success the blit is pending and its fence is
  returned; on failure a request that was handed back is waited for, and may have written
  to the destination.
\<close>

definition migrate_submit :: "move_env \<Rightarrow> ttm_state \<Rightarrow> blit_kind \<Rightarrow> fence_ptr \<times> ttm_state" where
  "migrate_submit env s k =
     (if migrate_ret env \<noteq> 0
      then (ERR_PTR (migrate_ret env),
            if migrate_rq env then s\<lparr>dst_data := blit_garbage env\<rparr> else s)
      else (Ptr BlitFence, emit [GpuSubmit k] (s\<lparr>blit := Some k\<rparr>)))"

text \<open>
  i915_ttm_accel_move. The \<open>dst_ttm\<close> it is passed is \<open>bo->ttm\<close>, as in i915_ttm_move. The
  cache levels it computes go to the engine and leave no trace in the model, but computing
  them reads the \<open>ttm\<close>.
\<close>

definition i915_ttm_accel_move ::
  "move_env \<Rightarrow> ttm_state \<Rightarrow> bool \<Rightarrow> ttm_resource \<Rightarrow> (fence_ptr \<times> ttm_state) option" where
  "i915_ttm_accel_move env s clear dst_mem =
     (if \<not> migrate_context s \<or> gt_wedged s then Some (ERR_PTR (- EINVAL), s)
      else let clear = (if fail_gpu_migration s then True else clear)
           in case i915_ttm_cache_level s dst_mem (bo_ttm s) of
                None \<Rightarrow> None
              | Some dst_level \<Rightarrow>
                  if clear
                  then (if bo_type_kernel s \<and> \<not> fail_gpu_migration s
                        then Some (ERR_PTR (- EINVAL), s)
                        else Some (migrate_submit env s BlitClear))
                  else if src_st_err env \<noteq> 0 then Some (ERR_PTR (src_st_err env), s)
                  else (case i915_ttm_cache_level s (bo_resource s) (bo_ttm s) of
                          None \<Rightarrow> None
                        | Some src_level \<Rightarrow> Some (migrate_submit env s BlitCopy)))"

text \<open>
  i915_ttm_memcpy_work_arm: register the callback on the blit fence. When that fails the
  fence has signalled already (-ENOENT) or is waited for, and the result is an error
  pointer made from the forced or the real error of the blit, NULL when that error is 0.
\<close>

definition i915_ttm_memcpy_work_arm ::
  "move_env \<Rightarrow> ttm_state \<Rightarrow> i915_ttm_memcpy_arg \<Rightarrow> (fence_ptr \<times> ttm_state) option" where
  "i915_ttm_memcpy_work_arm env s arg =
     (let ret = add_callback_ret env
      in if ret \<noteq> 0
         then (case (if ret \<noteq> - ENOENT then dma_fence_wait env s
                     else Some (gpu_complete env s)) of
                 None \<Rightarrow> None
               | Some s1 \<Rightarrow>
                   Some (ERR_PTR (if fail_gpu_migration s1 then - EINVAL else blit_error env),
                         s1))
         else Some (Ptr WorkFence, s\<lparr>blit_cb := Some arg\<rparr>))"

text \<open>
  The end of __i915_ttm_move when the error intercept failed or there was no accelerated
  migration: the CPU copy inside the move, the release of the argument, and NULL.
\<close>

definition sync_copy ::
  "i915_ttm_memcpy_arg \<Rightarrow> ttm_state \<Rightarrow> (fence_ptr \<times> ttm_state) option" where
  "sync_copy arg s =
     i915_ttm_memcpy_release arg (Null, i915_ttm_move_memcpy InMove arg s)"

text \<open>
  __i915_ttm_move. \<open>move_deps\<close> says whether the caller passed a dependency set. The exits
  are the early \<open>goto out\<close> with the blit fence, the \<open>out\<close> label after the intercept was
  armed or the blit was waited for without error (where an argument that was initialised
  for a fence that turned out NULL is released), and the synchronous CPU copy.
\<close>

definition uu_i915_ttm_move ::
  "move_env \<Rightarrow> ttm_state \<Rightarrow> bool \<Rightarrow> ttm_resource \<Rightarrow> bool \<Rightarrow> bool
     \<Rightarrow> (fence_ptr \<times> ttm_state) option" where
  "uu_i915_ttm_move env s clear dst_mem allow_accel move_deps =
     (case (if allow_accel then i915_ttm_accel_move env s clear dst_mem
            else Some (ERR_PTR (- EINVAL), s)) of
        None \<Rightarrow> None
      | Some (fence, s1) \<Rightarrow>
          if allow_accel \<and> \<not> IS_ERR fence \<and> \<not> gtt_binds_lmem dst_mem
             \<and> \<not> (fail_gpu_migration s1 \<or> fail_work_allocation s1)
          then Some (fence, s1)
          else if \<not> IS_ERR fence
          then (if \<not> fail_work_allocation s1 \<and> work_alloc_ok env
                then (case i915_ttm_memcpy_init env s1 clear dst_mem of
                        None \<Rightarrow> None
                      | Some arg \<Rightarrow>
                          (case i915_ttm_memcpy_work_arm env (emit [WorkAlloc] s1) arg of
                             None \<Rightarrow> None
                           | Some (fence2, s2) \<Rightarrow>
                               if IS_ERR fence2 then sync_copy arg s2
                               else if fence2 = Null
                               then i915_ttm_memcpy_release arg (Null, s2)
                               else Some (fence2, s2)))
                else (case dma_fence_wait env s1 of
                        None \<Rightarrow> None
                      | Some s2 \<Rightarrow>
                          (let fence2 = ERR_PTR (if fail_gpu_migration s2 then - EINVAL
                                                 else blit_error env)
                           in if IS_ERR fence2
                              then (case i915_ttm_memcpy_init env s2 clear dst_mem of
                                      None \<Rightarrow> None
                                    | Some arg \<Rightarrow> sync_copy arg s2)
                              else Some (fence2, s2))))
          else if move_deps \<and> deps_sync_ret env \<noteq> 0
          then Some (ERR_PTR (deps_sync_ret env), emit [DepsSync] s1)
          else (let s2 = (if move_deps then emit [DepsSync] s1 else s1)
                in case i915_ttm_memcpy_init env s2 clear dst_mem of
                     None \<Rightarrow> None
                   | Some arg \<Rightarrow> sync_copy arg s2))"

definition prev_deps :: "move_env \<Rightarrow> int" where
  "prev_deps env =
     (if add_dependency_ret env \<noteq> 0 then add_dependency_ret env else add_resv_ret env)"

subsection \<open>The TTM move callback\<close>

text \<open>
  i915_ttm_purge and ttm_resource_free are outside the sources; the model records that
  they were called. ttm_bo_move_sync_cleanup and ttm_bo_move_accel_cleanup make the
  destination the buffer's resource.
\<close>

definition i915_ttm_purge :: "ttm_state \<Rightarrow> ttm_state" where
  "i915_ttm_purge s = emit [Purge] s"

definition ttm_resource_free :: "ttm_state \<Rightarrow> ttm_state" where
  "ttm_resource_free s = emit [ResourceFree] s"

definition ttm_bo_move_sync_cleanup :: "ttm_state \<Rightarrow> ttm_resource \<Rightarrow> ttm_state" where
  "ttm_bo_move_sync_cleanup s dst_mem = s\<lparr>bo_resource := dst_mem\<rparr>"

definition ttm_tt_populate :: "ttm_state \<Rightarrow> ttm_state" where
  "ttm_tt_populate s = s\<lparr>bo_ttm := map_option (\<lambda>t. t\<lparr>tt_populated := True\<rparr>) (bo_ttm s)\<rparr>"

text \<open>The part of i915_ttm_move after the data has been moved or is on its way.\<close>

definition move_epilogue ::
  "move_env \<Rightarrow> ttm_state \<Rightarrow> fence_ptr \<Rightarrow> ttm_resource \<Rightarrow> nat \<Rightarrow> (int \<times> ttm_state) option"
  where
  "move_epilogue env s migration_fence dst_mem dst_rsgt =
     (case (if migration_fence \<noteq> Null
            then (if accel_cleanup_ret env \<noteq> 0
                  then map_option (\<lambda>t. ttm_bo_move_sync_cleanup t dst_mem)
                         (dma_fence_wait env s)
                  else Some (s\<lparr>bo_resource := dst_mem\<rparr>))
            else Some (ttm_bo_move_sync_cleanup s dst_mem)) of
        None \<Rightarrow> None
      | Some s1 \<Rightarrow>
          (case i915_ttm_adjust_domains_after_move s1 of
             None \<Rightarrow> None
           | Some s2 \<Rightarrow>
               (let s3 = s2\<lparr>cached_io_rsgt := None\<rparr>;
                    s4 = (if gtt_binds_lmem dst_mem \<or> cpu_maps_iomem dst_mem
                          then s3\<lparr>cached_io_rsgt := Some dst_rsgt,
                                  get_io_page_sg_pos := Some dst_rsgt,
                                  get_io_page_sg_idx := 0\<rparr>
                          else s3)
                in case i915_ttm_adjust_gem_after_move s4 of
                     None \<Rightarrow> None
                   | Some s5 \<Rightarrow> Some (0, s5))))"

text \<open>
  i915_ttm_move, for a buffer object that has its GEM object (the \<open>GEM_WARN_ON(!obj)\<close>
  branch concerns a buffer without one, which has no bookkeeping to model).
\<close>

definition i915_ttm_move ::
  "move_env \<Rightarrow> ttm_state \<Rightarrow> bool \<Rightarrow> ttm_resource \<Rightarrow> (int \<times> ttm_state) option" where
  "i915_ttm_move env s evict dst_mem =
     (if i915_ttm_move_notify env \<noteq> 0 then Some (i915_ttm_move_notify env, s)
      else if madv s \<noteq> I915_MADV_WILLNEED
      then Some (0, ttm_resource_free (i915_ttm_purge s))
      else
        (let populate = (case bo_ttm s of
                           None \<Rightarrow> False
                         | Some ttm \<Rightarrow> man_use_tt dst_mem \<or> tt_swapped ttm)
         in if populate \<and> populate_ret env \<noteq> 0 then Some (populate_ret env, s)
            else
              (let s1 = (if populate then ttm_tt_populate s else s)
               in if dst_st_err env \<noteq> 0 then Some (dst_st_err env, s1)
                  else
                      (let dst_rsgt = dst_st_table env;
                           clear = (\<not> cpu_maps_iomem (bo_resource s1)
                                    \<and> (case bo_ttm s1 of
                                         None \<Rightarrow> True
                                       | Some ttm \<Rightarrow> \<not> tt_populated ttm));
                           nothing_to_move =
                             (clear \<and> (case bo_ttm s1 of
                                         None \<Rightarrow> False
                                       | Some ttm \<Rightarrow> \<not> tt_zero_alloc ttm))
                       in if \<not> nothing_to_move \<and> prev_deps env \<noteq> 0
                          then Some (prev_deps env, s1)
                          else
                            (case (if nothing_to_move then Some (Null, s1)
                                   else uu_i915_ttm_move env s1 clear dst_mem True True) of
                               None \<Rightarrow> None
                             | Some (ErrPtr e, s2) \<Rightarrow> Some (e, s2)
                             | Some (Null, s2) \<Rightarrow> move_epilogue env s2 Null dst_mem dst_rsgt
                             | Some (Ptr f, s2) \<Rightarrow>
                                 move_epilogue env s2 (Ptr f) dst_mem dst_rsgt)))))"

subsection \<open>Example buffers\<close>

text \<open>
  System memory and device-local memory, their regions, a populated four-byte buffer in
  system memory that may be placed in either, and an environment in which every call
  succeeds and the blit completes without error.
\<close>

definition sys_mem :: ttm_resource where
  "sys_mem = \<lparr>mem_type = 0, cpu_maps_iomem = False, gtt_binds_lmem = False, man_use_tt = True\<rparr>"

definition lmem :: ttm_resource where
  "lmem = \<lparr>mem_type = 3, cpu_maps_iomem = True, gtt_binds_lmem = True, man_use_tt = False\<rparr>"

definition region_smem :: intel_memory_region where
  "region_smem = \<lparr>region_id = 0, region_ttm_type = 0\<rparr>"

definition region_lmem :: intel_memory_region where
  "region_lmem = \<lparr>region_id = 1, region_ttm_type = 3\<rparr>"

definition sys_bo :: ttm_state where
  "sys_bo =
     \<lparr>fail_gpu_migration = False, fail_work_allocation = False, has_llc = True,
      has_snoop = False, migrate_context = True, gt_wedged = False, bo_resource = sys_mem,
      bo_ttm = Some \<lparr>caching = ttm_cached, tt_swapped = False, tt_zero_alloc = False,
                     tt_populated = True\<rparr>,
      bo_type_kernel = False, bo_size = 4096, mm_region = region_smem,
      mm_placements = [region_smem, region_lmem], mem_flags = 1, cache_level = 1,
      write_domain = 1, read_domains = 1, cached_io_rsgt = None, get_io_page_sg_pos = None,
      get_io_page_sg_idx = 0, madv = 0, src_data = [1, 2, 3, 4], dst_data = [9, 9, 9, 9],
      blit = None, blit_cb = None, queued_work = None, queued_irq_work = None,
      work_fence_signaled = False, trace = []\<rparr>"

definition all_regions :: "nat \<Rightarrow> bool" where
  "all_regions t = True"

definition ok_env :: move_env where
  "ok_env =
     \<lparr>unbind_ret = 0, put_pages_ret = 0, populate_ret = 0, dst_st_err = 0, dst_st_table = 7,
      src_st_err = 0, init_src_st_err = 0, region_known = all_regions,
      add_dependency_ret = 0, add_resv_ret = 0, migrate_ret = 0,
      migrate_rq = True, blit_error = 0, blit_garbage = [0xAA, 0xAA, 0xAA, 0xAA],
      work_alloc_ok = True, add_callback_ret = 0, deps_sync_ret = 0, accel_cleanup_ret = 0\<rparr>"

section \<open>The migration when nothing faults\<close>

text \<open>
  The functions of the data path once more, as total functions: what each of them computes
  when it touches no NULL or error pointer and no assertion fails. The lemmas that follow
  relate them to the functions above: whatever one of those returns is what its total
  counterpart computes, and under the stated conditions it does return.
\<close>

definition memcpy_work_run :: "i915_ttm_memcpy_arg \<Rightarrow> ttm_state \<Rightarrow> ttm_state" where
  "memcpy_work_run arg s = (i915_ttm_move_memcpy InWorker arg s)\<lparr>work_fence_signaled := True\<rparr>"

definition memcpy_irq_work_run :: "i915_ttm_memcpy_arg \<Rightarrow> ttm_state \<Rightarrow> ttm_state" where
  "memcpy_irq_work_run arg s = s\<lparr>work_fence_signaled := True\<rparr>"

definition queued_run :: "ttm_state \<Rightarrow> ttm_state" where
  "queued_run s =
     (let s1 = (case queued_irq_work s of
                  None \<Rightarrow> s
                | Some arg \<Rightarrow> memcpy_irq_work_run arg (s\<lparr>queued_irq_work := None\<rparr>))
      in case queued_work s1 of
           None \<Rightarrow> s1
         | Some arg \<Rightarrow> memcpy_work_run arg (s1\<lparr>queued_work := None\<rparr>))"

definition fence_wait_run :: "move_env \<Rightarrow> ttm_state \<Rightarrow> ttm_state" where
  "fence_wait_run env s = queued_run (signal_blit_fence env (emit [FenceWait] s))"

definition settle_run :: "move_env \<Rightarrow> ttm_state \<Rightarrow> ttm_state" where
  "settle_run env s = queued_run (signal_blit_fence env s)"

definition accel_move_run ::
  "move_env \<Rightarrow> ttm_state \<Rightarrow> bool \<Rightarrow> ttm_resource \<Rightarrow> fence_ptr \<times> ttm_state" where
  "accel_move_run env s clear dst_mem =
     (if \<not> migrate_context s \<or> gt_wedged s then (ERR_PTR (- EINVAL), s)
      else let clear = (if fail_gpu_migration s then True else clear)
           in if clear
              then (if bo_type_kernel s \<and> \<not> fail_gpu_migration s
                    then (ERR_PTR (- EINVAL), s)
                    else migrate_submit env s BlitClear)
              else (if src_st_err env \<noteq> 0 then (ERR_PTR (src_st_err env), s)
                    else migrate_submit env s BlitCopy))"

definition work_arm_run ::
  "move_env \<Rightarrow> ttm_state \<Rightarrow> i915_ttm_memcpy_arg \<Rightarrow> fence_ptr \<times> ttm_state" where
  "work_arm_run env s arg =
     (let ret = add_callback_ret env
      in if ret \<noteq> 0
         then (let s1 = (if ret \<noteq> - ENOENT then fence_wait_run env s else gpu_complete env s)
               in (ERR_PTR (if fail_gpu_migration s1 then - EINVAL else blit_error env), s1))
         else (Ptr WorkFence, s\<lparr>blit_cb := Some arg\<rparr>))"

definition move_run ::
  "move_env \<Rightarrow> ttm_state \<Rightarrow> bool \<Rightarrow> ttm_resource \<Rightarrow> bool \<Rightarrow> bool \<Rightarrow> fence_ptr \<times> ttm_state"
  where
  "move_run env s clear dst_mem allow_accel move_deps =
     (let (fence, s1) = (if allow_accel then accel_move_run env s clear dst_mem
                         else (ERR_PTR (- EINVAL), s))
      in if allow_accel \<and> \<not> IS_ERR fence \<and> \<not> gtt_binds_lmem dst_mem
            \<and> \<not> (fail_gpu_migration s1 \<or> fail_work_allocation s1)
         then (fence, s1)
         else if \<not> IS_ERR fence
         then (let (fence2, copy_work, s2) =
                 (if \<not> fail_work_allocation s1 \<and> work_alloc_ok env
                  then (let arg = memcpy_init_arg env s1 clear;
                            (f, t) = work_arm_run env (emit [WorkAlloc] s1) arg
                        in (f, Some arg, t))
                  else (let t = fence_wait_run env s1
                        in (ERR_PTR (if fail_gpu_migration t then - EINVAL else blit_error env),
                            None, t)))
               in if \<not> IS_ERR fence2 then (fence2, s2)
                  else (let arg = (case copy_work of
                                     None \<Rightarrow> memcpy_init_arg env s2 clear
                                   | Some a \<Rightarrow> a)
                        in (Null, i915_ttm_move_memcpy InMove arg s2)))
         else if move_deps \<and> deps_sync_ret env \<noteq> 0
         then (ERR_PTR (deps_sync_ret env), emit [DepsSync] s1)
         else (let s2 = (if move_deps then emit [DepsSync] s1 else s1)
               in (Null, i915_ttm_move_memcpy InMove (memcpy_init_arg env s2 clear) s2)))"

definition epilogue_run ::
  "move_env \<Rightarrow> ttm_state \<Rightarrow> fence_ptr \<Rightarrow> ttm_resource \<Rightarrow> nat \<Rightarrow> (int \<times> ttm_state) option"
  where
  "epilogue_run env s migration_fence dst_mem dst_rsgt =
     (let s1 = (if migration_fence \<noteq> Null
                then (if accel_cleanup_ret env \<noteq> 0
                      then ttm_bo_move_sync_cleanup (fence_wait_run env s) dst_mem
                      else s\<lparr>bo_resource := dst_mem\<rparr>)
                else ttm_bo_move_sync_cleanup s dst_mem)
      in case i915_ttm_adjust_domains_after_move s1 of
           None \<Rightarrow> None
         | Some s2 \<Rightarrow>
             (let s3 = s2\<lparr>cached_io_rsgt := None\<rparr>;
                  s4 = (if gtt_binds_lmem dst_mem \<or> cpu_maps_iomem dst_mem
                        then s3\<lparr>cached_io_rsgt := Some dst_rsgt,
                                get_io_page_sg_pos := Some dst_rsgt,
                                get_io_page_sg_idx := 0\<rparr>
                        else s3)
              in case i915_ttm_adjust_gem_after_move s4 of
                   None \<Rightarrow> None
                 | Some s5 \<Rightarrow> Some (0, s5)))"

definition ttm_move_run ::
  "move_env \<Rightarrow> ttm_state \<Rightarrow> bool \<Rightarrow> ttm_resource \<Rightarrow> (int \<times> ttm_state) option" where
  "ttm_move_run env s evict dst_mem =
     (if i915_ttm_move_notify env \<noteq> 0 then Some (i915_ttm_move_notify env, s)
      else if madv s \<noteq> I915_MADV_WILLNEED
      then Some (0, ttm_resource_free (i915_ttm_purge s))
      else
        (let populate = (case bo_ttm s of
                           None \<Rightarrow> False
                         | Some ttm \<Rightarrow> man_use_tt dst_mem \<or> tt_swapped ttm)
         in if populate \<and> populate_ret env \<noteq> 0 then Some (populate_ret env, s)
            else
              (let s1 = (if populate then ttm_tt_populate s else s)
               in if dst_st_err env \<noteq> 0 then Some (dst_st_err env, s1)
                  else
                      (let dst_rsgt = dst_st_table env;
                           clear = (\<not> cpu_maps_iomem (bo_resource s1)
                                    \<and> (case bo_ttm s1 of
                                         None \<Rightarrow> True
                                       | Some ttm \<Rightarrow> \<not> tt_populated ttm));
                           nothing_to_move =
                             (clear \<and> (case bo_ttm s1 of
                                         None \<Rightarrow> False
                                       | Some ttm \<Rightarrow> \<not> tt_zero_alloc ttm))
                       in if \<not> nothing_to_move \<and> prev_deps env \<noteq> 0
                          then Some (prev_deps env, s1)
                          else
                            (let (migration_fence, s2) =
                               (if nothing_to_move then (Null, s1)
                                else move_run env s1 clear dst_mem True True)
                             in case migration_fence of
                                  ErrPtr e \<Rightarrow> Some (e, s2)
                                | Null \<Rightarrow> epilogue_run env s2 Null dst_mem dst_rsgt
                                | Ptr f \<Rightarrow> epilogue_run env s2 (Ptr f) dst_mem dst_rsgt)))))"

subsection \<open>Whatever the migration returns is what the total functions compute\<close>

lemma release_SomeD: "i915_ttm_memcpy_release arg k = Some k' \<Longrightarrow> k' = k"
  by (simp add: i915_ttm_memcpy_release_def split: if_splits)

lemma release_ok: "arg_src_rsgt_err arg = 0 \<Longrightarrow> i915_ttm_memcpy_release arg k = Some k"
  by (simp add: i915_ttm_memcpy_release_def)

lemma memcpy_work_SomeD: "uu_memcpy_work arg s = Some t \<Longrightarrow> t = memcpy_work_run arg s"
  by (auto simp: uu_memcpy_work_def memcpy_work_run_def dest: release_SomeD)

lemma memcpy_irq_work_SomeD:
  "uu_memcpy_irq_work arg s = Some t \<Longrightarrow> t = memcpy_irq_work_run arg s"
  by (auto simp: uu_memcpy_irq_work_def memcpy_irq_work_run_def dest: release_SomeD)

lemma run_queued_SomeD: "run_queued s = Some t \<Longrightarrow> t = queued_run s"
  by (auto simp: run_queued_def queued_run_def Let_def split: option.splits
      dest!: memcpy_work_SomeD memcpy_irq_work_SomeD)

lemma dma_fence_wait_SomeD: "dma_fence_wait env s = Some t \<Longrightarrow> t = fence_wait_run env s"
  by (simp add: dma_fence_wait_def fence_wait_run_def run_queued_SomeD)

lemma settle_SomeD: "settle env s = Some t \<Longrightarrow> t = settle_run env s"
  by (simp add: settle_def settle_run_def run_queued_SomeD)

lemma accel_move_SomeD:
  "i915_ttm_accel_move env s clear dst_mem = Some r \<Longrightarrow> r = accel_move_run env s clear dst_mem"
  by (auto simp: i915_ttm_accel_move_def accel_move_run_def Let_def
      split: if_splits option.splits)

lemma work_arm_SomeD:
  "i915_ttm_memcpy_work_arm env s arg = Some r \<Longrightarrow> r = work_arm_run env s arg"
  by (auto simp: i915_ttm_memcpy_work_arm_def work_arm_run_def Let_def
      split: if_splits option.splits dest!: dma_fence_wait_SomeD)

lemma memcpy_init_SomeD:
  "i915_ttm_memcpy_init env s clear dst_mem = Some arg \<Longrightarrow> arg = memcpy_init_arg env s clear"
  by (auto simp: i915_ttm_memcpy_init_def gem_bug_on_def split: option.splits if_splits)

lemma sync_copy_SomeD:
  "sync_copy arg s = Some r \<Longrightarrow> r = (Null, i915_ttm_move_memcpy InMove arg s)"
  by (auto simp: sync_copy_def dest: release_SomeD)

lemma move_SomeD:
  assumes "uu_i915_ttm_move env s clear dst_mem allow_accel move_deps = Some r"
  shows "r = move_run env s clear dst_mem allow_accel move_deps"
proof -
  obtain fence s1 where a: "(if allow_accel then accel_move_run env s clear dst_mem
                             else (ERR_PTR (- EINVAL), s)) = (fence, s1)"
    by (cases "if allow_accel then accel_move_run env s clear dst_mem
               else (ERR_PTR (- EINVAL), s)") blast
  have b: "(if allow_accel then i915_ttm_accel_move env s clear dst_mem
            else Some (ERR_PTR (- EINVAL), s)) = Some (fence, s1)"
    using assms a
    by (auto simp: uu_i915_ttm_move_def split: if_splits option.splits dest!: accel_move_SomeD)
  obtain f2 t where arm: "work_arm_run env (emit [WorkAlloc] s1) (memcpy_init_arg env s1 clear)
      = (f2, t)"
    by (cases "work_arm_run env (emit [WorkAlloc] s1) (memcpy_init_arg env s1 clear)") blast
  from assms show ?thesis
    unfolding uu_i915_ttm_move_def move_run_def a b Let_def option.case prod.case
    by (auto simp: arm split: if_splits option.splits
        dest!: memcpy_init_SomeD work_arm_SomeD dma_fence_wait_SomeD sync_copy_SomeD
          release_SomeD)
qed

lemma move_epilogue_SomeD:
  "move_epilogue env s f dst_mem dst_rsgt = Some r \<Longrightarrow>
   epilogue_run env s f dst_mem dst_rsgt = Some r"
  by (auto simp: move_epilogue_def epilogue_run_def Let_def
      split: if_splits option.splits dest!: dma_fence_wait_SomeD)

lemma ttm_move_SomeD:
  assumes "i915_ttm_move env s evict dst_mem = Some r"
  shows "ttm_move_run env s evict dst_mem = Some r"
  using assms
  unfolding i915_ttm_move_def ttm_move_run_def Let_def
  by (auto split: if_splits option.splits fence_ptr.splits prod.splits
      dest!: move_SomeD move_epilogue_SomeD)

subsection \<open>When the migration returns\<close>

text \<open>
  The arguments of the fallback tasks that are registered or queued hold no error pointer,
  so that releasing them does not fault.
\<close>

definition pending_ok :: "i915_ttm_memcpy_arg option \<Rightarrow> bool" where
  "pending_ok x = (case x of None \<Rightarrow> True | Some arg \<Rightarrow> arg_src_rsgt_err arg = 0)"

definition args_ok :: "ttm_state \<Rightarrow> bool" where
  "args_ok s \<longleftrightarrow> pending_ok (blit_cb s) \<and> pending_ok (queued_work s)
     \<and> pending_ok (queued_irq_work s)"

text \<open>Both memory types of the move have a memory region.\<close>

definition regions_found :: "move_env \<Rightarrow> ttm_state \<Rightarrow> ttm_resource \<Rightarrow> bool" where
  "regions_found env s dst_mem \<longleftrightarrow>
     i915_ttm_region env (mem_type dst_mem) = Some True
     \<and> i915_ttm_region env (mem_type (bo_resource s)) = Some True"

text \<open>
  The buffer has a \<open>ttm\<close>, or the destination is one for which the move never reads it: the
  CPU maps it as iomem, and its cache level does not depend on the caching of the \<open>ttm\<close>.
\<close>

definition ttm_safe :: "ttm_state \<Rightarrow> ttm_resource \<Rightarrow> bool" where
  "ttm_safe s dst_mem \<longleftrightarrow>
     bo_ttm s \<noteq> None
     \<or> (cpu_maps_iomem dst_mem \<and> (gtt_binds_lmem dst_mem \<or> \<not> (has_llc s \<or> has_snoop s)))"

lemma args_ok_emit [simp]: "args_ok (emit es s) = args_ok s"
  by (simp add: args_ok_def emit_def)

lemma run_queued_returns: "args_ok s \<Longrightarrow> run_queued s = Some (queued_run s)"
  by (auto simp: args_ok_def pending_ok_def run_queued_def queued_run_def Let_def
      uu_memcpy_work_def uu_memcpy_irq_work_def memcpy_work_run_def memcpy_irq_work_run_def
      i915_ttm_memcpy_release_def i915_ttm_move_memcpy_def emit_def split: option.splits)

lemma args_ok_queued_run: "args_ok s \<Longrightarrow> args_ok (queued_run s)"
  by (auto simp: args_ok_def pending_ok_def queued_run_def Let_def memcpy_work_run_def
      memcpy_irq_work_run_def i915_ttm_move_memcpy_def emit_def split: option.splits)

lemma args_ok_gpu_complete [simp]: "args_ok (gpu_complete env s) = args_ok s"
  by (simp add: args_ok_def gpu_complete_def split: option.splits)

lemma args_ok_signal: "args_ok s \<Longrightarrow> args_ok (signal_blit_fence env s)"
  by (auto simp: args_ok_def pending_ok_def signal_blit_fence_def gpu_complete_def Let_def
      uu_memcpy_cb_def emit_def split: option.splits)

lemma args_ok_memcpy [simp]: "args_ok (i915_ttm_move_memcpy ctx arg s) = args_ok s"
  by (simp add: args_ok_def i915_ttm_move_memcpy_def emit_def)

lemma dma_fence_wait_returns:
  "args_ok s \<Longrightarrow> dma_fence_wait env s = Some (fence_wait_run env s)"
  by (simp add: dma_fence_wait_def fence_wait_run_def run_queued_returns args_ok_signal)

lemma settle_returns: "args_ok s \<Longrightarrow> settle env s = Some (settle_run env s)"
  by (simp add: settle_def settle_run_def run_queued_returns args_ok_signal)

lemma args_ok_wait: "args_ok s \<Longrightarrow> args_ok (fence_wait_run env s)"
  by (simp add: fence_wait_run_def args_ok_queued_run args_ok_signal)

lemma args_ok_settle: "args_ok s \<Longrightarrow> args_ok (settle_run env s)"
  by (simp add: settle_run_def args_ok_queued_run args_ok_signal)

lemma args_ok_accel [simp]:
  "args_ok (snd (accel_move_run env s clear dst_mem)) = args_ok s"
  by (simp add: accel_move_run_def migrate_submit_def args_ok_def emit_def Let_def)

lemma resource_accel [simp]:
  "bo_resource (snd (accel_move_run env s clear dst_mem)) = bo_resource s"
  by (simp add: accel_move_run_def migrate_submit_def emit_def Let_def)

lemma resource_wait [simp]: "bo_resource (fence_wait_run env s) = bo_resource s"
  by (simp add: fence_wait_run_def queued_run_def signal_blit_fence_def gpu_complete_def
      uu_memcpy_cb_def memcpy_irq_work_run_def memcpy_work_run_def i915_ttm_move_memcpy_def
      emit_def Let_def split: option.splits)

lemma accel_move_returns:
  assumes "bo_ttm s \<noteq> None
     \<or> ((fail_gpu_migration s \<or> clear)
          \<and> (gtt_binds_lmem dst_mem \<or> \<not> (has_llc s \<or> has_snoop s)))"
  shows "i915_ttm_accel_move env s clear dst_mem = Some (accel_move_run env s clear dst_mem)"
  using assms
  by (auto simp: i915_ttm_accel_move_def accel_move_run_def i915_ttm_cache_level_def Let_def)

lemma work_arm_returns:
  "args_ok s \<Longrightarrow> i915_ttm_memcpy_work_arm env s arg = Some (work_arm_run env s arg)"
  by (simp add: i915_ttm_memcpy_work_arm_def work_arm_run_def dma_fence_wait_returns Let_def)

lemma memcpy_init_returns:
  assumes "regions_found env s dst_mem" and "bo_resource t = bo_resource s"
  shows "i915_ttm_memcpy_init env t clear dst_mem = Some (memcpy_init_arg env t clear)"
  using assms by (simp add: regions_found_def i915_ttm_memcpy_init_def gem_bug_on_def)

lemma sync_copy_returns:
  "clear \<or> init_src_st_err env = 0 \<Longrightarrow>
   sync_copy (memcpy_init_arg env t clear) s
     = Some (Null, i915_ttm_move_memcpy InMove (memcpy_init_arg env t clear) s)"
  by (auto simp: sync_copy_def i915_ttm_memcpy_release_def memcpy_init_arg_def)

lemma init_arg_release:
  "clear \<or> init_src_st_err env = 0 \<Longrightarrow>
   i915_ttm_memcpy_release (memcpy_init_arg env t clear) k = Some k"
  by (auto simp: i915_ttm_memcpy_release_def memcpy_init_arg_def)

lemma resource_gpu_complete [simp]: "bo_resource (gpu_complete env s) = bo_resource s"
  by (simp add: gpu_complete_def split: option.splits)

lemma resource_work_arm [simp]:
  "bo_resource (snd (work_arm_run env s arg)) = bo_resource s"
  by (simp add: work_arm_run_def Let_def)

lemma move_returns:
  assumes acc: "allow_accel \<Longrightarrow>
      i915_ttm_accel_move env s clear dst_mem = Some (accel_move_run env s clear dst_mem)"
    and reg: "regions_found env s dst_mem"
    and src: "clear \<or> init_src_st_err env = 0"
    and ok: "args_ok s"
  shows "uu_i915_ttm_move env s clear dst_mem allow_accel move_deps
     = Some (move_run env s clear dst_mem allow_accel move_deps)"
proof -
  obtain fence s1 where a: "(if allow_accel then accel_move_run env s clear dst_mem
                             else (ERR_PTR (- EINVAL), s)) = (fence, s1)"
    by (cases "if allow_accel then accel_move_run env s clear dst_mem
               else (ERR_PTR (- EINVAL), s)") blast
  have b: "(if allow_accel then i915_ttm_accel_move env s clear dst_mem
            else Some (ERR_PTR (- EINVAL), s)) = Some (fence, s1)"
    using acc a by (simp split: if_splits)
  have "s1 = snd (if allow_accel then accel_move_run env s clear dst_mem
                  else (ERR_PTR (- EINVAL), s))"
    by (simp only: a snd_conv)
  then have s1: "bo_resource s1 = bo_resource s" "args_ok s1"
    using ok by (simp_all split: if_splits)
  obtain f2 t where arm: "work_arm_run env (emit [WorkAlloc] s1) (memcpy_init_arg env s1 clear)
      = (f2, t)"
    by (cases "work_arm_run env (emit [WorkAlloc] s1) (memcpy_init_arg env s1 clear)") blast
  have arm': "i915_ttm_memcpy_work_arm env (emit [WorkAlloc] s1) (memcpy_init_arg env s1 clear)
      = Some (f2, t)"
    using work_arm_returns [of "emit [WorkAlloc] s1" env] s1(2) arm by simp
  have init: "i915_ttm_memcpy_init env x clear dst_mem = Some (memcpy_init_arg env x clear)"
    if "bo_resource x = bo_resource s" for x
    by (rule memcpy_init_returns [OF reg that])
  have i1: "i915_ttm_memcpy_init env s1 clear dst_mem = Some (memcpy_init_arg env s1 clear)"
    "i915_ttm_memcpy_init env (emit [DepsSync] s1) clear dst_mem
       = Some (memcpy_init_arg env (emit [DepsSync] s1) clear)"
    "i915_ttm_memcpy_init env (fence_wait_run env s1) clear dst_mem
       = Some (memcpy_init_arg env (fence_wait_run env s1) clear)"
    using s1(1) by (simp_all add: init emit_def)
  have w: "dma_fence_wait env s1 = Some (fence_wait_run env s1)"
    by (rule dma_fence_wait_returns [OF s1(2)])
  show ?thesis
    unfolding uu_i915_ttm_move_def move_run_def a b Let_def option.case prod.case
    using src
    by (simp add: arm arm' i1 w sync_copy_returns init_arg_release)
qed

lemma args_ok_work_arm:
  assumes "args_ok s" "arg_src_rsgt_err arg = 0"
  shows "args_ok (snd (work_arm_run env s arg))"
proof -
  have "args_ok (s\<lparr>blit_cb := Some arg\<rparr>)"
    using assms by (simp add: args_ok_def pending_ok_def)
  with assms(1) args_ok_wait [OF assms(1), of env] show ?thesis
    by (simp add: work_arm_run_def Let_def)
qed

lemma args_ok_move:
  assumes "args_ok s" "clear \<or> init_src_st_err env = 0"
  shows "args_ok (snd (move_run env s clear dst_mem allow_accel move_deps))"
proof -
  let ?s1 = "snd (accel_move_run env s clear dst_mem)"
  have 1: "args_ok ?s1" using assms(1) by simp
  have 2: "arg_src_rsgt_err (memcpy_init_arg env x clear) = 0" for x
    using assms(2) by (auto simp: memcpy_init_arg_def)
  have 3: "args_ok (snd (work_arm_run env (emit [WorkAlloc] t) (memcpy_init_arg env x clear)))"
    if "args_ok t" for t x
    by (rule args_ok_work_arm) (simp_all add: that 2)
  show ?thesis
    using assms(1) 1 3 [OF 1] 3 [OF assms(1)] args_ok_wait [OF 1, of env]
      args_ok_wait [OF assms(1), of env]
    by (auto simp: move_run_def Let_def case_prod_beta)
qed

lemma epilogue_returns:
  assumes "f = Null \<or> accel_cleanup_ret env = 0 \<or> args_ok s"
  shows "move_epilogue env s f dst_mem dst_rsgt = epilogue_run env s f dst_mem dst_rsgt"
  using assms
  by (auto simp: move_epilogue_def epilogue_run_def Let_def dma_fence_wait_returns)

section \<open>Properties of the migration\<close>


subsection \<open>What the data path leaves alone\<close>

text \<open>
  The recorded placement of the buffer: its resource, the owning region, mem_flags, the
  cache level, the write and read domains and the cached I/O scatter-list with its lookup
  cursor.
\<close>

definition placement_bookkeeping ::
  "ttm_state \<Rightarrow> ttm_resource \<times> intel_memory_region \<times> u32 \<times> nat \<times> u32 \<times> u32
     \<times> nat option \<times> nat option \<times> nat" where
  "placement_bookkeeping s =
     (bo_resource s, mm_region s, mem_flags s, cache_level s, write_domain s, read_domains s,
      cached_io_rsgt s, get_io_page_sg_pos s, get_io_page_sg_idx s)"

lemma bookkeeping_emit [simp]: "placement_bookkeeping (emit es s) = placement_bookkeeping s"
  by (simp add: placement_bookkeeping_def emit_def)

lemma bookkeeping_gpu_complete [simp]:
  "placement_bookkeeping (gpu_complete env s) = placement_bookkeeping s"
  by (simp add: placement_bookkeeping_def gpu_complete_def split: option.splits)

lemma bookkeeping_memcpy [simp]:
  "placement_bookkeeping (i915_ttm_move_memcpy ctx arg s) = placement_bookkeeping s"
  by (simp add: placement_bookkeeping_def i915_ttm_move_memcpy_def emit_def)

lemma bookkeeping_memcpy_cb [simp]:
  "placement_bookkeeping (uu_memcpy_cb e arg s) = placement_bookkeeping s"
  by (simp add: placement_bookkeeping_def uu_memcpy_cb_def emit_def)

lemma bookkeeping_signal [simp]:
  "placement_bookkeeping (signal_blit_fence env s) = placement_bookkeeping s"
proof (cases "blit s")
  case None
  then show ?thesis by (simp add: signal_blit_fence_def)
next
  case (Some k)
  have "placement_bookkeeping ((gpu_complete env s)\<lparr>blit_cb := None\<rparr>) = placement_bookkeeping s"
    using bookkeeping_gpu_complete [of env s] by (simp add: placement_bookkeeping_def)
  with Some show ?thesis
    by (simp add: signal_blit_fence_def Let_def split: option.splits)
qed

lemma bookkeeping_run_queued [simp]:
  "placement_bookkeeping (queued_run s) = placement_bookkeeping s"
  by (simp add: queued_run_def Let_def memcpy_irq_work_run_def memcpy_work_run_def
      i915_ttm_move_memcpy_def emit_def placement_bookkeeping_def split: option.splits)

lemma bookkeeping_fence_wait [simp]:
  "placement_bookkeeping (fence_wait_run env s) = placement_bookkeeping s"
  by (simp add: fence_wait_run_def)

lemma bookkeeping_submit [simp]:
  "placement_bookkeeping (snd (migrate_submit env s k)) = placement_bookkeeping s"
  by (simp add: migrate_submit_def emit_def placement_bookkeeping_def)

lemma bookkeeping_accel_move [simp]:
  "placement_bookkeeping (snd (accel_move_run env s clear dst_mem)) = placement_bookkeeping s"
  by (simp add: accel_move_run_def Let_def)

lemma bookkeeping_work_arm [simp]:
  "placement_bookkeeping (snd (work_arm_run env s arg)) = placement_bookkeeping s"
  by (simp add: work_arm_run_def Let_def)
     (simp add: placement_bookkeeping_def)

lemma bookkeeping_move [simp]:
  "placement_bookkeeping (snd (move_run env s clear dst_mem allow_accel move_deps))
     = placement_bookkeeping s"
  by (simp add: move_run_def Let_def case_prod_beta)

lemma bookkeeping_populate [simp]:
  "placement_bookkeeping (ttm_tt_populate s) = placement_bookkeeping s"
  by (simp add: ttm_tt_populate_def placement_bookkeeping_def)

lemma move_epilogue_success:
  "epilogue_run env s f dst_mem dst_rsgt = Some (ret, s') \<Longrightarrow> ret = 0"
  by (auto simp: epilogue_run_def Let_def split: option.splits)

subsection \<open>A failed move leaves the placement as it was\<close>

lemma failed_run_keeps_placement:
  assumes "ttm_move_run env s evict dst_mem = Some (ret, s')" and "ret \<noteq> 0"
  shows "placement_bookkeeping s' = placement_bookkeeping s"
proof -
  let ?s1 = "if (case bo_ttm s of None \<Rightarrow> False
                 | Some ttm \<Rightarrow> man_use_tt dst_mem \<or> tt_swapped ttm)
             then ttm_tt_populate s else s"
  have s1: "placement_bookkeeping ?s1 = placement_bookkeeping s"
    by simp
  from assms show ?thesis
    unfolding ttm_move_run_def Let_def
    by (auto simp: case_prod_beta s1 split: if_splits fence_ptr.splits
        dest!: move_epilogue_success)
qed

lemmas move_defs =
  i915_ttm_move_def i915_ttm_move_notify_def prev_deps_def uu_i915_ttm_move_def
  i915_ttm_accel_move_def i915_ttm_cache_level_def migrate_submit_def
  i915_ttm_memcpy_work_arm_def i915_ttm_memcpy_init_def i915_ttm_region_def
  memcpy_init_arg_def sync_copy_def i915_ttm_memcpy_release_def i915_ttm_move_memcpy_def
  ttm_move_memcpy_def dma_fence_wait_def settle_def run_queued_def signal_blit_fence_def
  gpu_complete_def uu_memcpy_cb_def uu_memcpy_work_def uu_memcpy_irq_work_def
  move_epilogue_def ttm_bo_move_sync_cleanup_def i915_ttm_adjust_domains_after_move_def
  i915_ttm_adjust_gem_after_move_def ttm_tt_populate_def ttm_resource_free_def
  i915_ttm_purge_def gem_bug_on_def emit_def ERR_PTR_def Let_def

lemmas example_defs =
  ok_env_def all_regions_def sys_bo_def sys_mem_def lmem_def region_smem_def region_lmem_def
  I915_MADV_WILLNEED_def I915_MADV_DONTNEED_def I915_PL_SYSTEM_def I915_PL_LMEM0_def
  I915_CACHE_NONE_def I915_CACHE_LLC_def I915_BO_FLAG_STRUCT_PAGE_def I915_BO_FLAG_IOMEM_def
  I915_GEM_DOMAIN_WC_def I915_GEM_DOMAIN_CPU_def
  EINVAL_def ERESTARTSYS_def ENOENT_def EBUSY_def ENOMEM_def

text \<open>
  C2: whenever i915_ttm_move returns a nonzero error, the placement bookkeeping of the
  buffer (resource, owning region, mem_flags, cache level, write and read domains, cached
  I/O scatter-list) is what it was before the call.
\<close>

theorem failed_move_keeps_placement:
  assumes "i915_ttm_move env s evict dst_mem = Some (ret, s')" and "ret \<noteq> 0"
  shows "placement_bookkeeping s' = placement_bookkeeping s"
  using failed_run_keeps_placement [OF ttm_move_SomeD [OF assms(1)] assms(2)] .

theorem failed_move_keeps_placement_witness:
  "i915_ttm_move (ok_env\<lparr>deps_sync_ret := - ERESTARTSYS\<rparr>) (sys_bo\<lparr>gt_wedged := True\<rparr>) False lmem
     = Some (- ERESTARTSYS, emit [DepsSync] (sys_bo\<lparr>gt_wedged := True\<rparr>))
   \<and> - ERESTARTSYS \<noteq> (0::int)
   \<and> placement_bookkeeping (emit [DepsSync] (sys_bo\<lparr>gt_wedged := True\<rparr>))
       = placement_bookkeeping (sys_bo\<lparr>gt_wedged := True\<rparr>)"
proof -
  have run: "i915_ttm_move (ok_env\<lparr>deps_sync_ret := - ERESTARTSYS\<rparr>)
               (sys_bo\<lparr>gt_wedged := True\<rparr>) False lmem
             = Some (- ERESTARTSYS, emit [DepsSync] (sys_bo\<lparr>gt_wedged := True\<rparr>))"
    by (simp add: move_defs example_defs)
  have nz: "- ERESTARTSYS \<noteq> (0::int)" by (simp add: ERESTARTSYS_def)
  from failed_move_keeps_placement [OF run nz] run nz show ?thesis by simp
qed

subsection \<open>Moving a buffer that need not be kept\<close>




subsection \<open>Arming the error intercept\<close>

text \<open>
  A successful accelerated submission is a pending blit, and its fence is the blit fence.
\<close>

lemma accel_move_submitted:
  assumes "accel_move_run env s clear dst_mem = (Ptr f, s1)"
  shows "f = BlitFence \<and> (\<exists>k. s1 = emit [GpuSubmit k] (s\<lparr>blit := Some k\<rparr>))"
  using assms
  by (auto simp: accel_move_run_def migrate_submit_def ERR_PTR_def Let_def
      split: if_splits)

text \<open>Nothing is in flight: no pending blit, no registered callback, no queued work.\<close>

definition quiescent :: "ttm_state \<Rightarrow> bool" where
  "quiescent s \<longleftrightarrow> blit s = None \<and> blit_cb s = None \<and> queued_work s = None
     \<and> queued_irq_work s = None"

definition lmem_bo :: ttm_state where
  "lmem_bo = sys_bo\<lparr>bo_resource := lmem, mm_region := region_lmem\<rparr>"

lemma settle_irq:
  assumes "blit s2 \<noteq> None" "blit_cb s2 = Some arg" "queued_work s2 = None"
    "queued_irq_work s2 = None" "blit_error env = 0" "\<not> fail_gpu_migration s2"
    "arg_src_rsgt_err arg = 0"
  shows "settle env s2 = Some (settle_run env s2)"
    and "trace (settle_run env s2) = trace s2 @ [IrqWorkQueue]"
    and "dst_data (settle_run env s2) = dst_data (gpu_complete env s2)"
    and "work_fence_signaled (settle_run env s2)"
proof -
  have "args_ok s2" using assms by (simp add: args_ok_def pending_ok_def)
  then show "settle env s2 = Some (settle_run env s2)" by (rule settle_returns)
  show "trace (settle_run env s2) = trace s2 @ [IrqWorkQueue]"
    "dst_data (settle_run env s2) = dst_data (gpu_complete env s2)"
    "work_fence_signaled (settle_run env s2)"
    using assms
    by (auto simp: settle_run_def signal_blit_fence_def gpu_complete_def emit_def
        uu_memcpy_cb_def queued_run_def memcpy_irq_work_run_def Let_def)
qed

lemma settle_worker:
  assumes "blit s2 \<noteq> None" "blit_cb s2 = Some arg" "queued_work s2 = None"
    "queued_irq_work s2 = None" "blit_error env \<noteq> 0 \<or> fail_gpu_migration s2"
    "arg_src_rsgt_err arg = 0"
  shows "settle env s2 = Some (settle_run env s2)"
    and "trace (settle_run env s2) = trace s2 @ [QueueWork, Memcpy InWorker (arg_clear arg)]"
    and "dst_data (settle_run env s2)
           = ttm_move_memcpy (arg_clear arg) (dst_data (gpu_complete env s2)) (src_data s2)"
    and "work_fence_signaled (settle_run env s2)"
proof -
  have "args_ok s2" using assms by (simp add: args_ok_def pending_ok_def)
  then show "settle env s2 = Some (settle_run env s2)" by (rule settle_returns)
  show "trace (settle_run env s2) = trace s2 @ [QueueWork, Memcpy InWorker (arg_clear arg)]"
    "dst_data (settle_run env s2)
       = ttm_move_memcpy (arg_clear arg) (dst_data (gpu_complete env s2)) (src_data s2)"
    "work_fence_signaled (settle_run env s2)"
    using assms
    by (auto simp: settle_run_def signal_blit_fence_def gpu_complete_def emit_def
        uu_memcpy_cb_def queued_run_def memcpy_work_run_def i915_ttm_move_memcpy_def Let_def)
qed

lemma accel_submitted_state:
  assumes "i915_ttm_accel_move env s clear dst_mem = Some (Ptr f, s1)"
  shows "f = BlitFence" and "\<exists>k. s1 = emit [GpuSubmit k] (s\<lparr>blit := Some k\<rparr>)"
    and "accel_move_run env s clear dst_mem = (Ptr f, s1)"
  using accel_move_submitted [of env s clear dst_mem f s1] accel_move_SomeD [OF assms]
  by simp_all

lemma move_armed:
  assumes sub: "i915_ttm_accel_move env s clear dst_mem = Some (Ptr f, s1)"
    and need: "gtt_binds_lmem dst_mem \<or> fail_gpu_migration s \<or> fail_work_allocation s"
    and alloc: "\<not> fail_work_allocation s" "work_alloc_ok env"
    and cb: "add_callback_ret env = 0"
    and reg: "regions_found env s dst_mem"
  shows "uu_i915_ttm_move env s clear dst_mem True move_deps
     = Some (Ptr WorkFence,
             (emit [WorkAlloc] s1)\<lparr>blit_cb := Some (memcpy_init_arg env s1 clear)\<rparr>)"
proof -
  from accel_submitted_state [OF sub] obtain k
    where f: "f = BlitFence" and s1: "s1 = emit [GpuSubmit k] (s\<lparr>blit := Some k\<rparr>)"
    by blast
  have "bo_resource s1 = bo_resource s" by (simp add: s1 emit_def)
  from memcpy_init_returns [OF reg this]
  have init: "i915_ttm_memcpy_init env s1 clear dst_mem = Some (memcpy_init_arg env s1 clear)" .
  have sw: "fail_gpu_migration s1 = fail_gpu_migration s"
    "fail_work_allocation s1 = fail_work_allocation s"
    by (simp_all add: s1 emit_def)
  show ?thesis
    using need alloc cb
    by (simp add: uu_i915_ttm_move_def sub f ERR_PTR_def sw init
        i915_ttm_memcpy_work_arm_def Let_def)
qed

lemma move_not_intercepted:
  assumes sub: "i915_ttm_accel_move env s clear dst_mem = Some (Ptr f, s1)"
    and "\<not> gtt_binds_lmem dst_mem" "\<not> fail_gpu_migration s" "\<not> fail_work_allocation s"
  shows "uu_i915_ttm_move env s clear dst_mem True move_deps = Some (Ptr f, s1)"
proof -
  from accel_submitted_state [OF sub] obtain k
    where s1: "s1 = emit [GpuSubmit k] (s\<lparr>blit := Some k\<rparr>)"
    by blast
  have sw: "fail_gpu_migration s1 = fail_gpu_migration s"
    "fail_work_allocation s1 = fail_work_allocation s"
    by (simp_all add: s1 emit_def)
  show ?thesis
    using assms(2-)
    by (simp add: uu_i915_ttm_move_def sub ERR_PTR_def sw)
qed

text \<open>
  C5, as amended: for a buffer with nothing in flight whose accelerated submission
  succeeds.

  When the destination binds local memory or a selftest switch is set, the
  allocation-failure switch is not set, the fallback task is allocated, both memory types
  have a memory region and the callback of the task is registered on the blit fence,
  __i915_ttm_move returns the fence of the fallback task. If moreover the source
  scatter-list looked up for the task is not an error pointer, or the move is a clear, then
  once the blit fence has signalled: when the blit ended without error and the GPU-failure
  switch is not set, the continuation takes the interrupt-context path, which signals the
  fence of the task and copies nothing, so that the destination is what the blit wrote;
  when the blit ended in error or the GPU-failure switch is set, the continuation queues
  the deferred worker, which runs the CPU memcpy/clear and signals the fence of the task.

  When the destination does not bind local memory and no selftest switch is set,
  __i915_ttm_move returns the blit fence itself, no fallback task is allocated and no
  callback is registered.
\<close>

theorem error_intercept_armed:
  assumes sub: "i915_ttm_accel_move env s clear dst_mem = Some (Ptr f, s1)"
    and q: "quiescent s"
  shows "((gtt_binds_lmem dst_mem \<or> fail_gpu_migration s \<or> fail_work_allocation s)
          \<and> \<not> fail_work_allocation s \<and> work_alloc_ok env \<and> regions_found env s dst_mem
          \<and> add_callback_ret env = 0 \<longrightarrow>
          (let s2 = (emit [WorkAlloc] s1)\<lparr>blit_cb := Some (memcpy_init_arg env s1 clear)\<rparr>
           in uu_i915_ttm_move env s clear dst_mem True move_deps = Some (Ptr WorkFence, s2)
            \<and> (clear \<or> init_src_st_err env = 0 \<longrightarrow>
                (blit_error env = 0 \<and> \<not> fail_gpu_migration s \<longrightarrow>
                  (\<exists>t. settle env s2 = Some t
                     \<and> trace t = trace s1 @ [WorkAlloc, IrqWorkQueue]
                     \<and> dst_data t = dst_data (gpu_complete env s1)
                     \<and> work_fence_signaled t))
                \<and> (blit_error env \<noteq> 0 \<or> fail_gpu_migration s \<longrightarrow>
                  (\<exists>t. settle env s2 = Some t
                     \<and> trace t = trace s1 @ [WorkAlloc, QueueWork, Memcpy InWorker clear]
                     \<and> dst_data t = ttm_move_memcpy clear (dst_data (gpu_complete env s1))
                                      (src_data s)
                     \<and> work_fence_signaled t)))))
       \<and> (\<not> gtt_binds_lmem dst_mem \<and> \<not> fail_gpu_migration s \<and> \<not> fail_work_allocation s \<longrightarrow>
            uu_i915_ttm_move env s clear dst_mem True move_deps = Some (Ptr f, s1)
            \<and> f = BlitFence \<and> blit_cb s1 = None
            \<and> (\<exists>k. trace s1 = trace s @ [GpuSubmit k]))"
proof (intro conjI impI)
  from accel_submitted_state [OF sub] obtain k
    where f: "f = BlitFence" and s1: "s1 = emit [GpuSubmit k] (s\<lparr>blit := Some k\<rparr>)"
    by blast
  let ?arg = "memcpy_init_arg env s1 clear"
  let ?s2 = "(emit [WorkAlloc] s1)\<lparr>blit_cb := Some ?arg\<rparr>"
  have s2: "blit ?s2 \<noteq> None" "blit_cb ?s2 = Some ?arg" "queued_work ?s2 = None"
    "queued_irq_work ?s2 = None" "fail_gpu_migration ?s2 = fail_gpu_migration s"
    "trace ?s2 = trace s1 @ [WorkAlloc]" "src_data ?s2 = src_data s"
    "dst_data (gpu_complete env ?s2) = dst_data (gpu_complete env s1)"
    "arg_clear ?arg = clear"
    using q
    by (simp_all add: s1 emit_def quiescent_def gpu_complete_def memcpy_init_arg_def
        split: blit_kind.split)
  {
    assume h: "(gtt_binds_lmem dst_mem \<or> fail_gpu_migration s \<or> fail_work_allocation s)
          \<and> \<not> fail_work_allocation s \<and> work_alloc_ok env \<and> regions_found env s dst_mem
          \<and> add_callback_ret env = 0"
    then have run: "uu_i915_ttm_move env s clear dst_mem True move_deps
        = Some (Ptr WorkFence, ?s2)"
      by (intro move_armed [OF sub]) blast+
    have ok: "\<exists>t. settle env ?s2 = Some t
                     \<and> trace t = trace s1 @ [WorkAlloc, IrqWorkQueue]
                     \<and> dst_data t = dst_data (gpu_complete env s1)
                     \<and> work_fence_signaled t"
      if "clear \<or> init_src_st_err env = 0" "blit_error env = 0 \<and> \<not> fail_gpu_migration s"
    proof -
      have e: "arg_src_rsgt_err ?arg = 0" using that(1) by (auto simp: memcpy_init_arg_def)
      from that(2) have b: "blit_error env = 0" "\<not> fail_gpu_migration ?s2"
        using s2(5) by simp_all
      note r = settle_irq [OF s2(1,2,3,4) b e]
      show ?thesis
        by (intro exI [of _ "settle_run env ?s2"]) (simp add: r s2(6,8))
    qed
    have err: "\<exists>t. settle env ?s2 = Some t
                     \<and> trace t = trace s1 @ [WorkAlloc, QueueWork, Memcpy InWorker clear]
                     \<and> dst_data t = ttm_move_memcpy clear (dst_data (gpu_complete env s1))
                                      (src_data s)
                     \<and> work_fence_signaled t"
      if "clear \<or> init_src_st_err env = 0" "blit_error env \<noteq> 0 \<or> fail_gpu_migration s"
    proof -
      have e: "arg_src_rsgt_err ?arg = 0" using that(1) by (auto simp: memcpy_init_arg_def)
      from that(2) have b: "blit_error env \<noteq> 0 \<or> fail_gpu_migration ?s2"
        using s2(5) by simp
      note r = settle_worker [OF s2(1,2,3,4) b e]
      show ?thesis
        by (intro exI [of _ "settle_run env ?s2"]) (simp add: r s2(6,7,8,9))
    qed
    from run ok err
    show "let s2 = (emit [WorkAlloc] s1)\<lparr>blit_cb := Some (memcpy_init_arg env s1 clear)\<rparr>
           in uu_i915_ttm_move env s clear dst_mem True move_deps = Some (Ptr WorkFence, s2)
            \<and> (clear \<or> init_src_st_err env = 0 \<longrightarrow>
                (blit_error env = 0 \<and> \<not> fail_gpu_migration s \<longrightarrow>
                  (\<exists>t. settle env s2 = Some t
                     \<and> trace t = trace s1 @ [WorkAlloc, IrqWorkQueue]
                     \<and> dst_data t = dst_data (gpu_complete env s1)
                     \<and> work_fence_signaled t))
                \<and> (blit_error env \<noteq> 0 \<or> fail_gpu_migration s \<longrightarrow>
                  (\<exists>t. settle env s2 = Some t
                     \<and> trace t = trace s1 @ [WorkAlloc, QueueWork, Memcpy InWorker clear]
                     \<and> dst_data t = ttm_move_memcpy clear (dst_data (gpu_complete env s1))
                                      (src_data s)
                     \<and> work_fence_signaled t)))"
      unfolding Let_def by blast
  }
  {
    assume h: "\<not> gtt_binds_lmem dst_mem \<and> \<not> fail_gpu_migration s \<and> \<not> fail_work_allocation s"
    then show "uu_i915_ttm_move env s clear dst_mem True move_deps = Some (Ptr f, s1)"
      by (intro move_not_intercepted [OF sub]) simp_all
    show "f = BlitFence" by (rule f)
    show "blit_cb s1 = None" using q by (simp add: s1 emit_def quiescent_def)
    show "\<exists>k. trace s1 = trace s @ [GpuSubmit k]" by (auto simp: s1 emit_def)
  }
qed

theorem error_intercept_armed_witness:
  "i915_ttm_accel_move ok_env sys_bo False lmem
     = Some (Ptr BlitFence, emit [GpuSubmit BlitCopy] (sys_bo\<lparr>blit := Some BlitCopy\<rparr>))
   \<and> quiescent sys_bo
   \<and> uu_i915_ttm_move ok_env sys_bo False lmem True True
     = Some (Ptr WorkFence,
        (emit [WorkAlloc] (emit [GpuSubmit BlitCopy] (sys_bo\<lparr>blit := Some BlitCopy\<rparr>)))
          \<lparr>blit_cb := Some (memcpy_init_arg ok_env sys_bo False)\<rparr>)
   \<and> (\<exists>t. settle ok_env
        ((emit [WorkAlloc] (emit [GpuSubmit BlitCopy] (sys_bo\<lparr>blit := Some BlitCopy\<rparr>)))
          \<lparr>blit_cb := Some (memcpy_init_arg ok_env sys_bo False)\<rparr>) = Some t
        \<and> trace t = [GpuSubmit BlitCopy, WorkAlloc, IrqWorkQueue]
        \<and> dst_data t = [1, 2, 3, 4])
   \<and> (\<exists>t. settle (ok_env\<lparr>blit_error := - EINVAL\<rparr>)
        ((emit [WorkAlloc] (emit [GpuSubmit BlitCopy] (sys_bo\<lparr>blit := Some BlitCopy\<rparr>)))
          \<lparr>blit_cb := Some (memcpy_init_arg ok_env sys_bo False)\<rparr>) = Some t
        \<and> trace t = [GpuSubmit BlitCopy, WorkAlloc, QueueWork, Memcpy InWorker False]
        \<and> dst_data t = [1, 2, 3, 4])
   \<and> i915_ttm_accel_move ok_env lmem_bo False sys_mem
     = Some (Ptr BlitFence, emit [GpuSubmit BlitCopy] (lmem_bo\<lparr>blit := Some BlitCopy\<rparr>))
   \<and> quiescent lmem_bo \<and> \<not> gtt_binds_lmem sys_mem
   \<and> \<not> fail_gpu_migration lmem_bo \<and> \<not> fail_work_allocation lmem_bo
   \<and> uu_i915_ttm_move ok_env lmem_bo False sys_mem True True
     = Some (Ptr BlitFence, emit [GpuSubmit BlitCopy] (lmem_bo\<lparr>blit := Some BlitCopy\<rparr>))"
proof -
  let ?bad = "ok_env\<lparr>blit_error := - EINVAL\<rparr>"
  let ?s1 = "emit [GpuSubmit BlitCopy] (sys_bo\<lparr>blit := Some BlitCopy\<rparr>)"
  have sub: "i915_ttm_accel_move ok_env sys_bo False lmem = Some (Ptr BlitFence, ?s1)"
    by (simp add: i915_ttm_accel_move_def i915_ttm_cache_level_def migrate_submit_def
        ok_env_def sys_bo_def lmem_def sys_mem_def)
  have sub': "i915_ttm_accel_move ?bad sys_bo False lmem = Some (Ptr BlitFence, ?s1)"
    by (simp add: i915_ttm_accel_move_def i915_ttm_cache_level_def migrate_submit_def
        ok_env_def sys_bo_def lmem_def sys_mem_def)
  have q: "quiescent sys_bo" by (simp add: quiescent_def sys_bo_def)
  have h: "(gtt_binds_lmem lmem \<or> fail_gpu_migration sys_bo \<or> fail_work_allocation sys_bo)
      \<and> \<not> fail_work_allocation sys_bo \<and> work_alloc_ok ok_env
      \<and> regions_found ok_env sys_bo lmem \<and> add_callback_ret ok_env = 0"
    "(gtt_binds_lmem lmem \<or> fail_gpu_migration sys_bo \<or> fail_work_allocation sys_bo)
      \<and> \<not> fail_work_allocation sys_bo \<and> work_alloc_ok ?bad
      \<and> regions_found ?bad sys_bo lmem \<and> add_callback_ret ?bad = 0"
    by (simp_all add: regions_found_def i915_ttm_region_def gem_bug_on_def example_defs)
  have e: "False \<or> init_src_st_err ok_env = 0" "False \<or> init_src_st_err ?bad = 0"
    "blit_error ok_env = 0 \<and> \<not> fail_gpu_migration sys_bo"
    "blit_error ?bad \<noteq> 0 \<or> fail_gpu_migration sys_bo"
    by (simp_all add: ok_env_def sys_bo_def EINVAL_def)
  have init: "memcpy_init_arg ok_env ?s1 False = memcpy_init_arg ok_env sys_bo False"
    "memcpy_init_arg ?bad ?s1 False = memcpy_init_arg ok_env sys_bo False"
    by (simp_all add: memcpy_init_arg_def emit_def)
  have t: "trace ?s1 = [GpuSubmit BlitCopy]"
    by (simp add: emit_def sys_bo_def)
  have d: "dst_data (gpu_complete ok_env ?s1) = [1, 2, 3, 4]"
    "ttm_move_memcpy False (dst_data (gpu_complete ?bad ?s1)) (src_data sys_bo) = [1, 2, 3, 4]"
    by (simp_all add: gpu_complete_def ttm_move_memcpy_def emit_def sys_bo_def ok_env_def)
  have sub3: "i915_ttm_accel_move ok_env lmem_bo False sys_mem
     = Some (Ptr BlitFence, emit [GpuSubmit BlitCopy] (lmem_bo\<lparr>blit := Some BlitCopy\<rparr>))"
    by (simp add: i915_ttm_accel_move_def i915_ttm_cache_level_def migrate_submit_def
        ok_env_def lmem_bo_def sys_bo_def lmem_def sys_mem_def)
  have q3: "quiescent lmem_bo" by (simp add: quiescent_def lmem_bo_def sys_bo_def)
  have h3: "\<not> gtt_binds_lmem sys_mem \<and> \<not> fail_gpu_migration lmem_bo
      \<and> \<not> fail_work_allocation lmem_bo"
    by (simp add: lmem_bo_def sys_bo_def sys_mem_def)
  from error_intercept_armed [OF sub3 q3, of True] h3
  have third: "uu_i915_ttm_move ok_env lmem_bo False sys_mem True True
     = Some (Ptr BlitFence, emit [GpuSubmit BlitCopy] (lmem_bo\<lparr>blit := Some BlitCopy\<rparr>))"
    by blast
  from error_intercept_armed [OF sub q, of True]
       error_intercept_armed [OF sub' q, of True] sub q h e
  have first: "uu_i915_ttm_move ok_env sys_bo False lmem True True
     = Some (Ptr WorkFence,
        (emit [WorkAlloc] (emit [GpuSubmit BlitCopy] (sys_bo\<lparr>blit := Some BlitCopy\<rparr>)))
          \<lparr>blit_cb := Some (memcpy_init_arg ok_env sys_bo False)\<rparr>)
   \<and> (\<exists>t. settle ok_env
        ((emit [WorkAlloc] (emit [GpuSubmit BlitCopy] (sys_bo\<lparr>blit := Some BlitCopy\<rparr>)))
          \<lparr>blit_cb := Some (memcpy_init_arg ok_env sys_bo False)\<rparr>) = Some t
        \<and> trace t = [GpuSubmit BlitCopy, WorkAlloc, IrqWorkQueue]
        \<and> dst_data t = [1, 2, 3, 4])
   \<and> (\<exists>t. settle (ok_env\<lparr>blit_error := - EINVAL\<rparr>)
        ((emit [WorkAlloc] (emit [GpuSubmit BlitCopy] (sys_bo\<lparr>blit := Some BlitCopy\<rparr>)))
          \<lparr>blit_cb := Some (memcpy_init_arg ok_env sys_bo False)\<rparr>) = Some t
        \<and> trace t = [GpuSubmit BlitCopy, WorkAlloc, QueueWork, Memcpy InWorker False]
        \<and> dst_data t = [1, 2, 3, 4])"
    by (simp add: Let_def init t d) blast
  from first third sub q sub3 q3 h3 show ?thesis by blast
qed

text \<open>
  C5 as stated fails: moving from local to system memory with no selftest switch set, the
  submission succeeds and __i915_ttm_move returns the blit fence itself; no fallback task
  is allocated and no callback is registered.
\<close>

theorem no_intercept_to_system:
  "i915_ttm_accel_move ok_env lmem_bo False sys_mem
     = Some (Ptr BlitFence, emit [GpuSubmit BlitCopy] (lmem_bo\<lparr>blit := Some BlitCopy\<rparr>))
   \<and> uu_i915_ttm_move ok_env lmem_bo False sys_mem True True
     = Some (Ptr BlitFence, emit [GpuSubmit BlitCopy] (lmem_bo\<lparr>blit := Some BlitCopy\<rparr>))
   \<and> blit_cb (emit [GpuSubmit BlitCopy] (lmem_bo\<lparr>blit := Some BlitCopy\<rparr>)) = None
   \<and> trace (emit [GpuSubmit BlitCopy] (lmem_bo\<lparr>blit := Some BlitCopy\<rparr>)) = [GpuSubmit BlitCopy]"
  by (simp add: uu_i915_ttm_move_def i915_ttm_accel_move_def i915_ttm_cache_level_def
      migrate_submit_def ok_env_def lmem_bo_def sys_bo_def sys_mem_def lmem_def emit_def)

text \<open>
  The error pointer that i915_ttm_memcpy_init stores unchecked: when the lookup of the
  source scatter-list fails there, the fallback task is armed all the same, and releasing
  its argument once the blit fence has signalled is a fault.
\<close>

lemma unchecked_source_lookup_faults:
  "\<exists>s2. uu_i915_ttm_move (ok_env\<lparr>init_src_st_err := - ENOMEM\<rparr>) sys_bo False lmem True True
          = Some (Ptr WorkFence, s2)
     \<and> settle (ok_env\<lparr>init_src_st_err := - ENOMEM\<rparr>) s2 = None"
  by (simp add: move_defs example_defs)

subsection \<open>The stages of a move\<close>

text \<open>
  Names for the conditions i915_ttm_move tests on its way to the data path: the
  preparatory steps all succeed (notify, populate when it is needed, the destination
  scatter-list, collecting the dependencies); the state after the populate step; the value
  of \<open>clear\<close>; the case in which the data path is skipped because unpopulated system memory
  need not be zeroed; and a blit that the engine accepts.
\<close>

definition prepared :: "move_env \<Rightarrow> ttm_state \<Rightarrow> ttm_resource \<Rightarrow> bool" where
  "prepared env s dst_mem \<longleftrightarrow>
     i915_ttm_move_notify env = 0
     \<and> ((case bo_ttm s of None \<Rightarrow> False | Some ttm \<Rightarrow> man_use_tt dst_mem \<or> tt_swapped ttm)
          \<longrightarrow> populate_ret env = 0)
     \<and> dst_st_err env = 0 \<and> prev_deps env = 0"

definition after_populate :: "ttm_state \<Rightarrow> ttm_resource \<Rightarrow> ttm_state" where
  "after_populate s dst_mem =
     (if (case bo_ttm s of None \<Rightarrow> False | Some ttm \<Rightarrow> man_use_tt dst_mem \<or> tt_swapped ttm)
      then ttm_tt_populate s else s)"

definition move_clears :: "ttm_state \<Rightarrow> ttm_resource \<Rightarrow> bool" where
  "move_clears s dst_mem \<longleftrightarrow>
     \<not> cpu_maps_iomem (bo_resource (after_populate s dst_mem))
     \<and> (case bo_ttm (after_populate s dst_mem) of
          None \<Rightarrow> True
        | Some ttm \<Rightarrow> \<not> tt_populated ttm)"

definition nothing_to_move :: "ttm_state \<Rightarrow> ttm_resource \<Rightarrow> bool" where
  "nothing_to_move s dst_mem \<longleftrightarrow>
     move_clears s dst_mem
     \<and> (case bo_ttm (after_populate s dst_mem) of
          None \<Rightarrow> False
        | Some ttm \<Rightarrow> \<not> tt_zero_alloc ttm)"

definition submitted :: "move_env \<Rightarrow> ttm_state \<Rightarrow> bool" where
  "submitted env s \<longleftrightarrow> migrate_context s \<and> \<not> gt_wedged s \<and> migrate_ret env = 0"

text \<open>
  No fallback task exists: none was allocated and no callback is registered on a blit fence.
\<close>

definition no_task :: "ttm_state \<Rightarrow> bool" where
  "no_task s \<longleftrightarrow> WorkAlloc \<notin> set (trace s) \<and> blit_cb s = None"

text \<open>
  The part of the state the data path works on: the switches, the contents, what is in
  flight, and the trace.
\<close>

definition data_path ::
  "ttm_state \<Rightarrow> bool \<times> bool \<times> 8 word list \<times> 8 word list \<times> blit_kind option
     \<times> i915_ttm_memcpy_arg option \<times> i915_ttm_memcpy_arg option \<times> i915_ttm_memcpy_arg option
     \<times> bool \<times> event list" where
  "data_path s =
     (fail_gpu_migration s, fail_work_allocation s, src_data s, dst_data s, blit s, blit_cb s,
      queued_work s, queued_irq_work s, work_fence_signaled s, trace s)"

text \<open>What the move reads of the \<open>ttm\<close> and of the device to choose a cache level.\<close>

definition ttm_view :: "ttm_state \<Rightarrow> ttm_tt option \<times> bool \<times> bool" where
  "ttm_view s = (bo_ttm s, has_llc s, has_snoop s)"

lemma ttm_safe_cong: "ttm_view t = ttm_view s \<Longrightarrow> ttm_safe t dst_mem = ttm_safe s dst_mem"
  by (simp add: ttm_view_def ttm_safe_def)

lemma ttm_view_emit [simp]: "ttm_view (emit es s) = ttm_view s"
  by (simp add: ttm_view_def emit_def)

lemma ttm_view_gpu_complete [simp]: "ttm_view (gpu_complete env s) = ttm_view s"
  by (simp add: ttm_view_def gpu_complete_def split: option.splits)

lemma ttm_view_memcpy [simp]: "ttm_view (i915_ttm_move_memcpy ctx arg s) = ttm_view s"
  by (simp add: ttm_view_def i915_ttm_move_memcpy_def emit_def)

lemma ttm_view_wait [simp]: "ttm_view (fence_wait_run env s) = ttm_view s"
  by (simp add: ttm_view_def fence_wait_run_def queued_run_def signal_blit_fence_def
      gpu_complete_def uu_memcpy_cb_def memcpy_irq_work_run_def memcpy_work_run_def
      i915_ttm_move_memcpy_def emit_def Let_def split: option.splits)

lemma ttm_view_accel [simp]:
  "ttm_view (snd (accel_move_run env s clear dst_mem)) = ttm_view s"
  by (simp add: accel_move_run_def migrate_submit_def emit_def ttm_view_def Let_def)

lemma ttm_view_work_arm [simp]: "ttm_view (snd (work_arm_run env s arg)) = ttm_view s"
  by (simp add: work_arm_run_def Let_def)
     (simp add: ttm_view_def)

lemma ttm_view_move [simp]:
  "ttm_view (snd (move_run env s clear dst_mem allow_accel move_deps)) = ttm_view s"
  by (simp add: move_run_def Let_def case_prod_beta)

lemma no_task_gpu_complete: "no_task s \<Longrightarrow> no_task (gpu_complete env s)"
  by (simp add: no_task_def gpu_complete_def split: option.splits)

lemma no_task_run_queued: "no_task s \<Longrightarrow> no_task (queued_run s)"
  by (simp add: no_task_def queued_run_def Let_def memcpy_irq_work_run_def memcpy_work_run_def
      i915_ttm_move_memcpy_def emit_def split: option.splits)

lemma no_task_signal: "no_task s \<Longrightarrow> no_task (signal_blit_fence env s)"
  by (auto simp: no_task_def signal_blit_fence_def gpu_complete_def Let_def split: option.splits)

lemma no_task_wait: "no_task s \<Longrightarrow> no_task (fence_wait_run env s)"
  unfolding fence_wait_run_def
  by (rule no_task_run_queued, rule no_task_signal) (simp add: no_task_def emit_def)

lemma no_task_memcpy: "no_task s \<Longrightarrow> no_task (i915_ttm_move_memcpy ctx arg s)"
  by (simp add: no_task_def i915_ttm_move_memcpy_def emit_def)

lemma no_task_accel: "no_task s \<Longrightarrow> no_task (snd (accel_move_run env s clear dst_mem))"
  by (simp add: no_task_def accel_move_run_def migrate_submit_def emit_def Let_def)

lemma accel_switches [simp]:
  "fail_work_allocation (snd (accel_move_run env s clear dst_mem)) = fail_work_allocation s"
  "fail_gpu_migration (snd (accel_move_run env s clear dst_mem)) = fail_gpu_migration s"
  by (simp_all add: accel_move_run_def migrate_submit_def emit_def Let_def)

lemma no_task_move:
  assumes "fail_work_allocation s" and "no_task s"
  shows "no_task (snd (move_run env s clear dst_mem allow_accel move_deps))"
proof -
  let ?s1 = "snd (accel_move_run env s clear dst_mem)"
  have 1: "no_task ?s1" by (rule no_task_accel [OF assms(2)])
  have 2: "fail_work_allocation ?s1" using assms(1) by simp
  have 3: "no_task (emit [DepsSync] t)" if "no_task t" for t
    using that by (simp add: no_task_def emit_def)
  show ?thesis
    using assms 1 2
    by (auto simp: move_run_def Let_def case_prod_beta
        intro!: no_task_memcpy no_task_wait 3)
qed

lemma no_task_bookkeeping:
  "no_task (s\<lparr>bo_resource := r\<rparr>) = no_task s"
  "no_task (s\<lparr>cached_io_rsgt := c\<rparr>) = no_task s"
  "no_task (s\<lparr>get_io_page_sg_pos := p\<rparr>) = no_task s"
  "no_task (s\<lparr>get_io_page_sg_idx := i\<rparr>) = no_task s"
  "no_task (s\<lparr>bo_ttm := t\<rparr>) = no_task s"
  by (simp_all add: no_task_def)

lemma no_task_adjust_domains:
  "i915_ttm_adjust_domains_after_move s = Some s' \<Longrightarrow> no_task s' = no_task s"
  by (auto simp: i915_ttm_adjust_domains_after_move_def no_task_def split: option.splits if_splits)

lemma no_task_adjust_gem:
  "i915_ttm_adjust_gem_after_move s = Some s' \<Longrightarrow> no_task s' = no_task s"
  by (auto simp: i915_ttm_adjust_gem_after_move_def no_task_def Let_def split: option.splits if_splits)

lemma no_task_epilogue:
  assumes "epilogue_run env s f dst_mem dst_rsgt = Some (ret, s')" and "no_task s"
  shows "no_task s'"
  using assms no_task_wait [OF assms(2), of env]
  by (auto simp: epilogue_run_def Let_def ttm_bo_move_sync_cleanup_def no_task_bookkeeping
      split: option.splits if_splits
      dest!: no_task_adjust_domains no_task_adjust_gem)

lemma no_task_i915_ttm_move:
  assumes "ttm_move_run env s evict dst_mem = Some (ret, s')"
    and "fail_work_allocation s" and "no_task s"
  shows "no_task s'"
proof -
  let ?s1 = "if (case bo_ttm s of None \<Rightarrow> False
                 | Some ttm \<Rightarrow> man_use_tt dst_mem \<or> tt_swapped ttm)
             then ttm_tt_populate s else s"
  have s1: "no_task ?s1" "fail_work_allocation ?s1"
    using assms(2,3) by (simp_all add: ttm_tt_populate_def no_task_def)
  have mv: "no_task (snd (move_run env ?s1 c dst_mem True True))" for c
    by (rule no_task_move [OF s1(2) s1(1)])
  have pf: "no_task (ttm_resource_free (i915_ttm_purge s))"
    using assms(3) by (simp add: no_task_def ttm_resource_free_def i915_ttm_purge_def emit_def)
  from assms(1) show ?thesis
    unfolding ttm_move_run_def Let_def
    apply (simp split: if_splits add: case_prod_beta)
    using assms(3) s1 mv pf
    apply (auto split: fence_ptr.splits if_splits dest: no_task_epilogue)
    done
qed

lemma data_path_run_queued:
  "data_path s = data_path t \<Longrightarrow> data_path (queued_run s) = data_path (queued_run t)"
  by (simp add: data_path_def queued_run_def Let_def memcpy_irq_work_run_def memcpy_work_run_def
      i915_ttm_move_memcpy_def emit_def split: option.splits)

lemma data_path_signal:
  "data_path s = data_path t \<Longrightarrow>
   data_path (signal_blit_fence env s) = data_path (signal_blit_fence env t)"
  by (auto simp: data_path_def signal_blit_fence_def gpu_complete_def Let_def uu_memcpy_cb_def
      emit_def split: option.splits blit_kind.splits)

lemma data_path_settle:
  "data_path s = data_path t \<Longrightarrow> data_path (settle_run env s) = data_path (settle_run env t)"
  unfolding settle_run_def by (intro data_path_run_queued data_path_signal)

lemma bo_ttm_wait [simp]: "bo_ttm (fence_wait_run env s) = bo_ttm s"
  by (simp add: fence_wait_run_def queued_run_def signal_blit_fence_def gpu_complete_def
      uu_memcpy_cb_def memcpy_irq_work_run_def memcpy_work_run_def i915_ttm_move_memcpy_def
      emit_def Let_def split: option.splits)

lemma adjust_domains_data_path:
  assumes "bo_ttm s \<noteq> None \<or> cpu_maps_iomem (bo_resource s)"
  shows "\<exists>s'. i915_ttm_adjust_domains_after_move s = Some s' \<and> data_path s' = data_path s
           \<and> ttm_view s' = ttm_view s \<and> bo_resource s' = bo_resource s"
  using assms
  by (auto simp: i915_ttm_adjust_domains_after_move_def data_path_def ttm_view_def
      split: option.splits)

lemma adjust_gem_data_path:
  assumes "bo_ttm s \<noteq> None \<or> gtt_binds_lmem (bo_resource s) \<or> \<not> (has_llc s \<or> has_snoop s)"
  shows "\<exists>s'. i915_ttm_adjust_gem_after_move s = Some s' \<and> data_path s' = data_path s"
proof -
  obtain s1 where s1: "s1 =
        (if region_ttm_type (mm_region s) \<noteq> mem_type (bo_resource s)
         then (case find (\<lambda>mr. region_ttm_type mr = mem_type (bo_resource s)
                                 \<and> mr \<noteq> mm_region s) (mm_placements s) of
                 Some mr \<Rightarrow> s\<lparr>mm_region := mr\<rparr>
               | None \<Rightarrow> s)
         else s)" by simp
  have a: "data_path s1 = data_path s" "ttm_view s1 = ttm_view s"
    "bo_resource s1 = bo_resource s"
    by (simp_all add: s1 data_path_def ttm_view_def split: option.splits)
  have "i915_ttm_adjust_gem_after_move s =
     (let s2 = s1\<lparr>mem_flags := mem_flags s1
                    AND NOT (I915_BO_FLAG_STRUCT_PAGE OR I915_BO_FLAG_IOMEM)\<rparr>;
          s3 = s2\<lparr>mem_flags := mem_flags s2 OR
                    (if cpu_maps_iomem (bo_resource s2) then I915_BO_FLAG_IOMEM
                     else I915_BO_FLAG_STRUCT_PAGE)\<rparr>
      in case i915_ttm_cache_level s3 (bo_resource s3) (bo_ttm s3) of
           None \<Rightarrow> None
         | Some level \<Rightarrow> Some (s3\<lparr>cache_level := level\<rparr>))"
    unfolding i915_ttm_adjust_gem_after_move_def s1 Let_def ..
  with a assms show ?thesis
    by (auto simp: Let_def data_path_def ttm_view_def i915_ttm_cache_level_def)
qed

lemma epilogue_data_path_aux:
  assumes "ttm_safe s0 dst_mem"
  shows "\<exists>s'. (case i915_ttm_adjust_domains_after_move (s0\<lparr>bo_resource := dst_mem\<rparr>) of
           None \<Rightarrow> None
         | Some s2 \<Rightarrow>
             (let s3 = s2\<lparr>cached_io_rsgt := None\<rparr>;
                  s4 = (if gtt_binds_lmem dst_mem \<or> cpu_maps_iomem dst_mem
                        then s3\<lparr>cached_io_rsgt := Some dst_rsgt,
                                get_io_page_sg_pos := Some dst_rsgt,
                                get_io_page_sg_idx := 0\<rparr>
                        else s3)
              in case i915_ttm_adjust_gem_after_move s4 of
                   None \<Rightarrow> None
                 | Some s5 \<Rightarrow> Some (0::int, s5))) = Some (0, s')
           \<and> data_path s' = data_path s0"
proof -
  let ?s1 = "s0\<lparr>bo_resource := dst_mem\<rparr>"
  have s1: "data_path ?s1 = data_path s0" "ttm_view ?s1 = ttm_view s0"
    "bo_ttm ?s1 \<noteq> None \<or> cpu_maps_iomem (bo_resource ?s1)"
    using assms by (auto simp: data_path_def ttm_view_def ttm_safe_def)
  from adjust_domains_data_path [OF s1(3)] obtain s2
    where s2: "i915_ttm_adjust_domains_after_move ?s1 = Some s2" "data_path s2 = data_path ?s1"
      "ttm_view s2 = ttm_view ?s1" "bo_resource s2 = bo_resource ?s1" by blast
  let ?s4 = "if gtt_binds_lmem dst_mem \<or> cpu_maps_iomem dst_mem
             then s2\<lparr>cached_io_rsgt := None\<rparr>\<lparr>cached_io_rsgt := Some dst_rsgt,
                       get_io_page_sg_pos := Some dst_rsgt, get_io_page_sg_idx := 0\<rparr>
             else s2\<lparr>cached_io_rsgt := None\<rparr>"
  have s4: "data_path ?s4 = data_path s2" "ttm_view ?s4 = ttm_view s0"
    "bo_resource ?s4 = dst_mem"
    using s2(3,4) s1(2) by (simp_all add: data_path_def ttm_view_def)
  have "bo_ttm ?s4 \<noteq> None \<or> gtt_binds_lmem (bo_resource ?s4)
      \<or> \<not> (has_llc ?s4 \<or> has_snoop ?s4)"
    using assms s4(2) unfolding s4(3) by (auto simp: ttm_view_def ttm_safe_def)
  from adjust_gem_data_path [OF this] obtain s5
    where s5: "i915_ttm_adjust_gem_after_move ?s4 = Some s5" "data_path s5 = data_path ?s4"
    by blast
  show ?thesis
    unfolding Let_def s2(1) option.case s5(1)
    using s5(2) s4(1) s2(2) s1(1) by simp
qed

lemma epilogue_data_path:
  assumes "ttm_safe s dst_mem"
  shows "\<exists>s'. epilogue_run env s f dst_mem dst_rsgt = Some (0, s')
           \<and> data_path s' = data_path (if f \<noteq> Null \<and> accel_cleanup_ret env \<noteq> 0
                                        then fence_wait_run env s else s)"
proof (cases "f \<noteq> Null \<and> accel_cleanup_ret env \<noteq> 0")
  case True
  have "ttm_safe (fence_wait_run env s) dst_mem"
    using assms ttm_safe_cong [OF ttm_view_wait] by blast
  from epilogue_data_path_aux [OF this, of dst_rsgt] True show ?thesis
    unfolding epilogue_run_def ttm_bo_move_sync_cleanup_def by (simp add: Let_def)
next
  case False
  from epilogue_data_path_aux [OF assms, of dst_rsgt] False show ?thesis
    unfolding epilogue_run_def ttm_bo_move_sync_cleanup_def by (auto simp add: Let_def)
qed

lemma i915_ttm_move_prepared:
  assumes "prepared env s dst_mem" and "madv s = I915_MADV_WILLNEED"
    and "\<not> nothing_to_move s dst_mem"
  shows "ttm_move_run env s evict dst_mem =
     (case move_run env (after_populate s dst_mem) (move_clears s dst_mem) dst_mem
             True True of
        (ErrPtr e, s2) \<Rightarrow> Some (e, s2)
      | (Null, s2) \<Rightarrow> epilogue_run env s2 Null dst_mem (dst_st_table env)
      | (Ptr f, s2) \<Rightarrow> epilogue_run env s2 (Ptr f) dst_mem (dst_st_table env))"
  using assms
  unfolding ttm_move_run_def prepared_def nothing_to_move_def move_clears_def
    after_populate_def Let_def
  by (auto split: if_splits)

lemma after_populate_data [simp]:
  "data_path (after_populate s dst_mem) = data_path s"
  "migrate_context (after_populate s dst_mem) = migrate_context s"
  "gt_wedged (after_populate s dst_mem) = gt_wedged s"
  "bo_type_kernel (after_populate s dst_mem) = bo_type_kernel s"
  "bo_size (after_populate s dst_mem) = bo_size s"
  by (simp_all add: after_populate_def ttm_tt_populate_def data_path_def)

lemma after_populate_ttm:
  "bo_ttm s = Some ttm \<Longrightarrow> \<exists>ttm'. bo_ttm (after_populate s dst_mem) = Some ttm'"
  by (simp add: after_populate_def ttm_tt_populate_def)

lemma after_populate_safe [simp]:
  "ttm_safe (after_populate s dst_mem) d = ttm_safe s d"
  "regions_found env (after_populate s dst_mem) d = regions_found env s d"
  "args_ok (after_populate s dst_mem) = args_ok s"
  "fail_gpu_migration (after_populate s dst_mem) = fail_gpu_migration s"
  by (simp_all add: after_populate_def ttm_tt_populate_def ttm_safe_def regions_found_def
      args_ok_def)

lemma quiescent_args_ok: "quiescent s \<Longrightarrow> args_ok s"
  by (simp add: quiescent_def args_ok_def pending_ok_def)

text \<open>
  When the preparatory steps succeed and there is something to move, i915_ttm_move is
  __i915_ttm_move followed by the epilogue; and it returns what the total functions compute
  when __i915_ttm_move does and the wait in the epilogue, if there is one, does not fault.
\<close>

lemma ttm_move_returns:
  assumes pre: "prepared env s dst_mem" "madv s = I915_MADV_WILLNEED"
      "\<not> nothing_to_move s dst_mem"
    and mv: "uu_i915_ttm_move env (after_populate s dst_mem) (move_clears s dst_mem) dst_mem
               True True
             = Some (move_run env (after_populate s dst_mem) (move_clears s dst_mem) dst_mem
                       True True)"
    and ok: "accel_cleanup_ret env = 0
             \<or> args_ok (snd (move_run env (after_populate s dst_mem) (move_clears s dst_mem)
                                 dst_mem True True))"
  shows "i915_ttm_move env s evict dst_mem = ttm_move_run env s evict dst_mem"
proof -
  let ?r = "move_run env (after_populate s dst_mem) (move_clears s dst_mem) dst_mem True True"
  have A: "i915_ttm_move env s evict dst_mem =
     (case uu_i915_ttm_move env (after_populate s dst_mem) (move_clears s dst_mem) dst_mem
             True True of
        None \<Rightarrow> None
      | Some (ErrPtr e, s2) \<Rightarrow> Some (e, s2)
      | Some (Null, s2) \<Rightarrow> move_epilogue env s2 Null dst_mem (dst_st_table env)
      | Some (Ptr f, s2) \<Rightarrow> move_epilogue env s2 (Ptr f) dst_mem (dst_st_table env))"
    using pre
    unfolding i915_ttm_move_def prepared_def nothing_to_move_def move_clears_def
      after_populate_def Let_def
    by (auto split: if_splits)
  obtain f s2 where r: "?r = (f, s2)" by (cases ?r) blast
  from ok have ok': "accel_cleanup_ret env = 0 \<or> args_ok s2" by (simp add: r)
  have e: "move_epilogue env s2 f dst_mem (dst_st_table env)
      = epilogue_run env s2 f dst_mem (dst_st_table env)"
    using ok' by (intro epilogue_returns) blast
  show ?thesis
    unfolding A mv i915_ttm_move_prepared [OF pre, of evict] r
    using e by (cases f) simp_all
qed

lemma ttm_move_returns_gpu_fail:
  assumes "fail_gpu_migration s" "prepared env s dst_mem" "madv s = I915_MADV_WILLNEED"
    "\<not> nothing_to_move s dst_mem" "quiescent s" "ttm_safe s dst_mem"
    "regions_found env s dst_mem" "move_clears s dst_mem \<or> init_src_st_err env = 0"
  shows "i915_ttm_move env s evict dst_mem = ttm_move_run env s evict dst_mem"
proof -
  let ?p = "after_populate s dst_mem"
  let ?c = "move_clears s dst_mem"
  have ok: "args_ok ?p" using assms(5) by (simp add: quiescent_args_ok)
  have "bo_ttm ?p \<noteq> None
     \<or> ((fail_gpu_migration ?p \<or> ?c)
          \<and> (gtt_binds_lmem dst_mem \<or> \<not> (has_llc ?p \<or> has_snoop ?p)))"
    using assms(1,6) after_populate_safe(1) [of s dst_mem dst_mem]
    by (auto simp: ttm_safe_def)
  from accel_move_returns [OF this, of env]
  have acc: "i915_ttm_accel_move env ?p ?c dst_mem = Some (accel_move_run env ?p ?c dst_mem)" .
  have reg: "regions_found env ?p dst_mem" using assms(7) by simp
  have mv: "uu_i915_ttm_move env ?p ?c dst_mem True True
      = Some (move_run env ?p ?c dst_mem True True)"
    by (rule move_returns [OF acc reg assms(8) ok])
  have "args_ok (snd (move_run env ?p ?c dst_mem True True))"
    by (rule args_ok_move [OF ok assms(8)])
  then show ?thesis
    by (intro ttm_move_returns [OF assms(2,3,4) mv]) blast
qed

lemma quiescent_after_populate [simp]: "quiescent (after_populate s dst_mem) = quiescent s"
  by (simp add: after_populate_def ttm_tt_populate_def quiescent_def)

lemma move_both_switches_submitted:
  assumes "fail_gpu_migration s" "fail_work_allocation s" "quiescent s" "submitted env s"
  shows "\<exists>s2. move_run env s c dst_mem True True = (Null, s2)
     \<and> bo_ttm s2 = bo_ttm s
     \<and> data_path s2 = (True, True, src_data s,
          ttm_move_memcpy c (if blit_error env \<noteq> 0 then blit_garbage env
                             else replicate (length (dst_data s)) 0) (src_data s),
          None, None, None, None, work_fence_signaled s,
          trace s @ [GpuSubmit BlitClear, FenceWait, Memcpy InMove c])"
  using assms
  by (simp add: move_run_def accel_move_run_def migrate_submit_def submitted_def
      quiescent_def emit_def fence_wait_run_def signal_blit_fence_def gpu_complete_def
      queued_run_def ERR_PTR_def EINVAL_def i915_ttm_move_memcpy_def memcpy_init_arg_def
      data_path_def Let_def)

lemma move_both_switches_not_submitted:
  assumes "fail_gpu_migration s" "fail_work_allocation s" "quiescent s" "\<not> submitted env s"
    "deps_sync_ret env = 0"
  shows "\<exists>s2. move_run env s c dst_mem True True = (Null, s2)
     \<and> bo_ttm s2 = bo_ttm s
     \<and> data_path s2 = (True, True, src_data s,
          ttm_move_memcpy c (if migrate_context s \<and> \<not> gt_wedged s \<and> migrate_rq env
                             then blit_garbage env else dst_data s) (src_data s),
          None, None, None, None, work_fence_signaled s,
          trace s @ [DepsSync, Memcpy InMove c])"
  using assms
  by (auto simp add: move_run_def accel_move_run_def migrate_submit_def submitted_def
      quiescent_def emit_def ERR_PTR_def EINVAL_def i915_ttm_move_memcpy_def
      memcpy_init_arg_def data_path_def Let_def)

lemma data_path_fields:
  assumes "data_path s' = (g, w, src, dst, b, cb, qw, qi, sig, tr)"
  shows "fail_gpu_migration s' = g" "fail_work_allocation s' = w" "src_data s' = src"
    "dst_data s' = dst" "blit s' = b" "blit_cb s' = cb" "queued_work s' = qw"
    "queued_irq_work s' = qi" "work_fence_signaled s' = sig" "trace s' = tr"
  using assms by (simp_all add: data_path_def)

lemma memcpy_result:
  "\<not> c \<Longrightarrow> ttm_move_memcpy c d src = src"
  "c \<Longrightarrow> set (ttm_move_memcpy c d src) \<subseteq> {0}"
  by (auto simp: ttm_move_memcpy_def)

subsection \<open>Both selftest switches set\<close>

definition selftest_bo :: ttm_state where
  "selftest_bo = sys_bo\<lparr>fail_gpu_migration := True, fail_work_allocation := True\<rparr>"

lemma selftest_bo_ready:
  "prepared ok_env selftest_bo lmem" "madv selftest_bo = I915_MADV_WILLNEED"
  "\<not> nothing_to_move selftest_bo lmem" "bo_ttm selftest_bo \<noteq> None" "quiescent selftest_bo"
  "\<not> move_clears selftest_bo lmem" "no_task selftest_bo" "src_data selftest_bo = [1, 2, 3, 4]"
  "trace selftest_bo = []"
  by (simp_all add: prepared_def selftest_bo_def sys_bo_def ok_env_def lmem_def
      i915_ttm_move_notify_def prev_deps_def I915_MADV_WILLNEED_def nothing_to_move_def
      move_clears_def after_populate_def quiescent_def no_task_def sys_mem_def)

lemma both_switches_run:
  assumes sw: "fail_gpu_migration s" "fail_work_allocation s"
    and h: "prepared env s dst_mem" "madv s = I915_MADV_WILLNEED"
      "\<not> nothing_to_move s dst_mem" "quiescent s" "ttm_safe s dst_mem"
  shows "submitted env s \<Longrightarrow>
             (\<exists>s'. ttm_move_run env s evict dst_mem = Some (0, s')
                 \<and> trace s' = trace s @ [GpuSubmit BlitClear, FenceWait,
                                          Memcpy InMove (move_clears s dst_mem)]
                 \<and> (\<not> move_clears s dst_mem \<longrightarrow> dst_data s' = src_data s)
                 \<and> (move_clears s dst_mem \<longrightarrow> set (dst_data s') \<subseteq> {0})
                 \<and> quiescent s')"
    and "\<not> submitted env s \<and> deps_sync_ret env = 0 \<Longrightarrow>
             (\<exists>s'. ttm_move_run env s evict dst_mem = Some (0, s')
                 \<and> trace s' = trace s @ [DepsSync, Memcpy InMove (move_clears s dst_mem)]
                 \<and> (\<not> move_clears s dst_mem \<longrightarrow> dst_data s' = src_data s)
                 \<and> (move_clears s dst_mem \<longrightarrow> set (dst_data s') \<subseteq> {0})
                 \<and> quiescent s')"
proof -
  let ?p = "after_populate s dst_mem"
  let ?c = "move_clears s dst_mem"
  have p: "fail_gpu_migration ?p" "fail_work_allocation ?p" "quiescent ?p"
    "src_data ?p = src_data s" "dst_data ?p = dst_data s" "trace ?p = trace s"
    "work_fence_signaled ?p = work_fence_signaled s"
    using sw h after_populate_data(1) [of s dst_mem] by (simp_all add: data_path_def)
  have safe: "ttm_safe (snd (move_run env ?p ?c dst_mem True True)) dst_mem"
    using h(5) ttm_safe_cong [OF ttm_view_move, of env ?p ?c dst_mem True True dst_mem]
    by simp
  have mv: "ttm_move_run env s evict dst_mem =
     (case move_run env ?p ?c dst_mem True True of
        (ErrPtr e, s2) \<Rightarrow> Some (e, s2)
      | (Null, s2) \<Rightarrow> epilogue_run env s2 Null dst_mem (dst_st_table env)
      | (Ptr f, s2) \<Rightarrow> epilogue_run env s2 (Ptr f) dst_mem (dst_st_table env))"
    using h by (intro i915_ttm_move_prepared) simp_all
  {
    assume sub: "submitted env s"
    then have "submitted env ?p" by (simp add: submitted_def)
    from move_both_switches_submitted [OF p(1,2,3) this, of ?c dst_mem] obtain s2
      where s2: "move_run env ?p ?c dst_mem True True = (Null, s2)"
        "bo_ttm s2 = bo_ttm ?p"
        "data_path s2 = (True, True, src_data ?p,
          ttm_move_memcpy ?c (if blit_error env \<noteq> 0 then blit_garbage env
                             else replicate (length (dst_data ?p)) 0) (src_data ?p),
          None, None, None, None, work_fence_signaled ?p,
          trace ?p @ [GpuSubmit BlitClear, FenceWait, Memcpy InMove ?c])"
      by blast
    from safe s2(1) have "ttm_safe s2 dst_mem" by simp
    from epilogue_data_path [OF this, of env Null "dst_st_table env"] obtain s'
      where s': "epilogue_run env s2 Null dst_mem (dst_st_table env) = Some (0, s')"
        "data_path s' = data_path s2" by auto
    have r: "ttm_move_run env s evict dst_mem = Some (0, s')"
      by (simp add: mv s2(1) s'(1))
    note f = data_path_fields [OF s'(2) [unfolded s2(3)]]
    show "\<exists>s'. ttm_move_run env s evict dst_mem = Some (0, s')
                 \<and> trace s' = trace s @ [GpuSubmit BlitClear, FenceWait, Memcpy InMove ?c]
                 \<and> (\<not> ?c \<longrightarrow> dst_data s' = src_data s)
                 \<and> (?c \<longrightarrow> set (dst_data s') \<subseteq> {0})
                 \<and> quiescent s'"
      using r f p(4,6) memcpy_result
      by (intro exI [of _ s']) (simp add: quiescent_def)
  }
  {
    assume "\<not> submitted env s \<and> deps_sync_ret env = 0"
    then have n: "\<not> submitted env ?p" "deps_sync_ret env = 0" by (simp_all add: submitted_def)
    from move_both_switches_not_submitted [OF p(1,2,3) n, of ?c dst_mem] obtain s2
      where s2: "move_run env ?p ?c dst_mem True True = (Null, s2)"
        "bo_ttm s2 = bo_ttm ?p"
        "data_path s2 = (True, True, src_data ?p,
          ttm_move_memcpy ?c (if migrate_context ?p \<and> \<not> gt_wedged ?p \<and> migrate_rq env
                             then blit_garbage env else dst_data ?p) (src_data ?p),
          None, None, None, None, work_fence_signaled ?p,
          trace ?p @ [DepsSync, Memcpy InMove ?c])"
      by blast
    from safe s2(1) have "ttm_safe s2 dst_mem" by simp
    from epilogue_data_path [OF this, of env Null "dst_st_table env"] obtain s'
      where s': "epilogue_run env s2 Null dst_mem (dst_st_table env) = Some (0, s')"
        "data_path s' = data_path s2" by auto
    have r: "ttm_move_run env s evict dst_mem = Some (0, s')"
      by (simp add: mv s2(1) s'(1))
    note f = data_path_fields [OF s'(2) [unfolded s2(3)]]
    show "\<exists>s'. ttm_move_run env s evict dst_mem = Some (0, s')
                 \<and> trace s' = trace s @ [DepsSync, Memcpy InMove ?c]
                 \<and> (\<not> ?c \<longrightarrow> dst_data s' = src_data s)
                 \<and> (?c \<longrightarrow> set (dst_data s') \<subseteq> {0})
                 \<and> quiescent s'"
      using r f p(4,6) memcpy_result
      by (intro exI [of _ s']) (simp add: quiescent_def)
  }
qed

text \<open>
  C6, as amended: with both fault switches enabled the move allocates no asynchronous
  fallback task, whatever it returns: a buffer for which none exists before the move has
  none after it. When moreover the preparatory steps succeed, the buffer is willneed,
  nothing is in flight, there is something to move, the buffer has a \<open>ttm\<close> or the
  destination is iomem whose cache level does not depend on one, both memory types have a
  memory region, and the move is a clear or the source scatter-list looked up for the CPU
  copy is not an error pointer: if the blit is submitted, the move waits for the blit
  fence, runs the CPU copy synchronously right after the wait and returns success; if the
  blit cannot be submitted and syncing the dependencies succeeds, the CPU copy runs
  synchronously after that sync and the move returns success.
\<close>

theorem both_switches_sync_copy:
  assumes sw: "fail_gpu_migration s" "fail_work_allocation s"
  shows "(\<forall>ret s'. i915_ttm_move env s evict dst_mem = Some (ret, s') \<and> no_task s
            \<longrightarrow> no_task s')
     \<and> (prepared env s dst_mem \<and> madv s = I915_MADV_WILLNEED \<and> \<not> nothing_to_move s dst_mem
          \<and> quiescent s \<and> ttm_safe s dst_mem \<and> regions_found env s dst_mem
          \<and> (move_clears s dst_mem \<or> init_src_st_err env = 0) \<longrightarrow>
          (submitted env s \<longrightarrow>
             (\<exists>s'. i915_ttm_move env s evict dst_mem = Some (0, s')
                 \<and> trace s' = trace s @ [GpuSubmit BlitClear, FenceWait,
                                          Memcpy InMove (move_clears s dst_mem)]
                 \<and> (\<not> move_clears s dst_mem \<longrightarrow> dst_data s' = src_data s)
                 \<and> (move_clears s dst_mem \<longrightarrow> set (dst_data s') \<subseteq> {0})
                 \<and> quiescent s'))
        \<and> (\<not> submitted env s \<and> deps_sync_ret env = 0 \<longrightarrow>
             (\<exists>s'. i915_ttm_move env s evict dst_mem = Some (0, s')
                 \<and> trace s' = trace s @ [DepsSync, Memcpy InMove (move_clears s dst_mem)]
                 \<and> (\<not> move_clears s dst_mem \<longrightarrow> dst_data s' = src_data s)
                 \<and> (move_clears s dst_mem \<longrightarrow> set (dst_data s') \<subseteq> {0})
                 \<and> quiescent s')))"
proof (intro conjI allI impI)
  fix ret s'
  assume "i915_ttm_move env s evict dst_mem = Some (ret, s') \<and> no_task s"
  then show "no_task s'" using no_task_i915_ttm_move [OF ttm_move_SomeD _ _] sw(2) by blast
next
  assume h: "prepared env s dst_mem \<and> madv s = I915_MADV_WILLNEED \<and> \<not> nothing_to_move s dst_mem
      \<and> quiescent s \<and> ttm_safe s dst_mem \<and> regions_found env s dst_mem
      \<and> (move_clears s dst_mem \<or> init_src_st_err env = 0)"
  then have eq: "i915_ttm_move env s evict dst_mem = ttm_move_run env s evict dst_mem"
    by (intro ttm_move_returns_gpu_fail [OF sw(1)]) blast+
  from h have g: "prepared env s dst_mem" "madv s = I915_MADV_WILLNEED"
    "\<not> nothing_to_move s dst_mem" "quiescent s" "ttm_safe s dst_mem" by blast+
  note r = both_switches_run [OF sw g, of evict]
  {
    assume "submitted env s"
    from r(1) [OF this]
    show "\<exists>s'. i915_ttm_move env s evict dst_mem = Some (0, s')
                 \<and> trace s' = trace s @ [GpuSubmit BlitClear, FenceWait,
                                          Memcpy InMove (move_clears s dst_mem)]
                 \<and> (\<not> move_clears s dst_mem \<longrightarrow> dst_data s' = src_data s)
                 \<and> (move_clears s dst_mem \<longrightarrow> set (dst_data s') \<subseteq> {0})
                 \<and> quiescent s'"
      unfolding eq .
  }
  {
    assume "\<not> submitted env s \<and> deps_sync_ret env = 0"
    from r(2) [OF this]
    show "\<exists>s'. i915_ttm_move env s evict dst_mem = Some (0, s')
                 \<and> trace s' = trace s @ [DepsSync, Memcpy InMove (move_clears s dst_mem)]
                 \<and> (\<not> move_clears s dst_mem \<longrightarrow> dst_data s' = src_data s)
                 \<and> (move_clears s dst_mem \<longrightarrow> set (dst_data s') \<subseteq> {0})
                 \<and> quiescent s'"
      unfolding eq .
  }
qed

theorem both_switches_sync_copy_witness:
  "fail_gpu_migration selftest_bo \<and> fail_work_allocation selftest_bo
   \<and> prepared ok_env selftest_bo lmem \<and> madv selftest_bo = I915_MADV_WILLNEED
   \<and> \<not> nothing_to_move selftest_bo lmem \<and> quiescent selftest_bo
   \<and> ttm_safe selftest_bo lmem \<and> regions_found ok_env selftest_bo lmem
   \<and> init_src_st_err ok_env = 0
   \<and> submitted ok_env selftest_bo \<and> no_task selftest_bo
   \<and> (\<exists>s'. i915_ttm_move ok_env selftest_bo False lmem = Some (0, s')
          \<and> trace s' = [GpuSubmit BlitClear, FenceWait, Memcpy InMove False]
          \<and> dst_data s' = [1, 2, 3, 4] \<and> no_task s')
   \<and> \<not> submitted ok_env (selftest_bo\<lparr>gt_wedged := True\<rparr>) \<and> deps_sync_ret ok_env = 0
   \<and> (\<exists>s'. i915_ttm_move ok_env (selftest_bo\<lparr>gt_wedged := True\<rparr>) False lmem = Some (0, s')
          \<and> trace s' = [DepsSync, Memcpy InMove False]
          \<and> dst_data s' = [1, 2, 3, 4])"
proof -
  have sw: "fail_gpu_migration selftest_bo" "fail_work_allocation selftest_bo"
    by (simp_all add: selftest_bo_def)
  have sub: "submitted ok_env selftest_bo"
    by (simp add: submitted_def selftest_bo_def sys_bo_def ok_env_def)
  have safe: "ttm_safe selftest_bo lmem" "regions_found ok_env selftest_bo lmem"
    "init_src_st_err ok_env = 0"
    by (simp_all add: ttm_safe_def regions_found_def i915_ttm_region_def gem_bug_on_def
        selftest_bo_def example_defs)
  note t = both_switches_sync_copy [OF sw, of ok_env False lmem]
  from t selftest_bo_ready sub safe obtain s'
    where s': "i915_ttm_move ok_env selftest_bo False lmem = Some (0, s')"
      "trace s' = [GpuSubmit BlitClear, FenceWait, Memcpy InMove False]"
      "dst_data s' = [1, 2, 3, 4]"
    by auto
  from t s'(1) selftest_bo_ready(7) have n: "no_task s'" by blast
  let ?w = "selftest_bo\<lparr>gt_wedged := True\<rparr>"
  have sw': "fail_gpu_migration ?w" "fail_work_allocation ?w"
    by (simp_all add: selftest_bo_def)
  have w: "prepared ok_env ?w lmem" "madv ?w = I915_MADV_WILLNEED"
    "\<not> nothing_to_move ?w lmem" "quiescent ?w" "\<not> move_clears ?w lmem"
    "ttm_safe ?w lmem" "regions_found ok_env ?w lmem"
    "\<not> submitted ok_env ?w" "deps_sync_ret ok_env = 0"
    "src_data ?w = [1, 2, 3, 4]" "trace ?w = []"
    by (simp_all add: prepared_def nothing_to_move_def move_clears_def after_populate_def
        quiescent_def ttm_safe_def regions_found_def i915_ttm_region_def gem_bug_on_def
        submitted_def i915_ttm_move_notify_def prev_deps_def selftest_bo_def example_defs)
  from both_switches_sync_copy [OF sw', of ok_env False lmem] w safe(3) obtain s''
    where s'': "i915_ttm_move ok_env ?w False lmem = Some (0, s'')"
      "trace s'' = [DepsSync, Memcpy InMove False]" "dst_data s'' = [1, 2, 3, 4]"
    by auto
  from s' n s'' sw sub safe selftest_bo_ready w(8,9) show ?thesis by blast
qed

text \<open>
  A buffer without a \<open>ttm\<close> is cleared into local memory with both switches set: nothing
  on this path reads the \<open>ttm\<close>, and the move returns success.
\<close>

lemma ttmless_clear_into_lmem:
  "\<exists>s'. i915_ttm_move ok_env (selftest_bo\<lparr>bo_ttm := None\<rparr>) False lmem = Some (0, s')
     \<and> trace s' = [GpuSubmit BlitClear, FenceWait, Memcpy InMove True]
     \<and> dst_data s' = [0, 0, 0, 0]"
  by (simp add: move_defs example_defs selftest_bo_def)

text \<open>
  C6 as stated fails: with both switches set, a wedged GPU and an interrupted dependency
  sync, the move returns -ERESTARTSYS and no CPU copy runs.
\<close>

theorem both_switches_move_fails:
  "fail_gpu_migration (selftest_bo\<lparr>gt_wedged := True\<rparr>)
   \<and> fail_work_allocation (selftest_bo\<lparr>gt_wedged := True\<rparr>)
   \<and> i915_ttm_move (ok_env\<lparr>deps_sync_ret := - ERESTARTSYS\<rparr>) (selftest_bo\<lparr>gt_wedged := True\<rparr>)
        False lmem
      = Some (- ERESTARTSYS, emit [DepsSync] (selftest_bo\<lparr>gt_wedged := True\<rparr>))
   \<and> - ERESTARTSYS \<noteq> (0::int)
   \<and> trace (emit [DepsSync] (selftest_bo\<lparr>gt_wedged := True\<rparr>)) = [DepsSync]"
  by (simp add: move_defs example_defs selftest_bo_def)

subsection \<open>The GPU-failure switch alone\<close>

text \<open>
  The interrupt-context path has not been taken and is not queued; and the CPU copy of the
  source into the destination has either happened or is bound to happen when the pending
  blit fence signals, because the forced-failure switch sends the callback to the worker.
\<close>

definition no_irq :: "ttm_state \<Rightarrow> bool" where
  "no_irq s \<longleftrightarrow> IrqWorkQueue \<notin> set (trace s) \<and> queued_irq_work s = None"

definition copy_assured :: "8 word list \<Rightarrow> ttm_state \<Rightarrow> bool" where
  "copy_assured src s \<longleftrightarrow>
     fail_gpu_migration s \<and> src_data s = src \<and> queued_irq_work s = None
     \<and> ((blit s = None \<and> blit_cb s = None \<and> queued_work s = None \<and> dst_data s = src)
        \<or> (blit s \<noteq> None
            \<and> (case blit_cb s of
                   None \<Rightarrow> False
                 | Some arg \<Rightarrow> \<not> arg_clear arg \<and> arg_src_rsgt_err arg = 0)
            \<and> queued_work s = None))"

lemma copy_assured_cong:
  "data_path s = data_path t \<Longrightarrow> copy_assured src s = copy_assured src t"
  "data_path s = data_path t \<Longrightarrow> no_irq s = no_irq t"
  by (auto simp: data_path_def copy_assured_def no_irq_def)

lemma copy_assured_settle:
  assumes "copy_assured src s"
  shows "copy_assured src (settle_run env s) \<and> dst_data (settle_run env s) = src"
  using assms
  by (auto simp: copy_assured_def settle_run_def signal_blit_fence_def gpu_complete_def
      uu_memcpy_cb_def queued_run_def memcpy_work_run_def i915_ttm_move_memcpy_def emit_def
      ttm_move_memcpy_def Let_def split: option.splits)

lemma copy_assured_args_ok: "copy_assured src s \<Longrightarrow> args_ok s"
  by (auto simp: copy_assured_def args_ok_def pending_ok_def split: option.splits)

lemma no_irq_settle:
  assumes "no_irq s" "fail_gpu_migration s"
  shows "no_irq (settle_run env s)"
  using assms
  by (auto simp: no_irq_def settle_run_def signal_blit_fence_def gpu_complete_def
      uu_memcpy_cb_def queued_run_def memcpy_work_run_def i915_ttm_move_memcpy_def emit_def
      Let_def split: option.splits)

lemma fence_wait_settle: "fence_wait_run env s = settle_run env (emit [FenceWait] s)"
  by (simp add: fence_wait_run_def settle_run_def)

lemma copy_assured_wait:
  assumes "copy_assured src s"
  shows "copy_assured src (fence_wait_run env s)"
proof -
  have "copy_assured src (emit [FenceWait] s)"
    using assms by (simp add: copy_assured_def emit_def)
  then show ?thesis unfolding fence_wait_settle using copy_assured_settle by blast
qed

lemma no_irq_wait:
  assumes "no_irq s" "fail_gpu_migration s"
  shows "no_irq (fence_wait_run env s)"
proof -
  have "no_irq (emit [FenceWait] s)" "fail_gpu_migration (emit [FenceWait] s)"
    using assms by (simp_all add: no_irq_def emit_def)
  then show ?thesis unfolding fence_wait_settle by (rule no_irq_settle)
qed

lemma accel_not_submitted:
  assumes "fail_gpu_migration s" "\<not> submitted env s"
  shows "\<exists>e s1. accel_move_run env s c dst_mem = (ErrPtr e, s1) \<and> e \<noteq> 0
           \<and> (s1 = s \<or> s1 = s\<lparr>dst_data := blit_garbage env\<rparr>)"
  using assms
  by (auto simp add: accel_move_run_def submitted_def migrate_submit_def ERR_PTR_def
      EINVAL_def)

lemma accel_submitted:
  assumes "fail_gpu_migration s" "submitted env s"
  shows "accel_move_run env s c dst_mem
    = (Ptr BlitFence, emit [GpuSubmit BlitClear] (s\<lparr>blit := Some BlitClear\<rparr>))"
  using assms
  by (simp add: accel_move_run_def submitted_def migrate_submit_def)

lemma move_after_failed_accel:
  assumes "accel_move_run env s c dst_mem = (ErrPtr e, s1)"
  shows "move_run env s c dst_mem True True =
    (if deps_sync_ret env \<noteq> 0 then (ErrPtr (deps_sync_ret env), emit [DepsSync] s1)
     else (Null, i915_ttm_move_memcpy InMove (memcpy_init_arg env (emit [DepsSync] s1) c)
                   (emit [DepsSync] s1)))"
  using assms
  by (simp add: move_run_def ERR_PTR_def Let_def)

text \<open>
  What __i915_ttm_move can return for a copy while the GPU-failure switch is set and the
  allocation-failure switch is not: an error pointer, or NULL or the fence of the armed
  worker with the copy assured.
\<close>

definition fallback_outcome :: "ttm_state \<Rightarrow> fence_ptr \<Rightarrow> ttm_state \<Rightarrow> bool" where
  "fallback_outcome s f s2 \<longleftrightarrow>
     (\<exists>e. f = ErrPtr e \<and> e \<noteq> 0)
     \<or> ((f = Null \<or> f = Ptr WorkFence) \<and> copy_assured (src_data s) s2
         \<and> (no_irq s \<longrightarrow> no_irq s2) \<and> bo_ttm s2 = bo_ttm s)"

lemma copy_assured_after_memcpy:
  assumes "fail_gpu_migration t" "quiescent t"
  shows "copy_assured (src_data t) (i915_ttm_move_memcpy InMove (memcpy_init_arg env t' False) t)"
    and "no_irq t \<Longrightarrow> no_irq (i915_ttm_move_memcpy InMove arg t)"
    and "bo_ttm (i915_ttm_move_memcpy InMove arg t) = bo_ttm t"
  using assms
  by (simp_all add: copy_assured_def no_irq_def quiescent_def i915_ttm_move_memcpy_def
      memcpy_init_arg_def ttm_move_memcpy_def emit_def)

lemma outcome_not_submitted:
  assumes "fail_gpu_migration s" "\<not> fail_work_allocation s" "quiescent s"
    and "\<not> submitted env s"
    and "move_run env s False dst_mem True True = (f, s2)"
  shows "fallback_outcome s f s2"
proof -
  from accel_not_submitted [OF assms(1,4), of False dst_mem] obtain e s1
    where a: "accel_move_run env s False dst_mem = (ErrPtr e, s1)" "e \<noteq> 0"
      "s1 = s \<or> s1 = s\<lparr>dst_data := blit_garbage env\<rparr>" by blast
  let ?t = "emit [DepsSync] s1"
  have t: "fail_gpu_migration ?t" "quiescent ?t" "src_data ?t = src_data s"
    "bo_ttm ?t = bo_ttm s" "no_irq s \<longrightarrow> no_irq ?t"
    using a(3) assms(1,3) by (auto simp: emit_def quiescent_def no_irq_def)
  show ?thesis
  proof (cases "deps_sync_ret env = 0")
    case False
    with move_after_failed_accel [OF a(1)] assms(5) show ?thesis
      by (simp add: fallback_outcome_def)
  next
    case True
    with move_after_failed_accel [OF a(1)] assms(5)
    have r: "f = Null" "s2 = i915_ttm_move_memcpy InMove (memcpy_init_arg env ?t False) ?t"
      by simp_all
    from copy_assured_after_memcpy [OF t(1,2)] t(3,4,5) show ?thesis
      unfolding fallback_outcome_def r by simp
  qed
qed

lemma fail_gpu_preserved [simp]:
  "fail_gpu_migration (fence_wait_run env x) = fail_gpu_migration x"
  "fail_gpu_migration (gpu_complete env x) = fail_gpu_migration x"
  "fail_gpu_migration (emit es x) = fail_gpu_migration x"
  by (simp_all add: fence_wait_run_def queued_run_def signal_blit_fence_def gpu_complete_def
      uu_memcpy_cb_def memcpy_irq_work_run_def memcpy_work_run_def i915_ttm_move_memcpy_def
      emit_def Let_def split: option.splits)

lemma move_submitted_no_alloc:
  assumes "accel_move_run env s c dst_mem = (Ptr BlitFence, s1)"
    and "fail_gpu_migration s1" "\<not> fail_work_allocation s1" "\<not> work_alloc_ok env"
  shows "move_run env s c dst_mem True True =
    (Null, i915_ttm_move_memcpy InMove (memcpy_init_arg env (fence_wait_run env s1) c)
             (fence_wait_run env s1))"
  using assms
  by (simp add: move_run_def ERR_PTR_def EINVAL_def Let_def)

lemma move_submitted_armed:
  assumes "accel_move_run env s c dst_mem = (Ptr BlitFence, s1)"
    and "fail_gpu_migration s1" "\<not> fail_work_allocation s1" "work_alloc_ok env"
    and "add_callback_ret env = 0"
  shows "move_run env s c dst_mem True True =
    (Ptr WorkFence, (emit [WorkAlloc] s1)\<lparr>blit_cb := Some (memcpy_init_arg env s1 c)\<rparr>)"
  using assms
  by (simp add: move_run_def work_arm_run_def Let_def)

lemma move_submitted_signalled:
  assumes "accel_move_run env s c dst_mem = (Ptr BlitFence, s1)"
    and "fail_gpu_migration s1" "\<not> fail_work_allocation s1" "work_alloc_ok env"
    and "add_callback_ret env \<noteq> 0"
  shows "move_run env s c dst_mem True True =
    (Null, i915_ttm_move_memcpy InMove (memcpy_init_arg env s1 c)
       (if add_callback_ret env \<noteq> - ENOENT then fence_wait_run env (emit [WorkAlloc] s1)
        else gpu_complete env (emit [WorkAlloc] s1)))"
proof -
  have "fail_work_allocation (emit [WorkAlloc] s1) = fail_work_allocation s1"
    by (simp add: emit_def)
  with assms show ?thesis
    by (simp add: move_run_def work_arm_run_def ERR_PTR_def EINVAL_def
        Let_def)
qed

lemma wait_for_pending_blit:
  assumes "blit s1 \<noteq> None" "blit_cb s1 = None" "queued_work s1 = None"
    "queued_irq_work s1 = None"
  shows "quiescent (fence_wait_run env s1)" "quiescent (gpu_complete env s1)"
    and "fail_gpu_migration (fence_wait_run env s1) = fail_gpu_migration s1"
    and "fail_gpu_migration (gpu_complete env s1) = fail_gpu_migration s1"
    and "src_data (fence_wait_run env s1) = src_data s1"
    and "src_data (gpu_complete env s1) = src_data s1"
    and "bo_ttm (gpu_complete env s1) = bo_ttm s1"
    and "no_irq s1 \<Longrightarrow> no_irq (fence_wait_run env s1)"
    and "no_irq s1 \<Longrightarrow> no_irq (gpu_complete env s1)"
  using assms
  by (auto simp add: quiescent_def no_irq_def fence_wait_run_def queued_run_def
      signal_blit_fence_def gpu_complete_def emit_def Let_def)

lemma bo_ttm_gpu_complete [simp]: "bo_ttm (gpu_complete env s) = bo_ttm s"
  by (simp add: gpu_complete_def split: option.splits)

lemma outcome_submitted:
  assumes "fail_gpu_migration s" "\<not> fail_work_allocation s" "quiescent s"
    and "submitted env s"
    and "move_run env s False dst_mem True True = (f, s2)"
    and src: "init_src_st_err env = 0"
  shows "fallback_outcome s f s2"
proof -
  let ?s1 = "emit [GpuSubmit BlitClear] (s\<lparr>blit := Some BlitClear\<rparr>)"
  let ?x = "emit [WorkAlloc] ?s1"
  have a: "accel_move_run env s False dst_mem = (Ptr BlitFence, ?s1)"
    by (rule accel_submitted [OF assms(1,4)])
  have s1: "fail_gpu_migration ?s1" "\<not> fail_work_allocation ?s1"
    using assms(1,2) by (simp_all add: emit_def)
  have p1: "blit ?s1 \<noteq> None" "blit_cb ?s1 = None" "queued_work ?s1 = None"
    "queued_irq_work ?s1 = None"
    using assms(3) by (simp_all add: emit_def quiescent_def)
  have px: "blit ?x \<noteq> None" "blit_cb ?x = None" "queued_work ?x = None"
    "queued_irq_work ?x = None"
    using assms(3) by (simp_all add: emit_def quiescent_def)
  have same: "src_data ?s1 = src_data s" "bo_ttm ?s1 = bo_ttm s" "no_irq s \<longrightarrow> no_irq ?s1"
    "src_data ?x = src_data s" "bo_ttm ?x = bo_ttm s" "no_irq s \<longrightarrow> no_irq ?x"
    "fail_gpu_migration ?x"
    using assms(1) by (simp_all add: emit_def no_irq_def)
  consider (no_alloc) "\<not> work_alloc_ok env"
    | (armed) "work_alloc_ok env" "add_callback_ret env = 0"
    | (signalled) "work_alloc_ok env" "add_callback_ret env \<noteq> 0" by blast
  then show ?thesis
  proof cases
    case no_alloc
    let ?t = "fence_wait_run env ?s1"
    from move_submitted_no_alloc [OF a s1 no_alloc] assms(5)
    have r: "f = Null" "s2 = i915_ttm_move_memcpy InMove (memcpy_init_arg env ?t False) ?t"
      by simp_all
    have t: "quiescent ?t" "fail_gpu_migration ?t" "src_data ?t = src_data s"
      "bo_ttm ?t = bo_ttm s" "no_irq s \<longrightarrow> no_irq ?t"
      using wait_for_pending_blit(1,5,8) [OF p1, of env] same(1,2,3) s1(1) by simp_all
    from copy_assured_after_memcpy [OF t(2,1)] t(3,4,5) show ?thesis
      unfolding fallback_outcome_def r by simp
  next
    case armed
    from move_submitted_armed [OF a s1 armed] assms(5)
    have r: "f = Ptr WorkFence"
      "s2 = ?x\<lparr>blit_cb := Some (memcpy_init_arg env ?s1 False)\<rparr>"
      by simp_all
    show ?thesis
      unfolding fallback_outcome_def r
      using assms(1,3) src
      by (simp add: copy_assured_def no_irq_def quiescent_def emit_def memcpy_init_arg_def)
  next
    case signalled
    let ?t = "if add_callback_ret env \<noteq> - ENOENT then fence_wait_run env ?x
              else gpu_complete env ?x"
    from move_submitted_signalled [OF a s1 signalled] assms(5)
    have r: "f = Null" "s2 = i915_ttm_move_memcpy InMove (memcpy_init_arg env ?s1 False) ?t"
      by simp_all
    have t: "quiescent ?t" "fail_gpu_migration ?t" "src_data ?t = src_data s"
      "bo_ttm ?t = bo_ttm s" "no_irq s \<longrightarrow> no_irq ?t"
      using wait_for_pending_blit(1,2,5,6,8,9) [OF px, of env] same(4,5,6,7) by simp_all
    from copy_assured_after_memcpy [OF t(2,1)] t(3,4,5) show ?thesis
      unfolding fallback_outcome_def r by simp
  qed
qed

lemma move_fail_gpu_outcome:
  assumes "fail_gpu_migration s" "\<not> fail_work_allocation s" "quiescent s"
    and "move_run env s False dst_mem True True = (f, s2)"
    and "init_src_st_err env = 0"
  shows "fallback_outcome s f s2"
  using outcome_submitted [OF assms(1,2,3) _ assms(4,5)]
    outcome_not_submitted [OF assms(1,2,3) _ assms(4)]
  by blast

lemma not_prepared_fails:
  assumes "\<not> prepared env s dst_mem" "madv s = I915_MADV_WILLNEED"
    "\<not> nothing_to_move s dst_mem"
  shows "\<exists>e t. ttm_move_run env s evict dst_mem = Some (e, t) \<and> e \<noteq> 0"
  using assms
  unfolding ttm_move_run_def prepared_def nothing_to_move_def move_clears_def
    after_populate_def Let_def
  by (auto split: if_splits)

text \<open>
  A populated buffer: the CPU maps its resource as iomem, or it has a populated \<open>ttm\<close>.
\<close>

definition populated :: "ttm_state \<Rightarrow> bool" where
  "populated s \<longleftrightarrow>
     cpu_maps_iomem (bo_resource s)
     \<or> (case bo_ttm s of None \<Rightarrow> False | Some ttm \<Rightarrow> tt_populated ttm)"

lemma populated_not_clears:
  assumes "populated s"
  shows "\<not> move_clears s dst_mem" "\<not> nothing_to_move s dst_mem"
  using assms
  by (auto simp: populated_def move_clears_def nothing_to_move_def after_populate_def
      ttm_tt_populate_def split: option.splits)

lemma adjust_domains_SomeD:
  "i915_ttm_adjust_domains_after_move s = Some s' \<Longrightarrow> data_path s' = data_path s"
  by (auto simp: i915_ttm_adjust_domains_after_move_def data_path_def
      split: option.splits if_splits)

lemma adjust_gem_SomeD:
  "i915_ttm_adjust_gem_after_move s = Some s' \<Longrightarrow> data_path s' = data_path s"
  by (auto simp: i915_ttm_adjust_gem_after_move_def data_path_def Let_def
      split: option.splits if_splits)

lemma epilogue_SomeD:
  assumes "epilogue_run env s f dst_mem dst_rsgt = Some (ret, s')"
  shows "data_path s' = data_path (if f \<noteq> Null \<and> accel_cleanup_ret env \<noteq> 0
                                    then fence_wait_run env s else s)"
proof -
  let ?x = "if f \<noteq> Null \<and> accel_cleanup_ret env \<noteq> 0 then fence_wait_run env s else s"
  from assms obtain s2 s5 where
    s2: "i915_ttm_adjust_domains_after_move (?x\<lparr>bo_resource := dst_mem\<rparr>) = Some s2"
    and s5: "i915_ttm_adjust_gem_after_move
               (if gtt_binds_lmem dst_mem \<or> cpu_maps_iomem dst_mem
                then s2\<lparr>cached_io_rsgt := None\<rparr>\<lparr>cached_io_rsgt := Some dst_rsgt,
                          get_io_page_sg_pos := Some dst_rsgt, get_io_page_sg_idx := 0\<rparr>
                else s2\<lparr>cached_io_rsgt := None\<rparr>) = Some s5"
    and s': "s' = s5"
    unfolding epilogue_run_def ttm_bo_move_sync_cleanup_def Let_def
    by (auto split: option.splits if_splits)
  have "data_path s5 = data_path s2"
    using adjust_gem_SomeD [OF s5] by (simp add: data_path_def split: if_splits)
  moreover have "data_path s2 = data_path ?x"
    using adjust_domains_SomeD [OF s2] by (simp add: data_path_def)
  ultimately show ?thesis by (simp add: s')
qed

lemma settle_quiescent: "quiescent s \<Longrightarrow> settle_run env s = s"
  by (simp add: settle_run_def quiescent_def signal_blit_fence_def queued_run_def)

lemma settle_armed:
  assumes "fail_gpu_migration s" "blit s \<noteq> None" "blit_cb s = Some arg" "\<not> arg_clear arg"
    "queued_work s = None" "queued_irq_work s = None"
  shows "trace (settle_run env s) = trace s @ [QueueWork, Memcpy InWorker False]"
    and "dst_data (settle_run env s) = src_data s"
    and "quiescent (settle_run env s)"
  using assms
  by (auto simp: settle_run_def signal_blit_fence_def gpu_complete_def uu_memcpy_cb_def
      queued_run_def memcpy_work_run_def i915_ttm_move_memcpy_def ttm_move_memcpy_def emit_def
      quiescent_def Let_def)

lemma armed_move_settles:
  assumes sw: "fail_gpu_migration s" "\<not> fail_work_allocation s"
    and st: "madv s = I915_MADV_WILLNEED" "populated s" "quiescent s" "ttm_safe s dst_mem"
    and env: "prepared env s dst_mem" "submitted env s" "work_alloc_ok env"
      "add_callback_ret env = 0"
  shows "\<exists>s'. ttm_move_run env s evict dst_mem = Some (0, s')
           \<and> trace (settle_run env s')
               = trace s @ [GpuSubmit BlitClear, WorkAlloc]
                   @ (if accel_cleanup_ret env \<noteq> 0 then [FenceWait] else [])
                   @ [QueueWork, Memcpy InWorker False]
           \<and> dst_data (settle_run env s') = src_data s"
proof -
  let ?p = "after_populate s dst_mem"
  let ?s1 = "emit [GpuSubmit BlitClear] (?p\<lparr>blit := Some BlitClear\<rparr>)"
  let ?arg = "memcpy_init_arg env ?s1 False"
  let ?s2 = "(emit [WorkAlloc] ?s1)\<lparr>blit_cb := Some ?arg\<rparr>"
  have nc: "\<not> move_clears s dst_mem" "\<not> nothing_to_move s dst_mem"
    by (rule populated_not_clears [OF st(2)])+
  have p: "fail_gpu_migration ?p" "\<not> fail_work_allocation ?p" "quiescent ?p"
    "src_data ?p = src_data s" "trace ?p = trace s" "submitted env ?p"
    using sw st(3) env(2) after_populate_data(1) [of s dst_mem]
    by (simp_all add: data_path_def submitted_def)
  have mv: "ttm_move_run env s evict dst_mem =
     (case move_run env ?p (move_clears s dst_mem) dst_mem True True of
        (ErrPtr e, s2) \<Rightarrow> Some (e, s2)
      | (Null, s2) \<Rightarrow> epilogue_run env s2 Null dst_mem (dst_st_table env)
      | (Ptr f, s2) \<Rightarrow> epilogue_run env s2 (Ptr f) dst_mem (dst_st_table env))"
    by (rule i915_ttm_move_prepared [OF env(1) st(1) nc(2)])
  have a: "accel_move_run env ?p False dst_mem = (Ptr BlitFence, ?s1)"
    by (rule accel_submitted [OF p(1,6)])
  have s1: "fail_gpu_migration ?s1" "\<not> fail_work_allocation ?s1"
    using p(1,2) by (simp_all add: emit_def)
  have run: "move_run env ?p False dst_mem True True = (Ptr WorkFence, ?s2)"
    by (rule move_submitted_armed [OF a s1 env(3,4)])
  have "ttm_view ?s2 = ttm_view ?p" by (simp add: ttm_view_def emit_def)
  from ttm_safe_cong [OF this, of dst_mem] st(4)
  have safe: "ttm_safe ?s2 dst_mem" by simp
  have s2: "fail_gpu_migration ?s2" "blit ?s2 \<noteq> None"
    "blit_cb ?s2 = Some ?arg" "\<not> arg_clear ?arg" "queued_work ?s2 = None"
    "queued_irq_work ?s2 = None" "src_data ?s2 = src_data s"
    "trace ?s2 = trace s @ [GpuSubmit BlitClear, WorkAlloc]"
    using p by (simp_all add: emit_def quiescent_def memcpy_init_arg_def)
  let ?x = "if Ptr WorkFence \<noteq> Null \<and> accel_cleanup_ret env \<noteq> 0
            then fence_wait_run env ?s2 else ?s2"
  from epilogue_data_path [OF safe, of env "Ptr WorkFence" "dst_st_table env"]
  obtain s' where s': "epilogue_run env ?s2 (Ptr WorkFence) dst_mem (dst_st_table env)
      = Some (0, s')" "data_path s' = data_path ?x" by blast
  have r: "ttm_move_run env s evict dst_mem = Some (0, s')"
    using nc(1) by (simp add: mv run s'(1))
  have fin: "data_path (settle_run env s') = data_path (settle_run env ?x)"
    by (rule data_path_settle [OF s'(2)])
  have x: "trace (settle_run env ?x) = trace s @ [GpuSubmit BlitClear, WorkAlloc]
             @ (if accel_cleanup_ret env \<noteq> 0 then [FenceWait] else [])
             @ [QueueWork, Memcpy InWorker False]
           \<and> dst_data (settle_run env ?x) = src_data s"
  proof (cases "accel_cleanup_ret env \<noteq> 0")
    case False
    with settle_armed(1,2) [OF s2(1,2,3,4,5,6), of env] s2(7,8) show ?thesis by simp
  next
    case True
    let ?w = "emit [FenceWait] ?s2"
    have w: "fail_gpu_migration ?w" "blit ?w \<noteq> None" "blit_cb ?w = Some ?arg"
      "queued_work ?w = None" "queued_irq_work ?w = None" "src_data ?w = src_data s"
      "trace ?w = trace s @ [GpuSubmit BlitClear, WorkAlloc, FenceWait]"
      using s2(1,2,3,5,6,7,8) by (simp_all add: emit_def)
    note sa = settle_armed [OF w(1,2,3) s2(4) w(4,5), of env]
    have "settle_run env (fence_wait_run env ?s2) = settle_run env ?w"
      unfolding fence_wait_settle by (rule settle_quiescent [OF sa(3)])
    with True sa(1,2) w(6,7) show ?thesis by simp
  qed
  from fin x have "trace (settle_run env s') = trace s @ [GpuSubmit BlitClear, WorkAlloc]
             @ (if accel_cleanup_ret env \<noteq> 0 then [FenceWait] else [])
             @ [QueueWork, Memcpy InWorker False]
           \<and> dst_data (settle_run env s') = src_data s"
    by (simp add: data_path_def)
  with r show ?thesis by blast
qed

lemma successful_move_copies:
  assumes sw: "fail_gpu_migration s" "\<not> fail_work_allocation s"
    and st: "madv s = I915_MADV_WILLNEED" "populated s" "quiescent s"
    and src: "init_src_st_err env = 0"
    and ok: "ttm_move_run env s evict dst_mem = Some (0, s')"
  shows "copy_assured (src_data s) s'"
    and "dst_data (settle_run env s') = src_data s"
    and "no_irq s \<longrightarrow> no_irq (settle_run env s')"
proof -
  let ?p = "after_populate s dst_mem"
  have nc: "\<not> move_clears s dst_mem" "\<not> nothing_to_move s dst_mem"
    by (rule populated_not_clears [OF st(2)])+
  have prep: "prepared env s dst_mem"
    using not_prepared_fails [OF _ st(1) nc(2), of env evict] ok by auto
  have p: "fail_gpu_migration ?p" "\<not> fail_work_allocation ?p" "quiescent ?p"
    "src_data ?p = src_data s" "no_irq ?p = no_irq s"
    using sw st(3) after_populate_data(1) [of s dst_mem]
    by (simp_all add: data_path_def no_irq_def)
  have mv: "ttm_move_run env s evict dst_mem =
     (case move_run env ?p (move_clears s dst_mem) dst_mem True True of
        (ErrPtr e, s2) \<Rightarrow> Some (e, s2)
      | (Null, s2) \<Rightarrow> epilogue_run env s2 Null dst_mem (dst_st_table env)
      | (Ptr f, s2) \<Rightarrow> epilogue_run env s2 (Ptr f) dst_mem (dst_st_table env))"
    by (rule i915_ttm_move_prepared [OF prep st(1) nc(2)])
  obtain f s2 where run: "move_run env ?p False dst_mem True True = (f, s2)"
    by (cases "move_run env ?p False dst_mem True True") blast
  from move_fail_gpu_outcome [OF p(1,2,3) run src]
  have out: "fallback_outcome ?p f s2" .
  have not_err: "\<not> (\<exists>e. f = ErrPtr e \<and> e \<noteq> 0)"
    using ok nc(1) by (auto simp: mv run)
  with out have g: "f = Null \<or> f = Ptr WorkFence" "copy_assured (src_data s) s2"
    "no_irq s \<longrightarrow> no_irq s2"
    using p(4,5) by (auto simp: fallback_outcome_def)
  let ?x = "if f \<noteq> Null \<and> accel_cleanup_ret env \<noteq> 0 then fence_wait_run env s2 else s2"
  have "epilogue_run env s2 f dst_mem (dst_st_table env) = Some (0, s')"
    using ok g(1) nc(1) by (auto simp: mv run)
  from epilogue_SomeD [OF this] have dp: "data_path s' = data_path ?x" .
  have x: "copy_assured (src_data s) ?x" "no_irq s \<longrightarrow> no_irq ?x"
    using g(2,3) copy_assured_wait [OF g(2), of env] no_irq_wait [of s2 env]
    by (auto simp: copy_assured_def)
  have c: "copy_assured (src_data s) s'" "no_irq s \<longrightarrow> no_irq s'"
    using x copy_assured_cong [OF dp] by simp_all
  show "copy_assured (src_data s) s'" by (rule c(1))
  from copy_assured_settle [OF c(1), of env] c(2) no_irq_settle [of s' env] c(1)
  show "dst_data (settle_run env s') = src_data s"
    "no_irq s \<longrightarrow> no_irq (settle_run env s')"
    by (auto simp: copy_assured_def)
qed

definition gpu_fail_bo :: ttm_state where
  "gpu_fail_bo = sys_bo\<lparr>fail_gpu_migration := True\<rparr>"

lemma gpu_fail_bo_ready:
  "fail_gpu_migration gpu_fail_bo" "\<not> fail_work_allocation gpu_fail_bo"
  "madv gpu_fail_bo = I915_MADV_WILLNEED" "populated gpu_fail_bo"
  "quiescent gpu_fail_bo" "no_irq gpu_fail_bo" "src_data gpu_fail_bo = [1, 2, 3, 4]"
  "trace gpu_fail_bo = []" "ttm_safe gpu_fail_bo lmem"
  by (simp_all add: gpu_fail_bo_def sys_bo_def I915_MADV_WILLNEED_def quiescent_def no_irq_def
      populated_def ttm_safe_def)

lemma ok_env_ready:
  "prepared ok_env gpu_fail_bo lmem" "submitted ok_env gpu_fail_bo" "work_alloc_ok ok_env"
  "add_callback_ret ok_env = 0" "accel_cleanup_ret ok_env = 0" "init_src_st_err ok_env = 0"
  "regions_found ok_env gpu_fail_bo lmem"
  by (simp_all add: prepared_def submitted_def gpu_fail_bo_def i915_ttm_move_notify_def
      prev_deps_def regions_found_def i915_ttm_region_def gem_bug_on_def example_defs)

definition moved_in_place :: ttm_state where
  "moved_in_place =
     gpu_fail_bo\<lparr>bo_resource := lmem, mm_region := region_lmem, mem_flags := 2,
       cache_level := 0, write_domain := 0x80, read_domains := 0x80,
       cached_io_rsgt := Some 7, get_io_page_sg_pos := Some 7, dst_data := [1, 2, 3, 4],
       trace := [GpuSubmit BlitClear, WorkAlloc, Memcpy InMove False]\<rparr>"

text \<open>
  C1, as amended: for a populated, willneed buffer with nothing in flight, moved while the
  GPU-failure switch is set and the allocation-failure switch is not, when the source
  scatter-list looked up for the CPU copy is not an error pointer. When the preparatory
  steps succeed, the blit is submitted, the fallback task is allocated and its callback is
  registered on the blit fence, the buffer has a \<open>ttm\<close> or the destination is iomem whose
  cache level does not depend on one, and both memory types have a memory region, the move
  returns success, the CPU copy runs in the deferred worker and not on the
  interrupt-context path, and once it has run the destination equals the source. And
  whenever the move returns success, the pending work runs to its end, the destination
  then equals the source, and the interrupt-context path, not taken before the move, has
  not been taken.
\<close>

theorem gpu_failure_fallback:
  assumes sw: "fail_gpu_migration s" "\<not> fail_work_allocation s"
    and st: "madv s = I915_MADV_WILLNEED" "populated s" "quiescent s"
    and src: "init_src_st_err env = 0"
  shows "(prepared env s dst_mem \<and> submitted env s \<and> work_alloc_ok env
          \<and> add_callback_ret env = 0 \<and> ttm_safe s dst_mem \<and> regions_found env s dst_mem \<longrightarrow>
           (\<exists>s' t. i915_ttm_move env s evict dst_mem = Some (0, s')
              \<and> settle env s' = Some t
              \<and> trace t
                  = trace s @ [GpuSubmit BlitClear, WorkAlloc]
                      @ (if accel_cleanup_ret env \<noteq> 0 then [FenceWait] else [])
                      @ [QueueWork, Memcpy InWorker False]
              \<and> dst_data t = src_data s))
       \<and> (\<forall>s'. i915_ttm_move env s evict dst_mem = Some (0, s') \<longrightarrow>
             (\<exists>t. settle env s' = Some t \<and> dst_data t = src_data s
                \<and> (no_irq s \<longrightarrow> no_irq t)))"
proof (intro conjI allI impI)
  fix s'
  assume "i915_ttm_move env s evict dst_mem = Some (0, s')"
  from ttm_move_SomeD [OF this]
  have run: "ttm_move_run env s evict dst_mem = Some (0, s')" .
  note c = successful_move_copies [OF sw st src run]
  from settle_returns [OF copy_assured_args_ok [OF c(1)], of env] c(2,3)
  show "\<exists>t. settle env s' = Some t \<and> dst_data t = src_data s \<and> (no_irq s \<longrightarrow> no_irq t)"
    by simp
next
  assume h: "prepared env s dst_mem \<and> submitted env s \<and> work_alloc_ok env
          \<and> add_callback_ret env = 0 \<and> ttm_safe s dst_mem \<and> regions_found env s dst_mem"
  have nc: "\<not> move_clears s dst_mem" "\<not> nothing_to_move s dst_mem"
    by (rule populated_not_clears [OF st(2)])+
  from h src have eq: "i915_ttm_move env s evict dst_mem = ttm_move_run env s evict dst_mem"
    by (intro ttm_move_returns_gpu_fail [OF sw(1) _ st(1) nc(2) st(3)]) blast+
  from h have g: "ttm_safe s dst_mem" "prepared env s dst_mem" "submitted env s"
    "work_alloc_ok env" "add_callback_ret env = 0" by blast+
  from armed_move_settles [OF sw st g, of evict] obtain s'
    where s': "ttm_move_run env s evict dst_mem = Some (0, s')"
      "trace (settle_run env s')
               = trace s @ [GpuSubmit BlitClear, WorkAlloc]
                   @ (if accel_cleanup_ret env \<noteq> 0 then [FenceWait] else [])
                   @ [QueueWork, Memcpy InWorker False]"
      "dst_data (settle_run env s') = src_data s" by blast
  note c = successful_move_copies(1) [OF sw st src s'(1)]
  from settle_returns [OF copy_assured_args_ok [OF c], of env]
  have "settle env s' = Some (settle_run env s')" .
  with s' show "\<exists>s' t. i915_ttm_move env s evict dst_mem = Some (0, s')
              \<and> settle env s' = Some t
              \<and> trace t
                  = trace s @ [GpuSubmit BlitClear, WorkAlloc]
                      @ (if accel_cleanup_ret env \<noteq> 0 then [FenceWait] else [])
                      @ [QueueWork, Memcpy InWorker False]
              \<and> dst_data t = src_data s"
    unfolding eq by blast
qed

theorem gpu_failure_fallback_witness:
  "fail_gpu_migration gpu_fail_bo \<and> \<not> fail_work_allocation gpu_fail_bo
   \<and> madv gpu_fail_bo = I915_MADV_WILLNEED \<and> populated gpu_fail_bo \<and> quiescent gpu_fail_bo
   \<and> no_irq gpu_fail_bo \<and> init_src_st_err ok_env = 0
   \<and> prepared ok_env gpu_fail_bo lmem \<and> submitted ok_env gpu_fail_bo
   \<and> work_alloc_ok ok_env \<and> add_callback_ret ok_env = 0
   \<and> ttm_safe gpu_fail_bo lmem \<and> regions_found ok_env gpu_fail_bo lmem
   \<and> (\<exists>s' t. i915_ttm_move ok_env gpu_fail_bo False lmem = Some (0, s')
          \<and> settle ok_env s' = Some t
          \<and> trace t = [GpuSubmit BlitClear, WorkAlloc, QueueWork, Memcpy InWorker False]
          \<and> dst_data t = [1, 2, 3, 4]
          \<and> no_irq t)"
proof -
  note t = gpu_failure_fallback [OF gpu_fail_bo_ready(1,2,3,4,5) ok_env_ready(6),
      of lmem False]
  from t ok_env_ready gpu_fail_bo_ready obtain s' t'
    where s': "i915_ttm_move ok_env gpu_fail_bo False lmem = Some (0, s')"
      "settle ok_env s' = Some t'"
      "trace t' = [GpuSubmit BlitClear, WorkAlloc, QueueWork, Memcpy InWorker False]"
      "dst_data t' = [1, 2, 3, 4]"
    by auto
  from t s'(1,2) gpu_fail_bo_ready(6) have "no_irq t'" by auto
  with s' gpu_fail_bo_ready ok_env_ready show ?thesis by blast
qed

text \<open>
  C1 as stated fails: when the blit fence has already signalled by the time the callback is
  to be registered (dma_fence_add_callback returns -ENOENT), the CPU copy runs inside the
  move itself and nothing is ever queued on the deferred worker.
\<close>

theorem gpu_failure_fallback_in_move:
  "fail_gpu_migration gpu_fail_bo \<and> \<not> fail_work_allocation gpu_fail_bo
   \<and> i915_ttm_move (ok_env\<lparr>add_callback_ret := - ENOENT\<rparr>) gpu_fail_bo False lmem
       = Some (0, moved_in_place)
   \<and> settle (ok_env\<lparr>add_callback_ret := - ENOENT\<rparr>) moved_in_place = Some moved_in_place
   \<and> trace moved_in_place = [GpuSubmit BlitClear, WorkAlloc, Memcpy InMove False]"
  by (simp add: move_defs example_defs gpu_fail_bo_def moved_in_place_def)

section \<open>The per-object VMA registry\<close>

text \<open>
  i915_vma_instance, i915_vma_lookup and vma_create keep one vma per address space and view
  in a tree hanging off the object (\<open>obj->vma.tree\<close>) and in the list \<open>obj->vma.list\<close>.
\<close>

definition I915_GTT_PAGE_SIZE :: u64 where "I915_GTT_PAGE_SIZE = 4096"
definition I915_GTT_MIN_ALIGNMENT :: u64 where "I915_GTT_MIN_ALIGNMENT = 4096"

definition IS_ALIGNED :: "u64 \<Rightarrow> u64 \<Rightarrow> bool" where
  "IS_ALIGNED x a \<longleftrightarrow> x AND (a - 1) = 0"

definition is_power_of_2 :: "u64 \<Rightarrow> bool" where
  "is_power_of_2 n \<longleftrightarrow> n \<noteq> 0 \<and> n AND (n - 1) = 0"

definition range_overflows :: "u64 \<Rightarrow> u64 \<Rightarrow> u64 \<Rightarrow> bool" where
  "range_overflows first sz mx \<longleftrightarrow> first \<ge> mx \<or> sz > mx - first"

text \<open>
  A view: normal, a partial window (page offset and number of pages), rotated or remapped.
  intel_rotation_info_size and intel_remapped_info_size are not among the sources: a rotated
  or remapped view carries the number of pages they return for it, next to its plane
  parameters.
\<close>

datatype i915_ggtt_view =
    ViewNormal
  | ViewPartial (partial_offset: u64) (partial_size: u32)
  | ViewRotated (rotated_planes: "nat list") (rotation_info_size: u32)
  | ViewRemapped (remapped_planes: "nat list") (remapped_info_size: u32)

fun view_type :: "i915_ggtt_view \<Rightarrow> nat" where
  "view_type ViewNormal = 0"
| "view_type (ViewPartial off sz) = 1"
| "view_type (ViewRotated ps sz) = 2"
| "view_type (ViewRemapped ps sz) = 3"

fun view_words :: "i915_ggtt_view \<Rightarrow> nat list" where
  "view_words ViewNormal = []"
| "view_words (ViewPartial off sz) = [unat off, unat sz]"
| "view_words (ViewRotated ps sz) = unat sz # ps"
| "view_words (ViewRemapped ps sz) = unat sz # ps"

text \<open>
  The type of a view and the words that distinguish views of one type; \<open>view_words\<close> is
  injective on each type, so two views are equal exactly when type and words are.
\<close>

record i915_address_space =
  as_id :: nat
  as_total :: u64
  as_is_ggtt :: bool
  as_is_dpt :: bool
  as_open :: bool

record i915_vma =
  v_id :: nat
  v_vm :: nat
  v_view :: i915_ggtt_view
  v_size :: u64
  v_display_alignment :: u64
  v_fence_size :: u64
  v_fence_alignment :: u64
  v_flags :: u32

text \<open>
  Modelled from the spec: i915_vma_compare is declared in i915_vma.h, which is not among the
  sources. The spec gives the ordering key as the address-space identity first, then a
  total order over the view type and its parameters; a NULL view stands for the normal
  view. The model compares the triples (address space, view type, view words)
  lexicographically and returns a negative number, zero or a positive number.
\<close>

type_synonym vma_key = "nat \<times> nat \<times> nat list"

definition the_view :: "i915_ggtt_view option \<Rightarrow> i915_ggtt_view" where
  "the_view view = (case view of None \<Rightarrow> ViewNormal | Some v \<Rightarrow> v)"

definition request_key :: "i915_address_space \<Rightarrow> i915_ggtt_view option \<Rightarrow> vma_key" where
  "request_key vm view = (as_id vm, view_type (the_view view), view_words (the_view view))"

definition vma_key :: "i915_vma \<Rightarrow> vma_key" where
  "vma_key vma = (v_vm vma, view_type (v_view vma), view_words (v_view vma))"

definition i915_vma_compare ::
  "i915_vma \<Rightarrow> i915_address_space \<Rightarrow> i915_ggtt_view option \<Rightarrow> int" where
  "i915_vma_compare vma vm view =
     (if vma_key vma < request_key vm view then - 1
      else if request_key vm view < vma_key vma then 1 else 0)"

text \<open>
  The registry of one object: the tree and the list, the object size, and the vma slab seen
  through two counters: how many vmas were ever allocated (the next fresh identity) and
  which identities were freed again.
\<close>

record obj_vma =
  vma_tree :: "i915_vma tree"
  vma_list :: "i915_vma list"
  obj_base_size :: u64
  allocated :: nat
  freed :: "nat list"

text \<open>
  What vma_create gets from outside the sources: whether i915_vma_alloc succeeds, and
  i915_gem_fence_size and i915_gem_fence_alignment for a global-GTT vma.
\<close>

record create_env =
  alloc_ok :: bool
  gem_fence_size :: u64
  gem_fence_alignment :: u64

fun i915_vma_lookup ::
  "i915_vma tree \<Rightarrow> i915_address_space \<Rightarrow> i915_ggtt_view option \<Rightarrow> i915_vma option" where
  "i915_vma_lookup Leaf vm view = None"
| "i915_vma_lookup (Node l vma r) vm view =
     (let cmp = i915_vma_compare vma vm view
      in if cmp = 0 then Some vma
         else if cmp < 0 then i915_vma_lookup r vm view
         else i915_vma_lookup l vm view)"

text \<open>
  The walk of vma_create down the tree: it ends at the empty link where the new node is
  attached (rb_link_node), or at a node with the same key, which is returned. The
  rebalancing that follows (rb_insert_color) keeps the order of the nodes and is left out;
  lookups depend on that order only.
\<close>

fun vma_tree_link ::
  "i915_vma \<Rightarrow> i915_vma tree \<Rightarrow> i915_address_space \<Rightarrow> i915_ggtt_view option
     \<Rightarrow> i915_vma + i915_vma tree" where
  "vma_tree_link vma Leaf vm view = Inr (Node Leaf vma Leaf)"
| "vma_tree_link vma (Node l pos r) vm view =
     (let cmp = i915_vma_compare pos vm view
      in if cmp < 0
         then (case vma_tree_link vma r vm view of
                 Inl old \<Rightarrow> Inl old
               | Inr r' \<Rightarrow> Inr (Node l pos r'))
         else if cmp > 0
         then (case vma_tree_link vma l vm view of
                 Inl old \<Rightarrow> Inl old
               | Inr l' \<Rightarrow> Inr (Node l' pos r))
         else Inl pos)"

text \<open>
  \<open>vma->size\<close> as vma_create computes it, and the two assertions it makes about a partial
  view.
\<close>

definition vma_view_size :: "u64 \<Rightarrow> i915_ggtt_view option \<Rightarrow> u64" where
  "vma_view_size obj_size view =
     (case the_view view of
        ViewNormal \<Rightarrow> obj_size
      | ViewPartial off sz \<Rightarrow> push_bit PAGE_SHIFT (ucast sz)
      | ViewRotated ps sz \<Rightarrow> push_bit PAGE_SHIFT (ucast sz)
      | ViewRemapped ps sz \<Rightarrow> push_bit PAGE_SHIFT (ucast sz))"

definition partial_view_in_object :: "u64 \<Rightarrow> i915_ggtt_view option \<Rightarrow> bool" where
  "partial_view_in_object obj_size view =
     (case the_view view of
        ViewPartial off sz \<Rightarrow>
          \<not> range_overflows off (ucast sz) (drop_bit PAGE_SHIFT obj_size)
          \<and> push_bit PAGE_SHIFT (ucast sz) \<le> obj_size
      | _ \<Rightarrow> True)"

definition i915_vma_free :: "i915_vma \<Rightarrow> obj_vma \<Rightarrow> obj_vma" where
  "i915_vma_free vma st = st\<lparr>freed := v_id vma # freed st\<rparr>"

text \<open>
  vma_create. The \<open>err_vma\<close> and \<open>err_unlock\<close> exits free the new vma and return \<open>pos\<close>, which
  is \<open>ERR_PTR(-E2BIG)\<close> until the walk has met a node.
\<close>

definition vma_create ::
  "create_env \<Rightarrow> obj_vma \<Rightarrow> i915_address_space \<Rightarrow> i915_ggtt_view option
     \<Rightarrow> ((int + i915_vma) \<times> obj_vma) option" where
  "vma_create env st vm view =
     (if \<not> alloc_ok env then Some (Inl (- ENOMEM), st)
      else
        (let st1 = st\<lparr>allocated := allocated st + 1\<rparr>;
             vma = \<lparr>v_id = allocated st, v_vm = as_id vm, v_view = the_view view,
                    v_size = vma_view_size (obj_base_size st) view,
                    v_display_alignment = I915_GTT_MIN_ALIGNMENT,
                    v_fence_size = 0, v_fence_alignment = 0, v_flags = 0\<rparr>
         in gem_bug_on (\<not> partial_view_in_object (obj_base_size st) view)
              (if v_size vma > as_total vm
               then Some (Inl (- E2BIG), i915_vma_free vma st1)
               else gem_bug_on (\<not> IS_ALIGNED (v_size vma) I915_GTT_PAGE_SIZE)
                 (if as_is_ggtt vm \<and> v_size vma > 0xFFFFFFFF
                  then Some (Inl (- E2BIG), i915_vma_free vma st1)
                  else if as_is_ggtt vm
                          \<and> (gem_fence_size env < v_size vma \<or> gem_fence_size env > as_total vm)
                  then Some (Inl (- E2BIG), i915_vma_free vma st1)
                  else gem_bug_on (as_is_ggtt vm
                                   \<and> \<not> IS_ALIGNED (gem_fence_size env) I915_GTT_MIN_ALIGNMENT)
                    (gem_bug_on (as_is_ggtt vm \<and> \<not> is_power_of_2 (gem_fence_alignment env))
                      (let vma2 = (if as_is_ggtt vm
                                   then vma\<lparr>v_fence_size := gem_fence_size env,
                                            v_fence_alignment := gem_fence_alignment env,
                                            v_flags := v_flags vma OR I915_VMA_GGTT\<rparr>
                                   else vma)
                       in case vma_tree_link vma2 (vma_tree st1) vm view of
                            Inl pos \<Rightarrow> Some (Inr pos, i915_vma_free vma2 st1)
                          | Inr t \<Rightarrow>
                              Some (Inr vma2,
                                    st1\<lparr>vma_tree := t,
                                        vma_list := (if v_flags vma2 AND I915_VMA_GGTT \<noteq> 0
                                                     then vma2 # vma_list st1
                                                     else vma_list st1 @ [vma2])\<rparr>)))))))"

text \<open>
  i915_vma_instance looks the key up under the lock, drops the lock and creates the vma
  when the lookup missed. \<open>others\<close> is what other threads did to the registry between the
  lookup and the moment vma_create takes the lock.
\<close>

definition i915_vma_instance ::
  "create_env \<Rightarrow> (obj_vma \<Rightarrow> obj_vma) \<Rightarrow> obj_vma \<Rightarrow> i915_address_space
     \<Rightarrow> i915_ggtt_view option \<Rightarrow> ((int + i915_vma) \<times> obj_vma) option" where
  "i915_vma_instance env others st vm view =
     gem_bug_on (view \<noteq> None \<and> \<not> (as_is_ggtt vm \<or> as_is_dpt vm))
       (gem_bug_on (\<not> as_open vm)
          (case (case i915_vma_lookup (vma_tree st) vm view of
                   Some vma \<Rightarrow> Some (Inr vma, st)
                 | None \<Rightarrow> vma_create env (others st) vm view) of
             None \<Rightarrow> None
           | Some (Inl err, st') \<Rightarrow> Some (Inl err, st')
           | Some (Inr vma, st') \<Rightarrow>
               gem_bug_on (i915_vma_compare vma vm view \<noteq> 0) (Some (Inr vma, st'))))"

section \<open>Registry properties\<close>

text \<open>
  The registry is well formed when the tree is a search tree for the key order, which
  leaves room for one vma per key, and the list holds the same vmas. \<open>create_rejects\<close>
  collects the size tests vma_create makes before it walks the tree.
\<close>

abbreviation key_below :: "i915_vma \<Rightarrow> i915_vma \<Rightarrow> bool" where
  "key_below a b \<equiv> vma_key a < vma_key b"

definition registry_ok :: "obj_vma \<Rightarrow> bool" where
  "registry_ok st \<longleftrightarrow>
     bst_wrt key_below (vma_tree st) \<and> set (vma_list st) = set_tree (vma_tree st)"

definition create_rejects ::
  "create_env \<Rightarrow> u64 \<Rightarrow> i915_address_space \<Rightarrow> i915_ggtt_view option \<Rightarrow> bool" where
  "create_rejects env obj_size vm view \<longleftrightarrow>
     vma_view_size obj_size view > as_total vm
     \<or> (as_is_ggtt vm
         \<and> (vma_view_size obj_size view > 0xFFFFFFFF
             \<or> gem_fence_size env < vma_view_size obj_size view
             \<or> gem_fence_size env > as_total vm))"

lemma compare_sign:
  "i915_vma_compare vma vm view < 0 \<longleftrightarrow> vma_key vma < request_key vm view"
  "i915_vma_compare vma vm view > 0 \<longleftrightarrow> request_key vm view < vma_key vma"
  "i915_vma_compare vma vm view = 0 \<longleftrightarrow> vma_key vma = request_key vm view"
  by (auto simp: i915_vma_compare_def)

lemma lookup_finds:
  assumes "bst_wrt key_below t"
  shows "i915_vma_lookup t vm view = Some v
         \<longleftrightarrow> v \<in> set_tree t \<and> vma_key v = request_key vm view"
  using assms
proof (induction t)
  case Leaf
  then show ?case by simp
next
  case (Node l a r)
  then have ih: "i915_vma_lookup l vm view = Some v
        \<longleftrightarrow> v \<in> set_tree l \<and> vma_key v = request_key vm view"
      "i915_vma_lookup r vm view = Some v
        \<longleftrightarrow> v \<in> set_tree r \<and> vma_key v = request_key vm view"
    by simp_all
  from Node.prems have ord: "\<forall>x\<in>set_tree l. vma_key x < vma_key a"
    "\<forall>x\<in>set_tree r. vma_key a < vma_key x" by simp_all
  consider (eq) "vma_key a = request_key vm view" | (lt) "vma_key a < request_key vm view"
    | (gt) "request_key vm view < vma_key a" by (meson linorder_less_linear)
  then show ?case
  proof cases
    case eq
    with ord show ?thesis by (auto simp: Let_def compare_sign)
  next
    case lt
    then have "i915_vma_compare a vm view < 0" by (simp add: compare_sign)
    with lt ord ih show ?thesis by (auto simp: Let_def)
  next
    case gt
    then have "i915_vma_compare a vm view > 0" by (simp add: compare_sign)
    with gt ord ih show ?thesis by (auto simp: Let_def)
  qed
qed

lemma lookup_misses:
  assumes "bst_wrt key_below t"
  shows "i915_vma_lookup t vm view = None
         \<longleftrightarrow> (\<forall>v\<in>set_tree t. vma_key v \<noteq> request_key vm view)"
proof -
  have "i915_vma_lookup t vm view = None \<longleftrightarrow> (\<forall>v. i915_vma_lookup t vm view \<noteq> Some v)"
    by auto
  then show ?thesis using lookup_finds [OF assms] by auto
qed

lemma keys_distinct:
  assumes "bst_wrt key_below t" "a \<in> set_tree t" "b \<in> set_tree t" "vma_key a = vma_key b"
  shows "a = b"
  using assms
proof (induction t)
  case Leaf
  then show ?case by simp
next
  case (Node l x r)
  then show ?case by (auto 4 3 dest: less_trans)
qed

lemma link_existing:
  assumes "bst_wrt key_below t" "vma_tree_link vma t vm view = Inl pos"
  shows "i915_vma_lookup t vm view = Some pos"
  using assms
proof (induction t)
  case Leaf
  then show ?case by simp
next
  case (Node l a r)
  then show ?case
    by (auto simp: Let_def split: if_splits sum.splits)
qed

lemma link_new:
  assumes "bst_wrt key_below t" "vma_key vma = request_key vm view"
    "vma_tree_link vma t vm view = Inr t'"
  shows "bst_wrt key_below t' \<and> set_tree t' = insert vma (set_tree t)
         \<and> i915_vma_lookup t vm view = None"
  using assms
proof (induction t arbitrary: t')
  case Leaf
  then show ?case by auto
next
  case (Node l a r)
  show ?case
  proof (cases "i915_vma_compare a vm view < 0")
    case True
    with Node.prems(3) obtain r' where r': "vma_tree_link vma r vm view = Inr r'"
      "t' = Node l a r'" by (auto simp: Let_def split: sum.splits)
    from Node.IH(2) [OF _ Node.prems(2) r'(1)] Node.prems(1)
    have "bst_wrt key_below r'" "set_tree r' = insert vma (set_tree r)"
      "i915_vma_lookup r vm view = None" by simp_all
    with True Node.prems(1,2) r'(2) show ?thesis
      by (auto simp: Let_def compare_sign)
  next
    case False
    with Node.prems(3) have gt: "i915_vma_compare a vm view > 0"
      by (auto simp: Let_def split: if_splits)
    with False Node.prems(3) obtain l' where l': "vma_tree_link vma l vm view = Inr l'"
      "t' = Node l' a r" by (auto simp: Let_def split: sum.splits)
    from Node.IH(1) [OF _ Node.prems(2) l'(1)] Node.prems(1)
    have "bst_wrt key_below l'" "set_tree l' = insert vma (set_tree l)"
      "i915_vma_lookup l vm view = None" by simp_all
    with False gt Node.prems(1,2) l'(2) show ?thesis
      by (auto simp: Let_def compare_sign)
  qed
qed

text \<open>The vma that vma_create has built when it reaches the tree walk.\<close>

definition new_vma :: "create_env \<Rightarrow> obj_vma \<Rightarrow> i915_address_space \<Rightarrow> i915_ggtt_view option \<Rightarrow> i915_vma"
  where
  "new_vma env st vm view =
     (let vma = \<lparr>v_id = allocated st, v_vm = as_id vm, v_view = the_view view,
                  v_size = vma_view_size (obj_base_size st) view,
                  v_display_alignment = I915_GTT_MIN_ALIGNMENT,
                  v_fence_size = 0, v_fence_alignment = 0, v_flags = 0\<rparr>
      in if as_is_ggtt vm
         then vma\<lparr>v_fence_size := gem_fence_size env,
                  v_fence_alignment := gem_fence_alignment env,
                  v_flags := v_flags vma OR I915_VMA_GGTT\<rparr>
         else vma)"

lemma new_vma_key [simp]: "vma_key (new_vma env st vm view) = request_key vm view"
  by (simp add: new_vma_def vma_key_def request_key_def Let_def)

lemma vma_create_outcome:
  assumes "vma_create env st vm view = Some (r, st')"
  shows "(r = Inl (- ENOMEM) \<and> \<not> alloc_ok env \<and> st' = st)
       \<or> (r = Inl (- E2BIG) \<and> alloc_ok env \<and> create_rejects env (obj_base_size st) vm view
           \<and> st' = st\<lparr>allocated := allocated st + 1, freed := allocated st # freed st\<rparr>)
       \<or> (\<exists>pos. r = Inr pos \<and> alloc_ok env \<and> \<not> create_rejects env (obj_base_size st) vm view
           \<and> vma_tree_link (new_vma env st vm view) (vma_tree st) vm view = Inl pos
           \<and> st' = st\<lparr>allocated := allocated st + 1, freed := allocated st # freed st\<rparr>)
       \<or> (\<exists>t. r = Inr (new_vma env st vm view) \<and> alloc_ok env
           \<and> \<not> create_rejects env (obj_base_size st) vm view
           \<and> vma_tree_link (new_vma env st vm view) (vma_tree st) vm view = Inr t
           \<and> vma_tree st' = t \<and> freed st' = freed st
           \<and> set (vma_list st') = insert (new_vma env st vm view) (set (vma_list st)))"
proof (cases "alloc_ok env")
  case False
  with assms show ?thesis by (simp add: vma_create_def)
next
  case True
  show ?thesis
  proof (cases "create_rejects env (obj_base_size st) vm view")
    case rej: True
    with True assms show ?thesis
      unfolding vma_create_def create_rejects_def gem_bug_on_def Let_def i915_vma_free_def
      by (auto split: if_splits)
  next
    case ok: False
    with True assms
    have walk: "(case vma_tree_link (new_vma env st vm view) (vma_tree st) vm view of
           Inl pos \<Rightarrow> Some (Inr pos,
              i915_vma_free (new_vma env st vm view) (st\<lparr>allocated := allocated st + 1\<rparr>))
         | Inr t \<Rightarrow> Some (Inr (new_vma env st vm view),
              st\<lparr>allocated := allocated st + 1, vma_tree := t,
                 vma_list := (if v_flags (new_vma env st vm view) AND I915_VMA_GGTT \<noteq> 0
                              then new_vma env st vm view # vma_list st
                              else vma_list st @ [new_vma env st vm view])\<rparr>))
         = Some (r, st')"
      unfolding vma_create_def create_rejects_def gem_bug_on_def Let_def new_vma_def
      by (auto split: if_splits cong: sum.case_cong)
    show ?thesis
    proof (cases "vma_tree_link (new_vma env st vm view) (vma_tree st) vm view")
      case (Inl pos)
      with walk True ok show ?thesis
        by (auto simp: i915_vma_free_def new_vma_def Let_def)
    next
      case (Inr t)
      with walk True ok show ?thesis by (auto split: if_splits)
    qed
  qed
qed

lemma vma_create_registry:
  assumes "registry_ok st" "vma_create env st vm view = Some (r, st')"
  shows "registry_ok st'"
    and "\<forall>v. r = Inr v \<longrightarrow> i915_vma_lookup (vma_tree st') vm view = Some v"
    and "\<forall>w. i915_vma_lookup (vma_tree st) vm view = Some w \<longrightarrow>
           (r = Inr w \<or> r = Inl (- ENOMEM) \<or> r = Inl (- E2BIG))
           \<and> vma_tree st' = vma_tree st \<and> vma_list st' = vma_list st
           \<and> (alloc_ok env \<and> \<not> create_rejects env (obj_base_size st) vm view \<longrightarrow> r = Inr w)
           \<and> (r = Inr w \<longrightarrow> freed st' = allocated st # freed st)"
proof -
  let ?n = "new_vma env st vm view"
  have b: "bst_wrt key_below (vma_tree st)" "set (vma_list st) = set_tree (vma_tree st)"
    using assms(1) by (simp_all add: registry_ok_def)
  note o = vma_create_outcome [OF assms(2)]
  have ex: "i915_vma_lookup (vma_tree st) vm view = Some pos"
    if "vma_tree_link ?n (vma_tree st) vm view = Inl pos" for pos
    using link_existing [OF b(1) that] .
  have nw: "bst_wrt key_below t \<and> set_tree t = insert ?n (set_tree (vma_tree st))
         \<and> i915_vma_lookup (vma_tree st) vm view = None"
    if "vma_tree_link ?n (vma_tree st) vm view = Inr t" for t
    using link_new [OF b(1) new_vma_key that] .
  show "registry_ok st'"
    using o b nw by (auto simp: registry_ok_def)
  show "\<forall>v. r = Inr v \<longrightarrow> i915_vma_lookup (vma_tree st') vm view = Some v"
  proof (intro allI impI)
    fix v assume v: "r = Inr v"
    from o v consider (old) "vma_tree_link ?n (vma_tree st) vm view = Inl v"
        "vma_tree st' = vma_tree st"
      | (new) t where "vma_tree_link ?n (vma_tree st) vm view = Inr t" "vma_tree st' = t"
        "v = ?n" by auto
    then show "i915_vma_lookup (vma_tree st') vm view = Some v"
    proof cases
      case old
      then show ?thesis using ex by simp
    next
      case new
      from nw [OF new(1)] have "bst_wrt key_below t" "?n \<in> set_tree t" by auto
      then show ?thesis using lookup_finds [of t vm view ?n] new(2,3) by simp
    qed
  qed
  show "\<forall>w. i915_vma_lookup (vma_tree st) vm view = Some w \<longrightarrow>
           (r = Inr w \<or> r = Inl (- ENOMEM) \<or> r = Inl (- E2BIG))
           \<and> vma_tree st' = vma_tree st \<and> vma_list st' = vma_list st
           \<and> (alloc_ok env \<and> \<not> create_rejects env (obj_base_size st) vm view \<longrightarrow> r = Inr w)
           \<and> (r = Inr w \<longrightarrow> freed st' = allocated st # freed st)"
  proof (intro allI impI)
    fix w assume w: "i915_vma_lookup (vma_tree st) vm view = Some w"
    have no_new: "vma_tree_link ?n (vma_tree st) vm view \<noteq> Inr t" for t
      using nw [of t] w by auto
    from o no_new ex w
    show "(r = Inr w \<or> r = Inl (- ENOMEM) \<or> r = Inl (- E2BIG))
           \<and> vma_tree st' = vma_tree st \<and> vma_list st' = vma_list st
           \<and> (alloc_ok env \<and> \<not> create_rejects env (obj_base_size st) vm view \<longrightarrow> r = Inr w)
           \<and> (r = Inr w \<longrightarrow> freed st' = allocated st # freed st)"
      by (elim disjE exE conjE) (auto simp: ENOMEM_def E2BIG_def)
  qed
qed

lemma instance_unfold:
  assumes "i915_vma_instance env others st vm view = Some (r, st')"
  shows "(\<exists>w. i915_vma_lookup (vma_tree st) vm view = Some w \<and> r = Inr w \<and> st' = st)
       \<or> (i915_vma_lookup (vma_tree st) vm view = None
           \<and> vma_create env (others st) vm view = Some (r, st'))"
  using assms
  unfolding i915_vma_instance_def gem_bug_on_def
  by (auto split: if_splits option.splits sum.splits)

subsection \<open>Example registries\<close>

text \<open>
  A 4 GiB global GTT, a tiny address space, an object of two pages without vmas, and the
  same object after its normal view in the global GTT was created.
\<close>

definition ggtt0 :: i915_address_space where
  "ggtt0 = \<lparr>as_id = 0, as_total = 0x100000000, as_is_ggtt = True, as_is_dpt = False,
            as_open = True\<rparr>"

definition small_vm :: i915_address_space where
  "small_vm = \<lparr>as_id = 1, as_total = 4096, as_is_ggtt = False, as_is_dpt = False,
               as_open = True\<rparr>"

definition fresh_obj :: obj_vma where
  "fresh_obj = \<lparr>vma_tree = Leaf, vma_list = [], obj_base_size = 8192, allocated = 0, freed = []\<rparr>"

definition fence_env :: create_env where
  "fence_env = \<lparr>alloc_ok = True, gem_fence_size = 8192, gem_fence_alignment = 4096\<rparr>"

definition first_vma :: i915_vma where
  "first_vma = \<lparr>v_id = 0, v_vm = 0, v_view = ViewNormal, v_size = 8192,
                v_display_alignment = 4096, v_fence_size = 8192, v_fence_alignment = 4096,
                v_flags = 0x2000\<rparr>"

definition obj_with_vma :: obj_vma where
  "obj_with_vma = \<lparr>vma_tree = Node Leaf first_vma Leaf, vma_list = [first_vma],
                   obj_base_size = 8192, allocated = 1, freed = []\<rparr>"

definition nobody :: "obj_vma \<Rightarrow> obj_vma" where
  "nobody st = st"

definition winner_inserted :: "obj_vma \<Rightarrow> obj_vma" where
  "winner_inserted st = obj_with_vma"

lemma first_instance:
  "i915_vma_instance fence_env nobody fresh_obj ggtt0 None = Some (Inr first_vma, obj_with_vma)"
  by (simp add: i915_vma_instance_def gem_bug_on_def vma_create_def fresh_obj_def ggtt0_def
      fence_env_def first_vma_def obj_with_vma_def vma_view_size_def the_view_def
      partial_view_in_object_def IS_ALIGNED_def is_power_of_2_def I915_GTT_PAGE_SIZE_def
      I915_GTT_MIN_ALIGNMENT_def I915_VMA_GGTT_def i915_vma_compare_def vma_key_def
      request_key_def nobody_def Let_def)

lemma racing_instance:
  "i915_vma_instance fence_env winner_inserted fresh_obj ggtt0 None
     = Some (Inr first_vma, obj_with_vma\<lparr>allocated := 2, freed := [1]\<rparr>)"
  by (simp add: i915_vma_instance_def gem_bug_on_def vma_create_def fresh_obj_def ggtt0_def
      fence_env_def first_vma_def obj_with_vma_def vma_view_size_def the_view_def
      partial_view_in_object_def IS_ALIGNED_def is_power_of_2_def I915_GTT_PAGE_SIZE_def
      I915_GTT_MIN_ALIGNMENT_def I915_VMA_GGTT_def i915_vma_compare_def vma_key_def
      request_key_def i915_vma_free_def winner_inserted_def Let_def)

lemma example_registries:
  "registry_ok fresh_obj" "registry_ok obj_with_vma"
  "i915_vma_lookup (vma_tree fresh_obj) ggtt0 None = None"
  "i915_vma_lookup (vma_tree obj_with_vma) ggtt0 None = Some first_vma"
  by (simp_all add: registry_ok_def fresh_obj_def obj_with_vma_def i915_vma_compare_def
      vma_key_def request_key_def first_vma_def ggtt0_def the_view_def Let_def)

subsection \<open>One vma per key\<close>

text \<open>
  The assertions of the two functions. i915_vma_instance asserts that a view is passed only
  for a global GTT or a display page table and that the address space is open; vma_create
  asserts that a partial view lies inside the object, that the size of the vma is a
  multiple of the GTT page size and, for the global GTT, that the fence size is aligned and
  the fence alignment is a power of two.
\<close>

definition instance_asserts :: "i915_address_space \<Rightarrow> i915_ggtt_view option \<Rightarrow> bool" where
  "instance_asserts vm view \<longleftrightarrow> (view = None \<or> as_is_ggtt vm \<or> as_is_dpt vm) \<and> as_open vm"

definition create_asserts ::
  "create_env \<Rightarrow> u64 \<Rightarrow> i915_address_space \<Rightarrow> i915_ggtt_view option \<Rightarrow> bool" where
  "create_asserts env obj_size vm view \<longleftrightarrow>
     partial_view_in_object obj_size view
     \<and> IS_ALIGNED (vma_view_size obj_size view) I915_GTT_PAGE_SIZE
     \<and> (\<not> as_is_ggtt vm
        \<or> (IS_ALIGNED (gem_fence_size env) I915_GTT_MIN_ALIGNMENT
           \<and> is_power_of_2 (gem_fence_alignment env)))"

text \<open>The registry after a creation that was given up: the new vma was allocated and freed.\<close>

definition discarded :: "obj_vma \<Rightarrow> obj_vma" where
  "discarded st = st\<lparr>allocated := allocated st + 1, freed := allocated st # freed st\<rparr>"

lemma vma_create_alloc_fails:
  assumes "\<not> alloc_ok env"
  shows "vma_create env st vm view = Some (Inl (- ENOMEM), st)"
  using assms by (simp add: vma_create_def)

lemma vma_create_rejected:
  assumes "alloc_ok env" "create_rejects env (obj_base_size st) vm view"
    "create_asserts env (obj_base_size st) vm view"
  shows "vma_create env st vm view = Some (Inl (- E2BIG), discarded st)"
  using assms
  unfolding vma_create_def create_rejects_def create_asserts_def gem_bug_on_def Let_def
    i915_vma_free_def discarded_def
  by auto

lemma vma_create_returns:
  assumes "alloc_ok env" "\<not> create_rejects env (obj_base_size st) vm view"
    "create_asserts env (obj_base_size st) vm view"
  shows "\<exists>v st'. vma_create env st vm view = Some (Inr v, st')"
  using assms
  unfolding vma_create_def create_rejects_def create_asserts_def gem_bug_on_def Let_def
  by (auto split: sum.splits)

lemma returned_vma_matches:
  assumes "registry_ok st'" "i915_vma_lookup (vma_tree st') vm view = Some v"
  shows "i915_vma_compare v vm view = 0"
  using assms lookup_finds [of "vma_tree st'" vm view v]
  by (simp add: registry_ok_def compare_sign)

lemma instance_found:
  assumes "registry_ok st" "instance_asserts vm view"
    "i915_vma_lookup (vma_tree st) vm view = Some w"
  shows "i915_vma_instance env others st vm view = Some (Inr w, st)"
  using assms returned_vma_matches [OF assms(1,3)]
  by (simp add: i915_vma_instance_def instance_asserts_def gem_bug_on_def)

lemma instance_creates:
  assumes "registry_ok (others st)" "instance_asserts vm view"
    "i915_vma_lookup (vma_tree st) vm view = None"
    "vma_create env (others st) vm view = Some (r, st')"
  shows "i915_vma_instance env others st vm view = Some (r, st')"
proof (cases r)
  case (Inl e)
  with assms show ?thesis
    by (simp add: i915_vma_instance_def instance_asserts_def gem_bug_on_def)
next
  case (Inr v)
  from vma_create_registry(1,2) [OF assms(1,4)] Inr
  have "i915_vma_compare v vm view = 0"
    using returned_vma_matches by blast
  with assms Inr show ?thesis
    by (simp add: i915_vma_instance_def instance_asserts_def gem_bug_on_def)
qed

text \<open>
  C3, as amended. The registry is well formed before the call, also after what other
  threads did to it between the lookup and the creation. Whatever the call returns, the
  registry stays well formed, with at most one vma per (address space, view) key in the
  tree, and a vma that is returned is the one the tree holds for the key. A call that
  passes its assertions returns the vma its lookup finds. When the lookup misses, the call
  fails with -ENOMEM if the allocation fails and with -E2BIG if a size test rejects the
  view, in both cases also when the key was inserted in the meantime; otherwise it returns
  a vma: the earlier one when the key was inserted in the meantime, leaving tree and list
  alone and freeing its own, and else the new one, which it has added to tree and list.
\<close>

theorem singleton_vma:
  assumes "registry_ok st" "registry_ok (others st)"
  shows "(\<forall>r st'. i915_vma_instance env others st vm view = Some (r, st') \<longrightarrow>
            registry_ok st'
            \<and> (\<forall>a\<in>set_tree (vma_tree st'). \<forall>b\<in>set_tree (vma_tree st').
                  vma_key a = vma_key b \<longrightarrow> a = b)
            \<and> (\<forall>v. r = Inr v \<longrightarrow> i915_vma_lookup (vma_tree st') vm view = Some v))
    \<and> (instance_asserts vm view \<longrightarrow>
         (\<forall>w. i915_vma_lookup (vma_tree st) vm view = Some w \<longrightarrow>
            i915_vma_instance env others st vm view = Some (Inr w, st))
       \<and> (i915_vma_lookup (vma_tree st) vm view = None \<and> \<not> alloc_ok env \<longrightarrow>
            i915_vma_instance env others st vm view = Some (Inl (- ENOMEM), others st))
       \<and> (i915_vma_lookup (vma_tree st) vm view = None \<and> alloc_ok env
            \<and> create_asserts env (obj_base_size (others st)) vm view \<longrightarrow>
            (create_rejects env (obj_base_size (others st)) vm view \<longrightarrow>
               i915_vma_instance env others st vm view
                 = Some (Inl (- E2BIG), discarded (others st)))
          \<and> (\<not> create_rejects env (obj_base_size (others st)) vm view \<longrightarrow>
               (\<forall>w. i915_vma_lookup (vma_tree (others st)) vm view = Some w \<longrightarrow>
                  i915_vma_instance env others st vm view
                    = Some (Inr w, discarded (others st)))
             \<and> (i915_vma_lookup (vma_tree (others st)) vm view = None \<longrightarrow>
                  (\<exists>st'. i915_vma_instance env others st vm view
                            = Some (Inr (new_vma env (others st) vm view), st')
                     \<and> set_tree (vma_tree st')
                         = insert (new_vma env (others st) vm view)
                             (set_tree (vma_tree (others st)))
                     \<and> set (vma_list st')
                         = insert (new_vma env (others st) vm view)
                             (set (vma_list (others st))))))))"
proof -
  let ?o = "others st"
  let ?n = "new_vma env ?o vm view"
  have inv: "registry_ok st'
      \<and> (\<forall>a\<in>set_tree (vma_tree st'). \<forall>b\<in>set_tree (vma_tree st').
            vma_key a = vma_key b \<longrightarrow> a = b)
      \<and> (\<forall>v. r = Inr v \<longrightarrow> i915_vma_lookup (vma_tree st') vm view = Some v)"
    if run: "i915_vma_instance env others st vm view = Some (r, st')" for r st'
  proof -
    from instance_unfold [OF run]
    have main: "registry_ok st'
      \<and> (\<forall>v. r = Inr v \<longrightarrow> i915_vma_lookup (vma_tree st') vm view = Some v)"
    proof (elim disjE exE conjE)
      fix w
      assume "i915_vma_lookup (vma_tree st) vm view = Some w" "r = Inr w" "st' = st"
      with assms(1) show ?thesis
        by simp
    next
      assume c: "i915_vma_lookup (vma_tree st) vm view = None"
        "vma_create env (others st) vm view = Some (r, st')"
      from vma_create_registry(1,2) [OF assms(2) c(2)] show ?thesis
        by simp
    qed
    then have "bst_wrt key_below (vma_tree st')"
      by (simp add: registry_ok_def)
    then have "\<forall>a\<in>set_tree (vma_tree st'). \<forall>b\<in>set_tree (vma_tree st').
          vma_key a = vma_key b \<longrightarrow> a = b"
      using keys_distinct by blast
    with main show ?thesis
      by simp
  qed
  have found: "i915_vma_instance env others st vm view = Some (Inr w, st)"
    if "instance_asserts vm view" "i915_vma_lookup (vma_tree st) vm view = Some w" for w
    using instance_found [OF assms(1) that] .
  have nomem: "i915_vma_instance env others st vm view = Some (Inl (- ENOMEM), ?o)"
    if "instance_asserts vm view" "i915_vma_lookup (vma_tree st) vm view = None"
      "\<not> alloc_ok env"
    using instance_creates [where others = others and st = st, OF assms(2) that(1,2)
        vma_create_alloc_fails [OF that(3), of ?o vm view]] .
  have toobig: "i915_vma_instance env others st vm view = Some (Inl (- E2BIG), discarded ?o)"
    if "instance_asserts vm view" "i915_vma_lookup (vma_tree st) vm view = None"
      "alloc_ok env" "create_asserts env (obj_base_size ?o) vm view"
      "create_rejects env (obj_base_size ?o) vm view"
    using instance_creates [where others = others and st = st, OF assms(2) that(1,2)
        vma_create_rejected [OF that(3,5,4)]] .
  have created: "(\<forall>w. i915_vma_lookup (vma_tree ?o) vm view = Some w \<longrightarrow>
                  i915_vma_instance env others st vm view = Some (Inr w, discarded ?o))
             \<and> (i915_vma_lookup (vma_tree ?o) vm view = None \<longrightarrow>
                  (\<exists>st'. i915_vma_instance env others st vm view = Some (Inr ?n, st')
                     \<and> set_tree (vma_tree st') = insert ?n (set_tree (vma_tree ?o))
                     \<and> set (vma_list st') = insert ?n (set (vma_list ?o))))"
    if a: "instance_asserts vm view" "i915_vma_lookup (vma_tree st) vm view = None"
      "alloc_ok env" "create_asserts env (obj_base_size ?o) vm view"
      "\<not> create_rejects env (obj_base_size ?o) vm view"
  proof -
    from vma_create_returns [OF a(3,5,4)] obtain v st'
      where c: "vma_create env ?o vm view = Some (Inr v, st')"
      by blast
    note run = instance_creates [where others = others and st = st, OF assms(2) a(1,2) c]
    have b: "bst_wrt key_below (vma_tree ?o)" "set (vma_list ?o) = set_tree (vma_tree ?o)"
      using assms(2) by (simp_all add: registry_ok_def)
    from vma_create_outcome [OF c] consider
        (old) "vma_tree_link ?n (vma_tree ?o) vm view = Inl v" "st' = discarded ?o"
      | (new) t where "v = ?n" "vma_tree_link ?n (vma_tree ?o) vm view = Inr t"
          "vma_tree st' = t" "set (vma_list st') = insert ?n (set (vma_list ?o))"
      by (auto simp add: discarded_def)
    then show ?thesis
    proof cases
      case old
      from link_existing [OF b(1) old(1)] run old(2) show ?thesis
        by simp
    next
      case new
      from link_new [OF b(1) new_vma_key new(2)] run new show ?thesis
        by auto
    qed
  qed
  from inv found nomem toobig created show ?thesis
    by blast
qed

theorem singleton_vma_witness:
  "registry_ok fresh_obj \<and> registry_ok (winner_inserted fresh_obj)
   \<and> instance_asserts ggtt0 None
   \<and> alloc_ok fence_env
   \<and> create_asserts fence_env (obj_base_size (winner_inserted fresh_obj)) ggtt0 None
   \<and> \<not> create_rejects fence_env (obj_base_size (winner_inserted fresh_obj)) ggtt0 None
   \<and> i915_vma_lookup (vma_tree fresh_obj) ggtt0 None = None
   \<and> i915_vma_lookup (vma_tree (winner_inserted fresh_obj)) ggtt0 None = Some first_vma
   \<and> i915_vma_instance fence_env winner_inserted fresh_obj ggtt0 None
       = Some (Inr first_vma, discarded (winner_inserted fresh_obj))
   \<and> registry_ok (discarded (winner_inserted fresh_obj))
   \<and> i915_vma_lookup (vma_tree (discarded (winner_inserted fresh_obj))) ggtt0 None
       = Some first_vma
   \<and> i915_vma_instance fence_env nobody obj_with_vma ggtt0 None
       = Some (Inr first_vma, obj_with_vma)"
proof -
  have w: "winner_inserted fresh_obj = obj_with_vma"
    by (simp add: winner_inserted_def)
  have ok: "registry_ok (winner_inserted fresh_obj)"
    unfolding w by (rule example_registries(2))
  have ok': "registry_ok (nobody obj_with_vma)"
    unfolding nobody_def by (rule example_registries(2))
  have ia: "instance_asserts ggtt0 None"
    by (simp add: instance_asserts_def ggtt0_def)
  have al: "alloc_ok fence_env"
    by (simp add: fence_env_def)
  have ca: "create_asserts fence_env (obj_base_size (winner_inserted fresh_obj)) ggtt0 None"
    by (simp add: create_asserts_def w obj_with_vma_def fence_env_def ggtt0_def
        partial_view_in_object_def vma_view_size_def the_view_def IS_ALIGNED_def
        is_power_of_2_def I915_GTT_PAGE_SIZE_def I915_GTT_MIN_ALIGNMENT_def)
  have cr: "\<not> create_rejects fence_env (obj_base_size (winner_inserted fresh_obj)) ggtt0 None"
    by (simp add: create_rejects_def w obj_with_vma_def fence_env_def ggtt0_def
        vma_view_size_def the_view_def)
  have l1: "i915_vma_lookup (vma_tree fresh_obj) ggtt0 None = None"
    by (rule example_registries(3))
  have l2: "i915_vma_lookup (vma_tree (winner_inserted fresh_obj)) ggtt0 None = Some first_vma"
    unfolding w by (rule example_registries(4))
  note t = singleton_vma [where others = winner_inserted and st = fresh_obj
      and env = fence_env and vm = ggtt0 and view = None, OF example_registries(1) ok]
  from t ia l1 al ca cr l2
  have run: "i915_vma_instance fence_env winner_inserted fresh_obj ggtt0 None
       = Some (Inr first_vma, discarded (winner_inserted fresh_obj))"
    by blast
  from t run have r1: "registry_ok (discarded (winner_inserted fresh_obj))"
    by blast
  from t run
  have r2: "i915_vma_lookup (vma_tree (discarded (winner_inserted fresh_obj))) ggtt0 None
      = Some first_vma"
    by blast
  note u = singleton_vma [where others = nobody and st = obj_with_vma
      and env = fence_env and vm = ggtt0 and view = None, OF example_registries(2) ok']
  from u ia example_registries(4)
  have again: "i915_vma_instance fence_env nobody obj_with_vma ggtt0 None
       = Some (Inr first_vma, obj_with_vma)"
    by blast
  from example_registries(1) ok ia al ca cr l1 l2 run r1 r2 again show ?thesis
    by blast
qed

text \<open>
  C3 as stated fails: a call whose lookup missed and whose allocation fails returns -ENOMEM,
  although by then another thread has inserted the vma for the key, which stays in the
  tree.
\<close>

theorem instance_enomem_in_race:
  "i915_vma_lookup (vma_tree fresh_obj) ggtt0 None = None
   \<and> i915_vma_lookup (vma_tree (winner_inserted fresh_obj)) ggtt0 None = Some first_vma
   \<and> i915_vma_instance (fence_env\<lparr>alloc_ok := False\<rparr>) winner_inserted fresh_obj ggtt0 None
       = Some (Inl (- ENOMEM), obj_with_vma)
   \<and> i915_vma_lookup (vma_tree obj_with_vma) ggtt0 None = Some first_vma"
  by (simp add: i915_vma_instance_def vma_create_def gem_bug_on_def fresh_obj_def ggtt0_def
      fence_env_def winner_inserted_def obj_with_vma_def first_vma_def i915_vma_compare_def
      vma_key_def request_key_def the_view_def Let_def)

subsection \<open>A view larger than the address space\<close>

text \<open>
  C10, as amended: a call of i915_vma_instance passes its entry assertions, its lookup
  misses, and the size computed for the view exceeds the total size of the address space.
  When the allocation of the vma fails the call fails with -ENOMEM. When the allocation
  succeeds and a partial view lies inside the object, as vma_create asserts, the call fails
  with -E2BIG and frees the new vma. Whatever the call returns, it is one of these two
  errors, and neither tree nor list has changed.
\<close>

theorem oversized_view_rejected:
  assumes "i915_vma_lookup (vma_tree st) vm view = None"
    and "instance_asserts vm view"
    and "vma_view_size (obj_base_size (others st)) view > as_total vm"
  shows "(\<not> alloc_ok env \<longrightarrow>
            i915_vma_instance env others st vm view = Some (Inl (- ENOMEM), others st))
       \<and> (alloc_ok env \<and> partial_view_in_object (obj_base_size (others st)) view \<longrightarrow>
            i915_vma_instance env others st vm view
              = Some (Inl (- E2BIG), discarded (others st)))
       \<and> (\<forall>r st'. i915_vma_instance env others st vm view = Some (r, st') \<longrightarrow>
            (r = Inl (- ENOMEM) \<or> r = Inl (- E2BIG))
            \<and> vma_tree st' = vma_tree (others st) \<and> vma_list st' = vma_list (others st))"
  using assms
  by (auto simp: i915_vma_instance_def instance_asserts_def vma_create_def gem_bug_on_def
      i915_vma_free_def discarded_def Let_def split: if_splits)

theorem oversized_view_rejected_witness:
  "i915_vma_lookup (vma_tree fresh_obj) small_vm None = None
   \<and> instance_asserts small_vm None \<and> alloc_ok fence_env
   \<and> partial_view_in_object (obj_base_size (nobody fresh_obj)) None
   \<and> vma_view_size (obj_base_size (nobody fresh_obj)) None > as_total small_vm
   \<and> i915_vma_instance fence_env nobody fresh_obj small_vm None
       = Some (Inl (- E2BIG), fresh_obj\<lparr>allocated := 1, freed := [0]\<rparr>)
   \<and> vma_tree (fresh_obj\<lparr>allocated := 1, freed := [0]\<rparr>) = Leaf
   \<and> vma_list (fresh_obj\<lparr>allocated := 1, freed := [0]\<rparr>) = []"
proof -
  have a: "i915_vma_lookup (vma_tree fresh_obj) small_vm None = None"
    by (simp add: fresh_obj_def)
  have c: "instance_asserts small_vm None"
    by (simp add: instance_asserts_def small_vm_def)
  have d: "alloc_ok fence_env"
    by (simp add: fence_env_def)
  have e: "partial_view_in_object (obj_base_size (nobody fresh_obj)) None"
    by (simp add: partial_view_in_object_def the_view_def)
  have f: "vma_view_size (obj_base_size (nobody fresh_obj)) None > as_total small_vm"
    by (simp add: vma_view_size_def the_view_def nobody_def fresh_obj_def small_vm_def)
  from oversized_view_rejected [where others = nobody and st = fresh_obj and env = fence_env,
      OF a c f] a c d e f
  show ?thesis
    by (simp add: nobody_def fresh_obj_def discarded_def)
qed

text \<open>
  C10 as stated fails: when the allocation of the vma fails, the call returns -ENOMEM
  before any size is computed, also for a view larger than the address space.
\<close>

theorem oversized_view_alloc_fails:
  "i915_vma_lookup (vma_tree fresh_obj) small_vm None = None
   \<and> vma_view_size (obj_base_size (nobody fresh_obj)) None > as_total small_vm
   \<and> i915_vma_instance (fence_env\<lparr>alloc_ok := False\<rparr>) nobody fresh_obj small_vm None
       = Some (Inl (- ENOMEM), fresh_obj)
   \<and> - ENOMEM \<noteq> - E2BIG"
  by (simp add: i915_vma_instance_def vma_create_def gem_bug_on_def fresh_obj_def small_vm_def
      fence_env_def nobody_def vma_view_size_def the_view_def ENOMEM_def E2BIG_def)

section \<open>Placing a vma in its address space\<close>

definition PIN_MAPPABLE :: u64 where "PIN_MAPPABLE = 0x8"
definition PIN_ZONE_4G :: u64 where "PIN_ZONE_4G = 0x10"
definition PIN_OFFSET_BIAS :: u64 where "PIN_OFFSET_BIAS = 0x40"
definition PIN_OFFSET_FIXED :: u64 where "PIN_OFFSET_FIXED = 0x80"
definition PIN_VALIDATE :: u64 where "PIN_VALIDATE = 0x100"
definition PIN_GLOBAL :: u64 where "PIN_GLOBAL = 0x400"
definition PIN_USER :: u64 where "PIN_USER = 0x800"
definition PIN_OFFSET_MASK :: u64 where "PIN_OFFSET_MASK = NOT 0xfff"
definition I915_GTT_PAGE_SIZE_64K :: u64 where "I915_GTT_PAGE_SIZE_64K = 0x10000"
definition I915_GTT_PAGE_SIZE_2M :: u64 where "I915_GTT_PAGE_SIZE_2M = 0x200000"

function rounddown_pow_of_two_nat :: "nat \<Rightarrow> nat" where
  "rounddown_pow_of_two_nat n = (if n \<le> 1 then n else 2 * rounddown_pow_of_two_nat (n div 2))"
  by pat_completeness auto
termination
  by (relation "measure id") auto

definition rounddown_pow_of_two :: "u64 \<Rightarrow> u64" where
  "rounddown_pow_of_two n = of_nat (rounddown_pow_of_two_nat (unat n))"

definition round_up :: "u64 \<Rightarrow> u64 \<Rightarrow> u64" where
  "round_up x y = ((x - 1) OR (y - 1)) + 1"

definition upper_32_bits :: "u64 \<Rightarrow> u64" where
  "upper_32_bits x = drop_bit 32 x"

text \<open>
  Modelled from the spec: the neighbours of a node in the drm_mm node list (declared in
  drm_mm.h, not among the sources) are the allocated nodes just below and just above it in
  address order, or the list head, which is not an allocated node (\<open>None\<close>); a hole follows
  a node when the next node starts above its end. i915_node_color_differs holds of an
  allocated node of another colour.
\<close>

definition list_prev_entry :: "drm_mm_node list \<Rightarrow> drm_mm_node \<Rightarrow> drm_mm_node option" where
  "list_prev_entry mm n =
     (case takeWhile (\<lambda>m. node_start m < node_start n) mm of
        [] \<Rightarrow> None
      | m # ms \<Rightarrow> Some (last (m # ms)))"

definition list_next_entry :: "drm_mm_node list \<Rightarrow> drm_mm_node \<Rightarrow> drm_mm_node option" where
  "list_next_entry mm n =
     (case dropWhile (\<lambda>m. node_start m < node_start n) mm of
        [] \<Rightarrow> None
      | m # ms \<Rightarrow> Some m)"

definition hole_between :: "drm_mm_node \<Rightarrow> drm_mm_node \<Rightarrow> bool" where
  "hole_between a b \<longleftrightarrow> unat (node_start a) + unat (node_size a) < unat (node_start b)"

definition i915_node_color_differs :: "drm_mm_node option \<Rightarrow> nat \<Rightarrow> bool" where
  "i915_node_color_differs other c =
     (case other of None \<Rightarrow> False | Some m \<Rightarrow> node_color m \<noteq> c)"

definition i915_gem_valid_gtt_space :: "vma_state \<Rightarrow> nat \<Rightarrow> bool option" where
  "i915_gem_valid_gtt_space s c =
     (if \<not> vm_has_cache_coloring s then Some True
      else case node s of
             None \<Rightarrow> None
           | Some n \<Rightarrow>
               (let prev = list_prev_entry (vm_mm s) n
                in if i915_node_color_differs prev c
                      \<and> \<not> (case prev of None \<Rightarrow> True | Some p \<Rightarrow> hole_between p n)
                   then Some False
                   else (let nxt = list_next_entry (vm_mm s) n
                         in if i915_node_color_differs nxt c
                               \<and> \<not> (case nxt of None \<Rightarrow> True | Some q \<Rightarrow> hole_between n q)
                            then Some False
                            else Some True)))"

text \<open>
  The results of the calls made while pinning: pinning the object's pages and building the
  table of a special view, and the page sizes of the object's pages; whether the object has
  a moving fence; locking the objects of the address space; allocating the bind worker;
  allocating and mapping its page-table stash; allocating the vma resource (its error, or 0
  and the new resource); taking \<open>vm->mutex\<close>; i915_active_acquire; for the allocator, the
  error it may give up with, the offset its search proposes and the nodes it evicts to make
  room; waiting for unbinds that touch the range; waiting for the moving fence.
\<close>

record pin_env =
  pin_pages_ret :: int
  view_pages_ret :: int
  obj_page_sizes_sg :: u64
  has_moving :: bool
  lock_objects_ret :: int
  work_ok :: bool
  alloc_pt_stash_ret :: int
  map_pt_stash_ret :: int
  vma_res_err :: int
  vma_res_new :: nat
  vm_mutex_ret :: int
  active_acquire_ret :: int
  gtt_ret :: int
  gtt_start :: u64
  gtt_evict :: "drm_mm_node \<Rightarrow> bool"
  bind_dep_ret :: int
  wait_moving_ret :: int

text \<open>
  Modelled from the spec: the allocator behind i915_gem_gtt_reserve and i915_gem_gtt_insert
  (i915_gem_gtt.c, i915_gem_evict.c and drm_mm.c) is not among the sources. The spec gives
  its contract: it reserves at a fixed offset or searches a range for an offset with the
  given size and alignment, fails when there is no space or the colours conflict, and keeps
  the invariant that no two allocated nodes overlap and that allocated nodes of different
  colour are never contiguous. The model lets the environment choose what is left open
  (whether the allocator gives up, which nodes it evicts, which offset its search picks) and
  places the node only where the contract allows it: inside the requested range, aligned,
  overlapping no remaining node and, in an address space with cache colouring, touching no
  remaining node of another colour. Anything else is -ENOSPC.
\<close>

definition node_end :: "drm_mm_node \<Rightarrow> nat" where
  "node_end m = unat (node_start m) + unat (node_size m)"

definition node_fits :: "bool \<Rightarrow> drm_mm_node list \<Rightarrow> drm_mm_node \<Rightarrow> bool" where
  "node_fits coloring mm n =
     list_all (\<lambda>m. (node_end m \<le> unat (node_start n) \<or> node_end n \<le> unat (node_start m))
                  \<and> (\<not> coloring \<or> node_color m = node_color n
                      \<or> node_end m < unat (node_start n)
                      \<or> node_end n < unat (node_start m))) mm"

definition drm_mm_place :: "pin_env \<Rightarrow> vma_state \<Rightarrow> drm_mm_node \<Rightarrow> int \<times> vma_state" where
  "drm_mm_place env s n =
     (let mm = filter (\<lambda>m. \<not> gtt_evict env m) (vm_mm s)
      in if gtt_ret env \<noteq> 0 then (gtt_ret env, s\<lparr>vm_mm := mm\<rparr>)
         else if \<not> node_fits (vm_has_cache_coloring s) mm n then (- ENOSPC, s\<lparr>vm_mm := mm\<rparr>)
         else (0, s\<lparr>node := Some n, vm_mm := mm\<rparr>))"

definition i915_gem_gtt_reserve ::
  "pin_env \<Rightarrow> vma_state \<Rightarrow> u64 \<Rightarrow> u64 \<Rightarrow> nat \<Rightarrow> int \<times> vma_state" where
  "i915_gem_gtt_reserve env s sz offset c =
     drm_mm_place env s \<lparr>node_start = offset, node_size = sz, node_color = c\<rparr>"

definition i915_gem_gtt_insert ::
  "pin_env \<Rightarrow> vma_state \<Rightarrow> u64 \<Rightarrow> u64 \<Rightarrow> nat \<Rightarrow> u64 \<Rightarrow> u64 \<Rightarrow> int \<times> vma_state" where
  "i915_gem_gtt_insert env s sz alignment c first end' =
     (let n = \<lparr>node_start = gtt_start env, node_size = sz, node_color = c\<rparr>
      in if unat (gtt_start env) < unat first \<or> node_end n > unat end'
            \<or> (alignment \<noteq> 0 \<and> \<not> IS_ALIGNED (gtt_start env) alignment)
         then (- ENOSPC, s)
         else drm_mm_place env s n)"

text \<open>
  \<open>GEM_BUG_ON\<close> is compiled in with \<open>CONFIG_DRM_I915_DEBUG_GEM\<close> only. The rest of this
  theory takes the assertions to be compiled in; i915_vma_insert is modelled for both
  builds, \<open>dbg\<close> telling which, because its last assertion is the colouring test.
\<close>

definition bug_on :: "bool \<Rightarrow> bool \<Rightarrow> 'a option \<Rightarrow> 'a option" where
  "bug_on dbg c k = (if dbg \<and> c then None else k)"

text \<open>
  The two branches of i915_vma_insert, at a fixed offset and by search, and its end, from
  \<open>GEM_BUG_ON(!drm_mm_node_allocated(&vma->node))\<close> on.
\<close>

definition insert_fixed ::
  "pin_env \<Rightarrow> vma_state \<Rightarrow> u64 \<Rightarrow> u64 \<Rightarrow> u64 \<Rightarrow> nat \<Rightarrow> u64 \<Rightarrow> (int \<times> vma_state) option" where
  "insert_fixed env s sz alignment end' c flags0 =
     (let offset = flags0 AND PIN_OFFSET_MASK
      in if \<not> IS_ALIGNED offset alignment \<or> range_overflows offset sz end'
         then Some (- EINVAL, s)
         else Some (i915_gem_gtt_reserve env s sz offset c))"

definition insert_search ::
  "bool \<Rightarrow> pin_env \<Rightarrow> vma_state \<Rightarrow> u64 \<Rightarrow> u64 \<Rightarrow> u64 \<Rightarrow> u64 \<Rightarrow> nat
     \<Rightarrow> (int \<times> vma_state) option" where
  "insert_search dbg env s sz alignment first end' c =
     (let huge = (upper_32_bits (end' - 1) \<noteq> 0 \<and> page_sizes_sg s > I915_GTT_PAGE_SIZE);
          page_alignment = rounddown_pow_of_two (page_sizes_sg s OR I915_GTT_PAGE_SIZE_2M);
          alignment' = (if huge then max alignment page_alignment else alignment);
          sz' = (if huge \<and> page_sizes_sg s AND I915_GTT_PAGE_SIZE_64K \<noteq> 0
                 then round_up sz I915_GTT_PAGE_SIZE_2M else sz)
      in bug_on dbg (huge \<and> i915_vma_is_ggtt s)
           (case i915_gem_gtt_insert env s sz' alignment' c first end' of
              (ret, s1) \<Rightarrow>
                if ret \<noteq> 0 then Some (ret, s1)
                else bug_on dbg (case node s1 of
                                   None \<Rightarrow> False
                                 | Some n \<Rightarrow> node_start n < first)
                       (bug_on dbg (case node s1 of
                                      None \<Rightarrow> False
                                    | Some n \<Rightarrow> node_start n + node_size n > end')
                          (Some (0, s1)))))"

definition insert_finish ::
  "bool \<Rightarrow> nat \<Rightarrow> (int \<times> vma_state) option \<Rightarrow> (int \<times> vma_state) option" where
  "insert_finish dbg c r =
     (case r of
        None \<Rightarrow> None
      | Some (ret, s) \<Rightarrow>
          if ret \<noteq> 0 then Some (ret, s)
          else bug_on dbg (\<not> drm_mm_node_allocated s)
                 (bug_on dbg (i915_gem_valid_gtt_space s c \<noteq> Some True)
                    (Some (0, s\<lparr>vm_link := True\<rparr>))))"

definition i915_vma_insert ::
  "bool \<Rightarrow> pin_env \<Rightarrow> vma_state \<Rightarrow> u64 \<Rightarrow> u64 \<Rightarrow> u64 \<Rightarrow> (int \<times> vma_state) option" where
  "i915_vma_insert dbg env s size0 alignment0 flags0 =
     bug_on dbg (i915_vma_is_bound s (I915_VMA_GLOBAL_BIND OR I915_VMA_LOCAL_BIND))
    (bug_on dbg (drm_mm_node_allocated s)
    (let mappable = (flags0 AND PIN_MAPPABLE \<noteq> 0);
         sz = (if mappable then max (max size0 (vma_size s)) (fence_size s)
               else max size0 (vma_size s));
         alignment = (if mappable
                      then max (max alignment0 (display_alignment s)) (fence_alignment s)
                      else max alignment0 (display_alignment s));
         first = (if flags0 AND PIN_OFFSET_BIAS \<noteq> 0 then flags0 AND PIN_OFFSET_MASK else 0);
         lim1 = (if mappable then min (vm_total s) (vm_mappable_end s) else vm_total s);
         end' = (if flags0 AND PIN_ZONE_4G \<noteq> 0
                then min lim1 (push_bit 32 1 - I915_GTT_PAGE_SIZE) else lim1);
         c = (if vm_has_cache_coloring s then obj_cache_level s else 0)
     in bug_on dbg (\<not> IS_ALIGNED sz I915_GTT_PAGE_SIZE)
       (bug_on dbg (\<not> IS_ALIGNED alignment I915_GTT_MIN_ALIGNMENT)
       (bug_on dbg (\<not> is_power_of_2 alignment)
       (bug_on dbg (\<not> IS_ALIGNED first I915_GTT_PAGE_SIZE)
       (bug_on dbg (\<not> IS_ALIGNED end' I915_GTT_PAGE_SIZE)
         (if sz > end' then Some (- ENOSPC, s)
          else insert_finish dbg c
                 (if flags0 AND PIN_OFFSET_FIXED \<noteq> 0
                  then insert_fixed env s sz alignment end' c flags0
                  else insert_search dbg env s sz alignment first end' c))))))))"

subsection \<open>The colouring of a placed node\<close>

lemma bug_on_SomeD: "bug_on dbg c k = Some x \<Longrightarrow> k = Some x"
  by (simp add: bug_on_def split: if_splits)

text \<open>
  The property of Scenario A: the node of the vma is allocated, and each of its two
  neighbours in address order has the node's colour or is separated from it by a hole.
\<close>

definition coloring_respected :: "vma_state \<Rightarrow> bool" where
  "coloring_respected s =
     (case node s of
        None \<Rightarrow> False
      | Some n \<Rightarrow>
          (case list_prev_entry (vm_mm s) n of
             None \<Rightarrow> True
           | Some p \<Rightarrow> node_color p = node_color n \<or> hole_between p n)
          \<and> (case list_next_entry (vm_mm s) n of
                None \<Rightarrow> True
              | Some q \<Rightarrow> node_color q = node_color n \<or> hole_between n q))"

definition insert_color :: "vma_state \<Rightarrow> nat" where
  "insert_color s = (if vm_has_cache_coloring s then obj_cache_level s else 0)"

lemma prev_entry_in_list:
  assumes "list_prev_entry mm n = Some p"
  shows "p \<in> set mm \<and> node_start p < node_start n"
proof -
  let ?t = "takeWhile (\<lambda>m. node_start m < node_start n) mm"
  from assms have ne: "?t \<noteq> []" and p: "p = last ?t"
    by (auto simp add: list_prev_entry_def split: list.splits)
  from ne p have "p \<in> set ?t"
    by simp
  then show ?thesis
    using set_takeWhileD by fastforce
qed

lemma next_entry_in_list:
  assumes "list_next_entry mm n = Some q"
  shows "q \<in> set mm \<and> \<not> node_start q < node_start n"
proof -
  let ?d = "dropWhile (\<lambda>m. node_start m < node_start n) mm"
  from assms obtain ms where d: "?d = q # ms"
    by (auto simp add: list_next_entry_def split: list.splits)
  then have "q \<in> set ?d"
    by simp
  then have "q \<in> set mm"
    using set_dropWhileD by fastforce
  moreover from d have "\<not> node_start q < node_start n"
    using hd_dropWhile [of "\<lambda>m. node_start m < node_start n" mm] by simp
  ultimately show ?thesis
    by simp
qed

lemma fits_prev:
  assumes "node_fits True mm n" "list_prev_entry mm n = Some p"
  shows "node_color p = node_color n \<or> hole_between p n"
proof -
  from prev_entry_in_list [OF assms(2)]
  have p: "p \<in> set mm" "unat (node_start p) < unat (node_start n)"
    by (simp_all add: word_less_nat_alt)
  from assms(1) p(1)
  have "node_color p = node_color n \<or> node_end p < unat (node_start n)
      \<or> node_end n < unat (node_start p)"
    by (auto simp add: node_fits_def list_all_iff)
  with p(2) show ?thesis
    by (auto simp add: hole_between_def node_end_def)
qed

lemma fits_next:
  assumes "node_fits True mm n" "list_next_entry mm n = Some q"
  shows "node_color q = node_color n \<or> hole_between n q"
proof -
  from next_entry_in_list [OF assms(2)]
  have q: "q \<in> set mm" "unat (node_start n) \<le> unat (node_start q)"
    by (simp_all add: word_less_nat_alt)
  from assms(1) q(1)
  have "node_color q = node_color n \<or> node_end q < unat (node_start n)
      \<or> node_end n < unat (node_start q)"
    by (auto simp add: node_fits_def list_all_iff)
  with q(2) show ?thesis
    by (auto simp add: hole_between_def node_end_def)
qed

lemma fits_coloring_respected:
  assumes "node s = Some n" "node_fits True (vm_mm s) n"
  shows "coloring_respected s"
  using assms fits_prev [OF assms(2)] fits_next [OF assms(2)]
  by (simp add: coloring_respected_def split: option.splits)

lemma coloring_respected_valid:
  assumes "coloring_respected s" "node s = Some n" "node_color n = c"
  shows "i915_gem_valid_gtt_space s c = Some True"
  using assms
  by (auto simp add: i915_gem_valid_gtt_space_def coloring_respected_def Let_def
      i915_node_color_differs_def split: option.splits)

lemma place_effect:
  assumes "drm_mm_place env s n = (ret, s1)"
  shows "flags s1 = flags s" and "pages_count s1 = pages_count s"
    and "obj_pages_pin_count s1 = obj_pages_pin_count s" and "vm_link s1 = vm_link s"
    and "vm_has_cache_coloring s1 = vm_has_cache_coloring s"
    and "ret \<noteq> 0 \<Longrightarrow> node s1 = node s"
    and "ret = 0 \<Longrightarrow> node s1 = Some n \<and> node_fits (vm_has_cache_coloring s) (vm_mm s1) n"
  using assms
  by (auto simp add: drm_mm_place_def Let_def ENOSPC_def split: if_splits)

lemma gtt_insert_effect:
  assumes "i915_gem_gtt_insert env s sz al c first e = (ret, s1)"
  shows "flags s1 = flags s" and "pages_count s1 = pages_count s"
    and "obj_pages_pin_count s1 = obj_pages_pin_count s" and "vm_link s1 = vm_link s"
    and "vm_has_cache_coloring s1 = vm_has_cache_coloring s"
    and "ret \<noteq> 0 \<Longrightarrow> node s1 = node s"
    and "ret = 0 \<Longrightarrow> \<exists>n. node s1 = Some n \<and> node_color n = c
           \<and> node_fits (vm_has_cache_coloring s) (vm_mm s1) n"
proof -
  let ?n = "\<lparr>node_start = gtt_start env, node_size = sz, node_color = c\<rparr>"
  from assms consider "s1 = s" "ret \<noteq> 0" | "drm_mm_place env s ?n = (ret, s1)"
    by (auto simp add: i915_gem_gtt_insert_def Let_def ENOSPC_def split: if_splits)
  then have "flags s1 = flags s \<and> pages_count s1 = pages_count s
      \<and> obj_pages_pin_count s1 = obj_pages_pin_count s \<and> vm_link s1 = vm_link s
      \<and> vm_has_cache_coloring s1 = vm_has_cache_coloring s
      \<and> (ret \<noteq> 0 \<longrightarrow> node s1 = node s)
      \<and> (ret = 0 \<longrightarrow> (\<exists>n. node s1 = Some n \<and> node_color n = c
           \<and> node_fits (vm_has_cache_coloring s) (vm_mm s1) n))"
  proof cases
    case 1
    then show ?thesis
      by simp
  next
    case 2
    from place_effect [OF 2] show ?thesis
      by simp
  qed
  then show "flags s1 = flags s" and "pages_count s1 = pages_count s"
    and "obj_pages_pin_count s1 = obj_pages_pin_count s" and "vm_link s1 = vm_link s"
    and "vm_has_cache_coloring s1 = vm_has_cache_coloring s"
    and "ret \<noteq> 0 \<Longrightarrow> node s1 = node s"
    and "ret = 0 \<Longrightarrow> \<exists>n. node s1 = Some n \<and> node_color n = c
           \<and> node_fits (vm_has_cache_coloring s) (vm_mm s1) n"
    by simp_all
qed

text \<open>What the allocator step of i915_vma_insert, either branch, does to the vma.\<close>

definition placed ::
  "vma_state \<Rightarrow> nat \<Rightarrow> int \<Rightarrow> vma_state \<Rightarrow> bool" where
  "placed s c ret s1 \<longleftrightarrow>
     flags s1 = flags s \<and> pages_count s1 = pages_count s
     \<and> obj_pages_pin_count s1 = obj_pages_pin_count s \<and> vm_link s1 = vm_link s
     \<and> vm_has_cache_coloring s1 = vm_has_cache_coloring s
     \<and> (if ret = 0
        then (case node s1 of
                None \<Rightarrow> False
              | Some n \<Rightarrow> node_color n = c
                           \<and> node_fits (vm_has_cache_coloring s) (vm_mm s1) n)
        else node s1 = node s)"

lemma insert_fixed_placed:
  assumes "insert_fixed env s sz al e c fl = Some (ret, s1)"
  shows "placed s c ret s1"
proof -
  let ?n = "\<lparr>node_start = fl AND PIN_OFFSET_MASK, node_size = sz, node_color = c\<rparr>"
  from assms consider "s1 = s" "ret \<noteq> 0" | "drm_mm_place env s ?n = (ret, s1)"
    by (auto simp add: insert_fixed_def i915_gem_gtt_reserve_def Let_def EINVAL_def
        split: if_splits)
  then show ?thesis
  proof cases
    case 1
    then show ?thesis
      by (simp add: placed_def)
  next
    case 2
    from place_effect [OF 2] show ?thesis
      by (auto simp add: placed_def)
  qed
qed

lemma insert_search_placed:
  assumes "insert_search dbg env s sz al first e c = Some (ret, s1)"
  shows "placed s c ret s1"
proof -
  from assms obtain sz' al' where "i915_gem_gtt_insert env s sz' al' c first e = (ret, s1)"
    by (auto simp add: insert_search_def Let_def dest!: bug_on_SomeD
        split: if_splits prod.splits)
  from gtt_insert_effect [OF this] show ?thesis
    by (auto simp add: placed_def)
qed

lemma insert_finish_cases:
  assumes "insert_finish dbg c r = Some (ret, s')"
  shows "\<exists>s1. r = Some (ret, s1)
           \<and> (if ret = 0 then s' = s1\<lparr>vm_link := True\<rparr> else s' = s1)"
  using assms
  by (auto simp add: insert_finish_def dest!: bug_on_SomeD split: option.splits if_splits)

lemma insert_cases:
  assumes "i915_vma_insert dbg env s sz al fl = Some (ret, s')"
  shows "(s' = s \<and> ret \<noteq> 0)
       \<or> (\<exists>s1. placed s (insert_color s) ret s1
             \<and> (if ret = 0 then s' = s1\<lparr>vm_link := True\<rparr> else s' = s1))"
proof -
  have nz: "- ENOSPC \<noteq> (0::int)"
    by (simp add: ENOSPC_def)
  from assms consider "s' = s" "ret \<noteq> 0"
    | r where "insert_finish dbg (insert_color s) r = Some (ret, s')"
        "(\<exists>a b d e. r = insert_fixed env s a b d (insert_color s) e)
         \<or> (\<exists>a b d e. r = insert_search dbg env s a b d e (insert_color s))"
    unfolding i915_vma_insert_def Let_def insert_color_def [symmetric]
    using nz by (auto dest!: bug_on_SomeD split: if_splits) blast+
  then show ?thesis
  proof cases
    case 1
    then show ?thesis
      by simp
  next
    case 2
    from insert_finish_cases [OF 2(1)] obtain s1 where s1: "r = Some (ret, s1)"
      "if ret = 0 then s' = s1\<lparr>vm_link := True\<rparr> else s' = s1"
      by blast
    from 2(2) s1(1) have "placed s (insert_color s) ret s1"
      using insert_fixed_placed insert_search_placed by metis
    with s1(2) show ?thesis
      by blast
  qed
qed

lemma coloring_respected_link:
  "coloring_respected (s\<lparr>vm_link := b\<rparr>) = coloring_respected s"
  by (simp add: coloring_respected_def cong: option.case_cong)

text \<open>
  C7: in an address space with cache colouring, after a successful i915_vma_insert, in a
  build with or without its assertions, the node of the vma is allocated with the colour of
  the object's cache level, and each of its neighbours in address order, the previous and
  the next, either has that colour or is separated from the node by a hole:
  i915_gem_valid_gtt_space holds of the result.
\<close>

theorem insert_respects_coloring:
  assumes "i915_vma_insert dbg env s sz al fl = Some (0, s')"
    and "vm_has_cache_coloring s"
  shows "i915_gem_valid_gtt_space s' (obj_cache_level s) = Some True
       \<and> coloring_respected s'
       \<and> map_option node_color (node s') = Some (obj_cache_level s)"
proof -
  have c: "insert_color s = obj_cache_level s"
    using assms(2) by (simp add: insert_color_def)
  from insert_cases [OF assms(1)] obtain s1
    where p: "placed s (obj_cache_level s) 0 s1" and s': "s' = s1\<lparr>vm_link := True\<rparr>"
    unfolding c by auto
  from p assms(2) obtain n where n: "node s1 = Some n" "node_color n = obj_cache_level s"
    "node_fits True (vm_mm s1) n"
    by (auto simp add: placed_def split: option.splits)
  have r: "coloring_respected s'"
    unfolding s' coloring_respected_link
    by (rule fits_coloring_respected [OF n(1,3)])
  have "node s' = Some n"
    by (simp add: s' n(1))
  with r n(2) show ?thesis
    using coloring_respected_valid by simp
qed

text \<open>
  Scenario A: a 4 GiB address space with cache colouring holds a node of 4096 bytes at
  offset 0 with colour 1; a vma of 4096 bytes whose object has cache level 2 is inserted.
  At offset 8192, with a hole of 4096 bytes between the two nodes, the insertion succeeds;
  at offset 4096, next to the other node, the allocator refuses and the insertion fails
  with -ENOSPC.
\<close>

definition colored_vma :: vma_state where
  "colored_vma =
     pinned_vma\<lparr>flags := 0, node := None, resource := None, vm_link := False,
       pages_count := 1, vm_is_ggtt := False, vm_has_cache_coloring := True,
       vm_mm := [\<lparr>node_start = 0, node_size = 4096, node_color = 1\<rparr>],
       obj_cache_level := 2, obj_was_bound := False\<rparr>"

definition keep_all :: "drm_mm_node \<Rightarrow> bool" where
  "keep_all m = False"

definition hole_env :: pin_env where
  "hole_env =
     \<lparr>pin_pages_ret = 0, view_pages_ret = 0, obj_page_sizes_sg = 4096, has_moving = False,
      lock_objects_ret = 0, work_ok = True, alloc_pt_stash_ret = 0, map_pt_stash_ret = 0,
      vma_res_err = 0, vma_res_new = 7, vm_mutex_ret = 0, active_acquire_ret = 0,
      gtt_ret = 0, gtt_start = 8192, gtt_evict = keep_all, bind_dep_ret = 0,
      wait_moving_ret = 0\<rparr>"

definition placed_vma :: vma_state where
  "placed_vma =
     colored_vma\<lparr>node := Some \<lparr>node_start = 8192, node_size = 4096, node_color = 2\<rparr>,
       vm_link := True\<rparr>"

lemmas scenario_a_defs =
  i915_vma_insert_def insert_finish_def insert_search_def i915_gem_gtt_insert_def
  drm_mm_place_def node_fits_def node_end_def Let_def bug_on_def keep_all_def
  hole_env_def colored_vma_def pinned_vma_def PIN_USER_def
  i915_vma_is_bound_def drm_mm_node_allocated_def i915_vma_is_ggtt_def
  I915_VMA_GLOBAL_BIND_def I915_VMA_LOCAL_BIND_def I915_VMA_GGTT_def
  PIN_MAPPABLE_def PIN_OFFSET_BIAS_def PIN_OFFSET_FIXED_def PIN_ZONE_4G_def
  IS_ALIGNED_def is_power_of_2_def I915_GTT_PAGE_SIZE_def I915_GTT_MIN_ALIGNMENT_def
  upper_32_bits_def i915_gem_valid_gtt_space_def list_prev_entry_def list_next_entry_def
  i915_node_color_differs_def hole_between_def

lemma scenario_a_insert:
  "i915_vma_insert dbg hole_env colored_vma 4096 4096 PIN_USER = Some (0, placed_vma)"
  by (simp add: scenario_a_defs placed_vma_def)

lemma scenario_a_adjacent:
  "i915_vma_insert dbg (hole_env\<lparr>gtt_start := 4096\<rparr>) colored_vma 4096 4096 PIN_USER
     = Some (- ENOSPC, colored_vma)"
  by (simp add: scenario_a_defs ENOSPC_def)

theorem insert_respects_coloring_witness:
  "i915_vma_insert False hole_env colored_vma 4096 4096 PIN_USER = Some (0, placed_vma)
   \<and> vm_has_cache_coloring colored_vma
   \<and> i915_gem_valid_gtt_space placed_vma (obj_cache_level colored_vma) = Some True
   \<and> coloring_respected placed_vma
   \<and> map_option node_color (node placed_vma) = Some 2
   \<and> i915_vma_insert False (hole_env\<lparr>gtt_start := 4096\<rparr>) colored_vma 4096 4096 PIN_USER
       = Some (- ENOSPC, colored_vma)"
proof -
  have col: "vm_has_cache_coloring colored_vma"
    by (simp add: colored_vma_def)
  have lvl: "obj_cache_level colored_vma = 2"
    by (simp add: colored_vma_def)
  from insert_respects_coloring [OF scenario_a_insert [of False] col]
    scenario_a_insert [of False] scenario_a_adjacent [of False] col lvl
  show ?thesis
    by simp
qed

section \<open>Pinning a vma\<close>

definition try_qad_pin :: "vma_state \<Rightarrow> u32 \<Rightarrow> (bool \<times> vma_state) option" where
  "try_qad_pin s flags0 =
     (let bound = flags s
      in if flags0 AND ucast PIN_VALIDATE \<noteq> 0
         then Some ((flags0 AND I915_VMA_BIND_MASK) AND bound = flags0 AND I915_VMA_BIND_MASK, s)
         else if (flags0 AND I915_VMA_BIND_MASK) AND NOT bound \<noteq> 0 then Some (False, s)
         else if bound AND (I915_VMA_OVERFLOW OR I915_VMA_ERROR) \<noteq> 0 then Some (False, s)
         else gem_bug_on ((bound + 1) AND I915_VMA_PIN_MASK = 0)
                (Some (True, s\<lparr>flags := bound + 1\<rparr>)))"

definition uu_i915_vma_pin :: "vma_state \<Rightarrow> vma_state option" where
  "uu_i915_vma_pin s =
     (let s1 = s\<lparr>flags := flags s + 1\<rparr>
      in gem_bug_on (\<not> i915_vma_is_pinned s1) (Some s1))"

text \<open>
  __i915_vma_get_pages and i915_vma_get_pages. The table of a rotated, remapped or partial
  view is built by functions outside this file; \<open>view_pages_ret\<close> is the error of that
  construction. \<open>obj_page_sizes_sg\<close> is \<open>vma->obj->mm.page_sizes.sg\<close>.
\<close>

definition uu_i915_vma_get_pages :: "pin_env \<Rightarrow> vma_state \<Rightarrow> (int \<times> vma_state) option" where
  "uu_i915_vma_get_pages env s =
     gem_bug_on (obj_pages_pin_count s = 0)
       (if normal_view s then Some (0, s\<lparr>pages := Some ObjPages\<rparr>)
        else if view_pages_ret env \<noteq> 0 then Some (view_pages_ret env, s)
        else Some (0, s\<lparr>pages := Some ViewPages\<rparr>))"

definition i915_vma_get_pages :: "pin_env \<Rightarrow> vma_state \<Rightarrow> (int \<times> vma_state) option" where
  "i915_vma_get_pages env s =
     (if pages_count s \<noteq> 0 then Some (0, s\<lparr>pages_count := pages_count s + 1\<rparr>)
      else if pin_pages_ret env \<noteq> 0 then Some (pin_pages_ret env, s)
      else case uu_i915_vma_get_pages env
                  (s\<lparr>obj_pages_pin_count := obj_pages_pin_count s + 1\<rparr>) of
             None \<Rightarrow> None
           | Some (err, s1) \<Rightarrow>
               if err \<noteq> 0
               then Some (err, s1\<lparr>obj_pages_pin_count := obj_pages_pin_count s1 - 1\<rparr>)
               else Some (0, s1\<lparr>page_sizes_sg := obj_page_sizes_sg env,
                                pages_count := pages_count s1 + 1\<rparr>))"

text \<open>
  __i915_vma_set_map_and_fenceable reads the node of the vma; its caller has just inserted
  it, and without a node the model stops.
\<close>

definition uu_i915_vma_set_map_and_fenceable :: "vma_state \<Rightarrow> vma_state option" where
  "uu_i915_vma_set_map_and_fenceable s =
     gem_bug_on (\<not> i915_vma_is_ggtt s)
    (gem_bug_on (fence_size s = 0)
    (case node s of
       None \<Rightarrow> None
     | Some n \<Rightarrow>
         (let fenceable = (node_size n \<ge> fence_size s
                           \<and> IS_ALIGNED (node_start n) (fence_alignment s));
              mappable = (node_start n + fence_size s \<le> vm_mappable_end s)
          in if mappable \<and> fenceable
             then Some (s\<lparr>flags := flags s OR I915_VMA_CAN_FENCE\<rparr>)
             else Some (s\<lparr>flags := flags s AND NOT I915_VMA_CAN_FENCE\<rparr>))))"

definition i915_vma_misplaced :: "vma_state \<Rightarrow> u64 \<Rightarrow> u64 \<Rightarrow> u64 \<Rightarrow> bool option" where
  "i915_vma_misplaced s size0 alignment flags0 =
     (case node s of
        None \<Rightarrow> Some False
      | Some n \<Rightarrow>
          if flags s AND I915_VMA_ERROR \<noteq> 0 then Some True
          else if node_size n < size0 then Some True
          else gem_bug_on (alignment \<noteq> 0 \<and> \<not> is_power_of_2 alignment)
            (if alignment \<noteq> 0 \<and> \<not> IS_ALIGNED (node_start n) alignment then Some True
             else if flags0 AND PIN_MAPPABLE \<noteq> 0 \<and> \<not> i915_vma_is_map_and_fenceable s
                  then Some True
             else if flags0 AND PIN_OFFSET_BIAS \<noteq> 0
                     \<and> node_start n < flags0 AND PIN_OFFSET_MASK
                  then Some True
             else if flags0 AND PIN_OFFSET_FIXED \<noteq> 0
                     \<and> node_start n \<noteq> flags0 AND PIN_OFFSET_MASK
                  then Some True
             else Some False))"

text \<open>
  i915_vma_bind, called by i915_vma_pin_ww with a freshly allocated resource; \<open>work\<close> says
  whether a bind worker was passed. The range check and the check of the flags are
  GEM_DEBUG_WARN_ON tests, compiled in together with GEM_BUG_ON. With a worker and an
  asynchronous address space the page-table update is left to the worker; otherwise the
  moving fence of the object is waited for and the update is made at once.
\<close>

definition i915_vma_bind ::
  "pin_env \<Rightarrow> vma_state \<Rightarrow> u32 \<Rightarrow> bool \<Rightarrow> (int \<times> vma_state) option" where
  "i915_vma_bind env s flags0 work =
     (case node s of
        None \<Rightarrow> None
      | Some n \<Rightarrow>
          gem_bug_on (vma_size s > node_size n)
            (if range_overflows (node_start n) (node_size n) (vm_total s)
             then Some (- ENODEV, s)
             else if flags0 = 0 then Some (- EINVAL, s)
             else
               (let vma_flags = flags s AND (I915_VMA_GLOBAL_BIND OR I915_VMA_LOCAL_BIND);
                    bind_flags = (flags0 AND (I915_VMA_GLOBAL_BIND OR I915_VMA_LOCAL_BIND))
                                 AND NOT vma_flags
                in if bind_flags = 0 then Some (0, s)
                   else gem_bug_on (pages_count s = 0)
                     (if bind_dep_ret env \<noteq> 0 then Some (bind_dep_ret env, s)
                      else
                        (let s1 = (if resource s \<noteq> None then s
                                   else s\<lparr>resource := Some (vma_res_new env)\<rparr>)
                         in if work \<and> bind_flags AND vm_bind_async_flags s \<noteq> 0
                            then Some (0, s1\<lparr>obj_was_bound := True,
                                            flags := flags s1 OR bind_flags\<rparr>)
                            else if wait_moving_ret env \<noteq> 0
                            then Some (wait_moving_ret env, s1\<lparr>resource := None\<rparr>)
                            else Some (0, s1\<lparr>obj_was_bound := True,
                                            flags := flags s1 OR bind_flags\<rparr>))))))"

text \<open>
  The exits of i915_vma_pin_ww. From \<open>err_active\<close> down to \<open>err_rpm\<close> the active reference,
  the mutex, an unused resource, the worker, the wakeref and the moving fence are released,
  none of which is part of the state of the vma, and then i915_vma_put_pages is called.
  \<open>err_remove\<close> first detaches and removes the node of a vma that is not bound.
\<close>

definition pin_unwind :: "vma_state \<Rightarrow> int \<Rightarrow> (int \<times> vma_state) option" where
  "pin_unwind s err = map_option (Pair err) (i915_vma_put_pages s)"

definition pin_remove :: "vma_state \<Rightarrow> int \<Rightarrow> (int \<times> vma_state) option" where
  "pin_remove s err =
     (if \<not> i915_vma_is_bound s I915_VMA_BIND_MASK
      then (case i915_vma_detach s of
              None \<Rightarrow> None
            | Some s1 \<Rightarrow> pin_unwind (drm_mm_remove_node s1) err)
      else pin_unwind s err)"

text \<open>
  i915_vma_pin_ww in three parts: the insertion of a vma that has no binding yet, the part
  after a successful i915_vma_bind, and the function itself. \<open>I915_VMA_PAGES_ACTIVE\<close> is an
  \<open>unsigned long\<close>, so the overflow test of the second part is made in 64 bits.
\<close>

definition pin_insert ::
  "pin_env \<Rightarrow> vma_state \<Rightarrow> u64 \<Rightarrow> u64 \<Rightarrow> u64 \<Rightarrow> (int \<times> vma_state) option" where
  "pin_insert env s size0 alignment flags0 =
     (if flags s AND I915_VMA_BIND_MASK = 0
      then (case i915_vma_insert True env s size0 alignment flags0 of
              None \<Rightarrow> None
            | Some (err, s1) \<Rightarrow>
                if err \<noteq> 0 then Some (err, s1)
                else if vm_is_ggtt s1
                then map_option (Pair 0) (uu_i915_vma_set_map_and_fenceable s1)
                else Some (0, s1))
      else Some (0, s))"

definition pin_commit ::
  "u32 \<Rightarrow> vma_state \<Rightarrow> u64 \<Rightarrow> u64 \<Rightarrow> u64 \<Rightarrow> (int \<times> vma_state) option" where
  "pin_commit bound s size0 alignment flags0 =
     gem_bug_on ((ucast bound :: u64) + ucast I915_VMA_PAGES_ACTIVE < ucast bound)
       (let s1 = s\<lparr>pages_count := pages_count s + I915_VMA_PAGES_ACTIVE, vm_link := True\<rparr>
        in case (if flags0 AND PIN_VALIDATE = 0 then uu_i915_vma_pin s1 else Some s1) of
             None \<Rightarrow> None
           | Some s2 \<Rightarrow>
               gem_bug_on (\<not> i915_vma_is_bound s2 (ucast flags0))
                 (case i915_vma_misplaced s2 size0 alignment flags0 of
                    None \<Rightarrow> None
                  | Some m \<Rightarrow> gem_bug_on m (pin_remove s2 0)))"

definition pin_locked ::
  "pin_env \<Rightarrow> vma_state \<Rightarrow> u64 \<Rightarrow> u64 \<Rightarrow> u64 \<Rightarrow> bool \<Rightarrow> (int \<times> vma_state) option" where
  "pin_locked env s size0 alignment flags0 work =
     (let bound = flags s
      in if i915_vma_is_closed s then pin_unwind s (- ENOENT)
         else if bound AND I915_VMA_ERROR \<noteq> 0 then pin_unwind s (- ENOMEM)
         else if (bound + 1) AND I915_VMA_PIN_MASK = 0 then pin_unwind s (- EAGAIN)
         else if (ucast flags0 AND NOT bound) AND I915_VMA_BIND_MASK = 0
         then (case (if flags0 AND PIN_VALIDATE = 0 then uu_i915_vma_pin s else Some s) of
                 None \<Rightarrow> None
               | Some s1 \<Rightarrow> pin_unwind s1 0)
         else if active_acquire_ret env \<noteq> 0 then pin_unwind s (active_acquire_ret env)
         else case pin_insert env s size0 alignment flags0 of
                None \<Rightarrow> None
              | Some (err, s1) \<Rightarrow>
                  if err \<noteq> 0 then pin_unwind s1 err
                  else gem_bug_on (pages s1 = None)
                    (case i915_vma_bind env s1 (ucast flags0) work of
                       None \<Rightarrow> None
                     | Some (err, s2) \<Rightarrow>
                         if err \<noteq> 0 then pin_remove s2 err
                         else pin_commit bound s2 size0 alignment flags0))"

definition i915_vma_pin_ww ::
  "pin_env \<Rightarrow> vma_state \<Rightarrow> u64 \<Rightarrow> u64 \<Rightarrow> u64 \<Rightarrow> (int \<times> vma_state) option" where
  "i915_vma_pin_ww env s size0 alignment flags0 =
     gem_bug_on (flags0 AND (PIN_USER OR PIN_GLOBAL) = 0)
       (case try_qad_pin s (ucast flags0) of
          None \<Rightarrow> None
        | Some (True, s1) \<Rightarrow> Some (0, s1)
        | Some (False, s1) \<Rightarrow>
            (case i915_vma_get_pages env s1 of
               None \<Rightarrow> None
             | Some (err, s2) \<Rightarrow>
                 if err \<noteq> 0 then Some (err, s2)
                 else
                   (let work = (flags0 AND ucast (vm_bind_async_flags s2) \<noteq> 0 \<or> has_moving env)
                    in if work \<and> lock_objects_ret env \<noteq> 0
                       then pin_unwind s2 (lock_objects_ret env)
                       else if work \<and> \<not> work_ok env then pin_unwind s2 (- ENOMEM)
                       else if work \<and> vm_allocate_va_range s2 \<and> alloc_pt_stash_ret env \<noteq> 0
                       then pin_unwind s2 (alloc_pt_stash_ret env)
                       else if work \<and> vm_allocate_va_range s2 \<and> map_pt_stash_ret env \<noteq> 0
                       then pin_unwind s2 (map_pt_stash_ret env)
                       else if vma_res_err env \<noteq> 0 then pin_unwind s2 (vma_res_err env)
                       else if vm_mutex_ret env \<noteq> 0 then pin_unwind s2 (vm_mutex_ret env)
                       else pin_locked env s2 size0 alignment flags0 work)))"

subsection \<open>What the steps of a pin change\<close>

lemma put_pages_effect:
  assumes "i915_vma_put_pages t = Some t'"
  shows "flags t' = flags t" and "node t' = node t" and "vm_link t' = vm_link t"
    and "pages_count t' = pages_count t - 1"
    and "obj_pages_pin_count t' =
           (if pages_count t = 1 then obj_pages_pin_count t - 1 else obj_pages_pin_count t)"
  using assms
  by (auto simp add: i915_vma_put_pages_def uu_vma_put_pages_def gem_bug_on_def Let_def
      split: if_splits)

lemma pin_unwind_effect:
  assumes "pin_unwind t err = Some (e, t')"
  shows "e = err" and "flags t' = flags t" and "node t' = node t"
    and "vm_link t' = vm_link t" and "pages_count t' = pages_count t - 1"
    and "obj_pages_pin_count t' =
           (if pages_count t = 1 then obj_pages_pin_count t - 1 else obj_pages_pin_count t)"
  using assms put_pages_effect [of t t']
  by (auto simp add: pin_unwind_def)

lemma get_pages_effect:
  assumes "i915_vma_get_pages env s = Some (err, s2)"
  shows "flags s2 = flags s" and "node s2 = node s" and "vm_link s2 = vm_link s"
    and "err \<noteq> 0 \<Longrightarrow> pages_count s2 = pages_count s"
    and "err \<noteq> 0 \<Longrightarrow> obj_pages_pin_count s2 = obj_pages_pin_count s"
    and "err = 0 \<Longrightarrow> pages_count s2 = pages_count s + 1"
    and "err = 0 \<Longrightarrow> obj_pages_pin_count s2 =
           (if pages_count s = 0 then obj_pages_pin_count s + 1 else obj_pages_pin_count s)"
  using assms
  by (auto simp add: i915_vma_get_pages_def uu_i915_vma_get_pages_def gem_bug_on_def
      split: if_splits option.splits)

lemma insert_effect:
  assumes "i915_vma_insert True env s sz al fl = Some (err, s1)"
  shows "node s = None" and "flags s1 = flags s" and "pages_count s1 = pages_count s"
    and "obj_pages_pin_count s1 = obj_pages_pin_count s"
    and "err \<noteq> 0 \<Longrightarrow> node s1 = node s \<and> vm_link s1 = vm_link s"
proof -
  from assms show "node s = None"
    by (auto simp add: i915_vma_insert_def bug_on_def drm_mm_node_allocated_def
        split: if_splits)
  from insert_cases [OF assms]
  have "flags s1 = flags s \<and> pages_count s1 = pages_count s
      \<and> obj_pages_pin_count s1 = obj_pages_pin_count s
      \<and> (err \<noteq> 0 \<longrightarrow> node s1 = node s \<and> vm_link s1 = vm_link s)"
    by (auto simp add: placed_def split: if_splits)
  then show "flags s1 = flags s" and "pages_count s1 = pages_count s"
    and "obj_pages_pin_count s1 = obj_pages_pin_count s"
    and "err \<noteq> 0 \<Longrightarrow> node s1 = node s \<and> vm_link s1 = vm_link s"
    by simp_all
qed

lemma can_fence_masked:
  "(f OR I915_VMA_CAN_FENCE) AND NOT I915_VMA_CAN_FENCE = f AND NOT I915_VMA_CAN_FENCE"
  "(f AND NOT I915_VMA_CAN_FENCE) AND NOT I915_VMA_CAN_FENCE = f AND NOT I915_VMA_CAN_FENCE"
  by (simp_all add: bit_eq_iff bit_simps) blast

lemma set_map_effect:
  assumes "uu_i915_vma_set_map_and_fenceable s = Some s1"
  shows "flags s1 AND NOT I915_VMA_CAN_FENCE = flags s AND NOT I915_VMA_CAN_FENCE"
    and "node s1 = node s" and "vm_link s1 = vm_link s" and "pages_count s1 = pages_count s"
    and "obj_pages_pin_count s1 = obj_pages_pin_count s"
  using assms
  by (auto simp add: uu_i915_vma_set_map_and_fenceable_def gem_bug_on_def Let_def
      can_fence_masked split: if_splits option.splits)

lemma bind_error_effect:
  assumes "i915_vma_bind env s fl work = Some (err, s1)" and "err \<noteq> 0"
  shows "flags s1 = flags s" and "node s1 = node s" and "vm_link s1 = vm_link s"
    and "pages_count s1 = pages_count s"
    and "obj_pages_pin_count s1 = obj_pages_pin_count s"
  using assms
  by (auto simp add: i915_vma_bind_def gem_bug_on_def Let_def
      split: if_splits option.splits)

lemma pin_remove_effect:
  assumes "pin_remove t err = Some (e, t')"
  shows "e = err" and "flags t' = flags t"
    and "pages_count t' = pages_count t - 1"
    and "obj_pages_pin_count t' =
           (if pages_count t = 1 then obj_pages_pin_count t - 1 else obj_pages_pin_count t)"
    and "flags t AND I915_VMA_BIND_MASK \<noteq> 0 \<Longrightarrow> node t' = node t \<and> vm_link t' = vm_link t"
    and "flags t AND I915_VMA_BIND_MASK = 0 \<Longrightarrow> node t' = None \<and> \<not> vm_link t'"
proof -
  consider "flags t AND I915_VMA_BIND_MASK \<noteq> 0" "pin_unwind t err = Some (e, t')"
    | t1 where "flags t AND I915_VMA_BIND_MASK = 0" "i915_vma_detach t = Some t1"
      "pin_unwind (drm_mm_remove_node t1) err = Some (e, t')"
    using assms
    by (auto simp add: pin_remove_def i915_vma_is_bound_def split: if_splits option.splits)
  then have "e = err \<and> flags t' = flags t \<and> pages_count t' = pages_count t - 1
      \<and> obj_pages_pin_count t' =
           (if pages_count t = 1 then obj_pages_pin_count t - 1 else obj_pages_pin_count t)
      \<and> (flags t AND I915_VMA_BIND_MASK \<noteq> 0 \<longrightarrow> node t' = node t \<and> vm_link t' = vm_link t)
      \<and> (flags t AND I915_VMA_BIND_MASK = 0 \<longrightarrow> node t' = None \<and> \<not> vm_link t')"
  proof cases
    case 1
    from pin_unwind_effect [OF 1(2)] 1(1) show ?thesis
      by simp
  next
    case 2
    from 2(2) have t1: "t1 = t\<lparr>vm_link := False\<rparr>"
      by (auto simp add: i915_vma_detach_def gem_bug_on_def split: if_splits)
    from pin_unwind_effect [OF 2(3)] 2(1) show ?thesis
      by (simp add: t1 drm_mm_remove_node_def)
  qed
  then show "e = err" and "flags t' = flags t"
    and "pages_count t' = pages_count t - 1"
    and "obj_pages_pin_count t' =
           (if pages_count t = 1 then obj_pages_pin_count t - 1 else obj_pages_pin_count t)"
    and "flags t AND I915_VMA_BIND_MASK \<noteq> 0 \<Longrightarrow> node t' = node t \<and> vm_link t' = vm_link t"
    and "flags t AND I915_VMA_BIND_MASK = 0 \<Longrightarrow> node t' = None \<and> \<not> vm_link t'"
    by simp_all
qed

lemma pin_commit_returns_0:
  assumes "pin_commit bound s sz al fl = Some (err, s')"
  shows "err = 0"
  using assms pin_remove_effect(1)
  by (auto simp add: pin_commit_def gem_bug_on_def Let_def split: if_splits option.splits)

lemma bind_mask_can_fence:
  "(f AND NOT I915_VMA_CAN_FENCE) AND I915_VMA_BIND_MASK = f AND I915_VMA_BIND_MASK"
  "(f AND NOT I915_VMA_CAN_FENCE) AND I915_VMA_PIN_MASK = f AND I915_VMA_PIN_MASK"
proof -
  have "NOT I915_VMA_CAN_FENCE AND I915_VMA_BIND_MASK = I915_VMA_BIND_MASK"
    and "NOT I915_VMA_CAN_FENCE AND I915_VMA_PIN_MASK = I915_VMA_PIN_MASK"
    by (simp_all add: I915_VMA_CAN_FENCE_def I915_VMA_BIND_MASK_def I915_VMA_PIN_MASK_def
        I915_VMA_GLOBAL_BIND_def I915_VMA_LOCAL_BIND_def)
  then show "(f AND NOT I915_VMA_CAN_FENCE) AND I915_VMA_BIND_MASK = f AND I915_VMA_BIND_MASK"
    and "(f AND NOT I915_VMA_CAN_FENCE) AND I915_VMA_PIN_MASK = f AND I915_VMA_PIN_MASK"
    by (simp_all add: and.assoc)
qed

lemma pin_insert_effect:
  assumes "pin_insert env s sz al fl = Some (err, s1)"
  shows "flags s1 AND NOT I915_VMA_CAN_FENCE = flags s AND NOT I915_VMA_CAN_FENCE"
    and "pages_count s1 = pages_count s"
    and "obj_pages_pin_count s1 = obj_pages_pin_count s"
    and "err \<noteq> 0 \<Longrightarrow> node s1 = node s \<and> vm_link s1 = vm_link s"
    and "flags s AND I915_VMA_BIND_MASK = 0 \<Longrightarrow> node s = None"
    and "flags s AND I915_VMA_BIND_MASK \<noteq> 0 \<Longrightarrow> s1 = s"
proof -
  consider "flags s AND I915_VMA_BIND_MASK \<noteq> 0" "s1 = s"
    | "flags s AND I915_VMA_BIND_MASK = 0" "err \<noteq> 0"
      "i915_vma_insert True env s sz al fl = Some (err, s1)"
    | s0 where "flags s AND I915_VMA_BIND_MASK = 0" "err = 0"
      "i915_vma_insert True env s sz al fl = Some (0, s0)"
      "s1 = s0 \<or> uu_i915_vma_set_map_and_fenceable s0 = Some s1"
    using assms
    by (auto simp add: pin_insert_def split: if_splits option.splits)
  then have "flags s1 AND NOT I915_VMA_CAN_FENCE = flags s AND NOT I915_VMA_CAN_FENCE
      \<and> pages_count s1 = pages_count s
      \<and> obj_pages_pin_count s1 = obj_pages_pin_count s
      \<and> (err \<noteq> 0 \<longrightarrow> node s1 = node s \<and> vm_link s1 = vm_link s)
      \<and> (flags s AND I915_VMA_BIND_MASK = 0 \<longrightarrow> node s = None)
      \<and> (flags s AND I915_VMA_BIND_MASK \<noteq> 0 \<longrightarrow> s1 = s)"
  proof cases
    case 1
    then show ?thesis
      by simp
  next
    case 2
    from insert_effect [OF 2(3)] 2(1,2) show ?thesis
      by simp
  next
    case 3
    from 3(4) have "flags s1 AND NOT I915_VMA_CAN_FENCE = flags s0 AND NOT I915_VMA_CAN_FENCE
        \<and> pages_count s1 = pages_count s0
        \<and> obj_pages_pin_count s1 = obj_pages_pin_count s0"
      using set_map_effect [of s0 s1] by auto
    with insert_effect [OF 3(3)] 3(1,2) show ?thesis
      by simp
  qed
  then show "flags s1 AND NOT I915_VMA_CAN_FENCE = flags s AND NOT I915_VMA_CAN_FENCE"
    and "pages_count s1 = pages_count s"
    and "obj_pages_pin_count s1 = obj_pages_pin_count s"
    and "err \<noteq> 0 \<Longrightarrow> node s1 = node s \<and> vm_link s1 = vm_link s"
    and "flags s AND I915_VMA_BIND_MASK = 0 \<Longrightarrow> node s = None"
    and "flags s AND I915_VMA_BIND_MASK \<noteq> 0 \<Longrightarrow> s1 = s"
    by simp_all
qed

lemma pin_locked_cases:
  assumes "pin_locked env s sz al fl work = Some (err, s')" and "err \<noteq> 0"
  shows "(\<exists>e. pin_unwind s e = Some (err, s'))
       \<or> (\<exists>e1 s1. pin_insert env s sz al fl = Some (e1, s1) \<and> e1 \<noteq> 0
              \<and> pin_unwind s1 e1 = Some (err, s'))
       \<or> (\<exists>s1 e2 s2. pin_insert env s sz al fl = Some (0, s1)
              \<and> i915_vma_bind env s1 (ucast fl) work = Some (e2, s2) \<and> e2 \<noteq> 0
              \<and> pin_remove s2 e2 = Some (err, s'))"
proof -
  have a: "pin_unwind t 0 \<noteq> Some (err, s')" for t
    using assms(2) pin_unwind_effect(1) [of t 0 err s'] by auto
  have b: "pin_commit bound t sz al fl \<noteq> Some (err, s')" for bound t
    using assms(2) pin_commit_returns_0 [of bound t sz al fl err s'] by auto
  from assms(1) show ?thesis
    unfolding pin_locked_def Let_def gem_bug_on_def
    by (auto simp add: a b split: if_splits option.splits)
qed

lemma pin_locked_error:
  assumes "pin_locked env s sz al fl work = Some (err, s')" and "err \<noteq> 0"
  shows "flags s' AND NOT I915_VMA_CAN_FENCE = flags s AND NOT I915_VMA_CAN_FENCE
       \<and> node s' = node s \<and> (vm_link s' \<longrightarrow> vm_link s)
       \<and> pages_count s' = pages_count s - 1
       \<and> obj_pages_pin_count s' =
           (if pages_count s = 1 then obj_pages_pin_count s - 1 else obj_pages_pin_count s)"
proof -
  from pin_locked_cases [OF assms] consider
      e where "pin_unwind s e = Some (err, s')"
    | e1 s1 where "pin_insert env s sz al fl = Some (e1, s1)" "e1 \<noteq> 0"
        "pin_unwind s1 e1 = Some (err, s')"
    | s1 e2 s2 where "pin_insert env s sz al fl = Some (0, s1)"
        "i915_vma_bind env s1 (ucast fl) work = Some (e2, s2)" "e2 \<noteq> 0"
        "pin_remove s2 e2 = Some (err, s')"
    by blast
  then show ?thesis
  proof cases
    case 1
    from pin_unwind_effect [OF 1] show ?thesis
      by simp
  next
    case 2
    from pin_unwind_effect [OF 2(3)] pin_insert_effect(1-4) [OF 2(1)] 2(2) show ?thesis
      by simp
  next
    case 3
    note ins = pin_insert_effect [OF 3(1)]
    note bnd = bind_error_effect [OF 3(2,3)]
    note rem = pin_remove_effect [OF 3(4)]
    have m: "flags s2 AND I915_VMA_BIND_MASK = flags s AND I915_VMA_BIND_MASK"
      using ins(1) bnd(1) bind_mask_can_fence(1) by metis
    have "node s' = node s \<and> (vm_link s' \<longrightarrow> vm_link s)"
    proof (cases "flags s AND I915_VMA_BIND_MASK = 0")
      case True
      with rem(6) ins(5) m show ?thesis
        by simp
    next
      case False
      with rem(5) ins(6) m bnd(2,3) show ?thesis
        by simp
    qed
    with rem(2-4) bnd(1,4,5) ins(1-3) show ?thesis
      by simp
  qed
qed

lemma try_qad_pin_false:
  assumes "try_qad_pin s f = Some (False, s1)"
  shows "s1 = s"
  using assms
  by (auto simp add: try_qad_pin_def Let_def gem_bug_on_def split: if_splits)

lemma pin_ww_cases:
  assumes "i915_vma_pin_ww env s sz al fl = Some (err, s')" and "err \<noteq> 0"
  shows "i915_vma_get_pages env s = Some (err, s')
       \<or> (\<exists>s2. i915_vma_get_pages env s = Some (0, s2)
              \<and> ((\<exists>e. pin_unwind s2 e = Some (err, s'))
                 \<or> (\<exists>work. pin_locked env s2 sz al fl work = Some (err, s'))))"
proof -
  from assms obtain b s1 where q: "try_qad_pin s (ucast fl) = Some (b, s1)"
    by (auto simp add: i915_vma_pin_ww_def gem_bug_on_def split: if_splits option.splits)
  with assms have "\<not> b"
    by (auto simp add: i915_vma_pin_ww_def gem_bug_on_def split: if_splits)
  with q have s1: "try_qad_pin s (ucast fl) = Some (False, s)"
    using try_qad_pin_false by auto
  from assms(1) show ?thesis
    unfolding i915_vma_pin_ww_def Let_def gem_bug_on_def s1
    by (auto split: if_splits option.splits)
qed

text \<open>
  C8, as amended: when i915_vma_pin_ww returns an error, the vma has the bind bits and the
  pin count it had before the call, and so has every other flag except
  \<open>I915_VMA_CAN_FENCE\<close>; its node is as before, so a node inserted during the attempt has
  been removed, and the vma is not left linked into the bound list by the attempt; the
  reference on its pages and the pin of the object's pages taken by the attempt have been
  released.
\<close>

theorem failed_pin_rolls_back:
  assumes "i915_vma_pin_ww env s sz al fl = Some (err, s')" and "err \<noteq> 0"
  shows "flags s' AND I915_VMA_BIND_MASK = flags s AND I915_VMA_BIND_MASK
       \<and> flags s' AND I915_VMA_PIN_MASK = flags s AND I915_VMA_PIN_MASK
       \<and> flags s' AND NOT I915_VMA_CAN_FENCE = flags s AND NOT I915_VMA_CAN_FENCE
       \<and> node s' = node s \<and> (vm_link s' \<longrightarrow> vm_link s)
       \<and> pages_count s' = pages_count s
       \<and> obj_pages_pin_count s' = obj_pages_pin_count s"
proof -
  have one: "x + 1 = 1 \<longleftrightarrow> x = 0" for x :: u32
    by simp
  from pin_ww_cases [OF assms] consider
      "i915_vma_get_pages env s = Some (err, s')"
    | s2 e where "i915_vma_get_pages env s = Some (0, s2)" "pin_unwind s2 e = Some (err, s')"
    | s2 work where "i915_vma_get_pages env s = Some (0, s2)"
        "pin_locked env s2 sz al fl work = Some (err, s')"
    by blast
  then have k: "flags s' AND NOT I915_VMA_CAN_FENCE = flags s AND NOT I915_VMA_CAN_FENCE
       \<and> node s' = node s \<and> (vm_link s' \<longrightarrow> vm_link s)
       \<and> pages_count s' = pages_count s
       \<and> obj_pages_pin_count s' = obj_pages_pin_count s"
  proof cases
    case 1
    from get_pages_effect [OF 1] assms(2) show ?thesis
      by simp
  next
    case 2
    from get_pages_effect [OF 2(1)] pin_unwind_effect [OF 2(2)] show ?thesis
      by (simp add: one)
  next
    case 3
    from get_pages_effect [OF 3(1)] pin_locked_error [OF 3(2) assms(2)] show ?thesis
      by (simp add: one)
  qed
  then have "flags s' AND I915_VMA_BIND_MASK = flags s AND I915_VMA_BIND_MASK"
    and "flags s' AND I915_VMA_PIN_MASK = flags s AND I915_VMA_PIN_MASK"
    using bind_mask_can_fence by metis+
  with k show ?thesis
    by simp
qed

text \<open>
  Two pins that fail in i915_vma_bind, where the wait for unbinds touching the range is
  interrupted, after the node was inserted. The first vma lives in the address space of
  Scenario A and is as before when the pin has failed. The second lives in the global GTT:
  its node is mappable and fenceable, and the flag that says so stays set when the node has
  been removed again.
\<close>

definition fresh_vma :: vma_state where
  "fresh_vma = colored_vma\<lparr>pages_count := 0, pages := None, obj_pages_pin_count := 0\<rparr>"

definition idle_ggtt_vma :: vma_state where
  "idle_ggtt_vma =
     pinned_vma\<lparr>flags := 0x2000, node := None, resource := None, vm_link := False,
       pages_count := 0, pages := None, obj_pages_pin_count := 0, obj_was_bound := False\<rparr>"

definition interrupted_bind_env :: pin_env where
  "interrupted_bind_env = hole_env\<lparr>bind_dep_ret := - ERESTARTSYS\<rparr>"

lemma interrupted_bind_env_rets:
  "active_acquire_ret interrupted_bind_env = 0" "vma_res_err interrupted_bind_env = 0"
  "vm_mutex_ret interrupted_bind_env = 0" "\<not> has_moving interrupted_bind_env"
  "ERESTARTSYS \<noteq> (0::int)"
  by (simp_all add: interrupted_bind_env_def hole_env_def ERESTARTSYS_def)

lemma pin_request_bits:
  "(ucast PIN_USER :: u32) AND I915_VMA_BIND_MASK \<noteq> 0" "PIN_USER \<noteq> 0"
  "PIN_USER AND (PIN_USER OR PIN_GLOBAL) \<noteq> 0"
  "((ucast PIN_GLOBAL :: u32) AND - 8193) AND I915_VMA_BIND_MASK \<noteq> 0" "PIN_GLOBAL \<noteq> 0"
  "PIN_GLOBAL AND (PIN_USER OR PIN_GLOBAL) \<noteq> 0"
  "(1::u32) AND I915_VMA_PIN_MASK \<noteq> 0" "(0x2001::u32) AND I915_VMA_PIN_MASK \<noteq> 0"
  "(0x2000::u32) AND I915_VMA_ERROR = 0"
  by (simp_all add: PIN_USER_def PIN_GLOBAL_def I915_VMA_BIND_MASK_def
      I915_VMA_GLOBAL_BIND_def I915_VMA_LOCAL_BIND_def I915_VMA_PIN_MASK_def
      I915_VMA_ERROR_def)

lemma interrupted_pin:
  "i915_vma_pin_ww interrupted_bind_env fresh_vma 4096 4096 PIN_USER
     = Some (- ERESTARTSYS, fresh_vma)"
proof -
  have q: "try_qad_pin fresh_vma (ucast PIN_USER) = Some (False, fresh_vma)"
    by (simp add: try_qad_pin_def Let_def fresh_vma_def colored_vma_def pinned_vma_def
        PIN_USER_def PIN_VALIDATE_def I915_VMA_BIND_MASK_def I915_VMA_GLOBAL_BIND_def
        I915_VMA_LOCAL_BIND_def)
  define s2 where "s2 = fresh_vma\<lparr>pages_count := 1, pages := Some ObjPages,
    obj_pages_pin_count := 1\<rparr>"
  have g: "i915_vma_get_pages interrupted_bind_env fresh_vma = Some (0, s2)"
    by (simp add: i915_vma_get_pages_def uu_i915_vma_get_pages_def gem_bug_on_def s2_def
        fresh_vma_def colored_vma_def pinned_vma_def interrupted_bind_env_def hole_env_def)
  define s3 where "s3 = s2\<lparr>node := Some \<lparr>node_start = 8192, node_size = 4096,
    node_color = 2\<rparr>, vm_link := True\<rparr>"
  have i: "i915_vma_insert True interrupted_bind_env s2 4096 4096 PIN_USER = Some (0, s3)"
    by (simp add: scenario_a_defs s2_def s3_def fresh_vma_def interrupted_bind_env_def)
  have pi: "pin_insert interrupted_bind_env s2 4096 4096 PIN_USER = Some (0, s3)"
    unfolding pin_insert_def i
    by (simp add: s2_def s3_def fresh_vma_def colored_vma_def pinned_vma_def
        I915_VMA_BIND_MASK_def)
  have b: "i915_vma_bind interrupted_bind_env s3 (ucast PIN_USER) False
             = Some (- ERESTARTSYS, s3)"
    by (simp add: i915_vma_bind_def gem_bug_on_def Let_def s3_def s2_def fresh_vma_def
        colored_vma_def pinned_vma_def interrupted_bind_env_def hole_env_def PIN_USER_def
        range_overflows_def I915_VMA_GLOBAL_BIND_def I915_VMA_LOCAL_BIND_def
        ERESTARTSYS_def)
  have r: "pin_remove s3 (- ERESTARTSYS) = Some (- ERESTARTSYS, fresh_vma)"
    by (simp add: pin_remove_def pin_unwind_def i915_vma_detach_def drm_mm_remove_node_def
        i915_vma_put_pages_def uu_vma_put_pages_def gem_bug_on_def Let_def
        i915_vma_is_bound_def drm_mm_node_allocated_def s3_def s2_def fresh_vma_def
        colored_vma_def pinned_vma_def I915_VMA_BIND_MASK_def I915_VMA_GLOBAL_BIND_def
        I915_VMA_LOCAL_BIND_def)
  have f: "\<not> i915_vma_is_closed s2" "flags s2 = 0" "pages s3 \<noteq> None"
    "PIN_USER AND ucast (vm_bind_async_flags s2) = 0"
    by (simp_all add: i915_vma_is_closed_def s2_def s3_def fresh_vma_def colored_vma_def
        pinned_vma_def)
  have l: "pin_locked interrupted_bind_env s2 4096 4096 PIN_USER False
             = Some (- ERESTARTSYS, fresh_vma)"
    by (simp add: pin_locked_def Let_def gem_bug_on_def f interrupted_bind_env_rets
        pin_request_bits pi b r I915_VMA_ERROR_def)
  show ?thesis
    by (simp add: i915_vma_pin_ww_def Let_def gem_bug_on_def q g f l
        interrupted_bind_env_rets pin_request_bits)
qed

theorem failed_pin_rolls_back_witness:
  "i915_vma_pin_ww interrupted_bind_env fresh_vma 4096 4096 PIN_USER
     = Some (- ERESTARTSYS, fresh_vma)
   \<and> - ERESTARTSYS \<noteq> (0::int)
   \<and> flags fresh_vma AND I915_VMA_BIND_MASK = 0
   \<and> flags fresh_vma AND I915_VMA_PIN_MASK = 0
   \<and> node fresh_vma = None \<and> \<not> vm_link fresh_vma
   \<and> pages_count fresh_vma = 0 \<and> obj_pages_pin_count fresh_vma = 0"
proof -
  have ne: "- ERESTARTSYS \<noteq> (0::int)"
    by (simp add: ERESTARTSYS_def)
  from failed_pin_rolls_back [OF interrupted_pin ne] interrupted_pin ne show ?thesis
    by (simp add: fresh_vma_def colored_vma_def pinned_vma_def I915_VMA_BIND_MASK_def
        I915_VMA_PIN_MASK_def)
qed

text \<open>
  C8 as stated fails: the state of the vma is not unchanged by a failed pin. A vma of the
  global GTT without node or pages is pinned; the node is inserted at offset 0,
  __i915_vma_set_map_and_fenceable sets \<open>I915_VMA_CAN_FENCE\<close>, and then i915_vma_bind fails.
  The node is removed and the pages are released, but the flag stays set:
  i915_vma_is_map_and_fenceable, false before the call, is true after it.
\<close>

theorem failed_pin_leaves_can_fence:
  "i915_vma_pin_ww (interrupted_bind_env\<lparr>gtt_start := 0\<rparr>) idle_ggtt_vma 4096 4096 PIN_GLOBAL
     = Some (- ERESTARTSYS, idle_ggtt_vma\<lparr>flags := 0x6000\<rparr>)
   \<and> - ERESTARTSYS \<noteq> (0::int)
   \<and> flags idle_ggtt_vma = 0x2000
   \<and> \<not> i915_vma_is_map_and_fenceable idle_ggtt_vma
   \<and> i915_vma_is_map_and_fenceable (idle_ggtt_vma\<lparr>flags := 0x6000\<rparr>)"
proof -
  let ?env = "interrupted_bind_env\<lparr>gtt_start := 0\<rparr>"
  have q: "try_qad_pin idle_ggtt_vma (ucast PIN_GLOBAL) = Some (False, idle_ggtt_vma)"
    by (simp add: try_qad_pin_def Let_def idle_ggtt_vma_def pinned_vma_def
        PIN_GLOBAL_def PIN_VALIDATE_def I915_VMA_BIND_MASK_def I915_VMA_GLOBAL_BIND_def
        I915_VMA_LOCAL_BIND_def)
  define s2 where "s2 = idle_ggtt_vma\<lparr>pages_count := 1, pages := Some ObjPages,
    obj_pages_pin_count := 1\<rparr>"
  have g: "i915_vma_get_pages ?env idle_ggtt_vma = Some (0, s2)"
    by (simp add: i915_vma_get_pages_def uu_i915_vma_get_pages_def gem_bug_on_def s2_def
        idle_ggtt_vma_def pinned_vma_def interrupted_bind_env_def hole_env_def)
  define s3 where "s3 = s2\<lparr>node := Some \<lparr>node_start = 0, node_size = 4096,
    node_color = 0\<rparr>, vm_link := True\<rparr>"
  have i: "i915_vma_insert True ?env s2 4096 4096 PIN_GLOBAL = Some (0, s3)"
    by (simp add: i915_vma_insert_def insert_finish_def insert_search_def
        i915_gem_gtt_insert_def drm_mm_place_def node_fits_def node_end_def Let_def
        bug_on_def keep_all_def hole_env_def interrupted_bind_env_def pinned_vma_def
        idle_ggtt_vma_def s2_def s3_def PIN_GLOBAL_def
        i915_vma_is_bound_def drm_mm_node_allocated_def i915_vma_is_ggtt_def
        I915_VMA_GLOBAL_BIND_def I915_VMA_LOCAL_BIND_def I915_VMA_GGTT_def
        PIN_MAPPABLE_def PIN_OFFSET_BIAS_def PIN_OFFSET_FIXED_def PIN_ZONE_4G_def
        IS_ALIGNED_def is_power_of_2_def I915_GTT_PAGE_SIZE_def I915_GTT_MIN_ALIGNMENT_def
        upper_32_bits_def i915_gem_valid_gtt_space_def)
  define s4 where "s4 = s3\<lparr>flags := 0x6000\<rparr>"
  have m: "uu_i915_vma_set_map_and_fenceable s3 = Some s4"
    by (simp add: uu_i915_vma_set_map_and_fenceable_def gem_bug_on_def Let_def
        i915_vma_is_ggtt_def I915_VMA_GGTT_def I915_VMA_CAN_FENCE_def IS_ALIGNED_def
        s4_def s3_def s2_def idle_ggtt_vma_def pinned_vma_def)
  have ggtt: "vm_is_ggtt s3" "flags s2 AND I915_VMA_BIND_MASK = 0"
    by (simp_all add: s3_def s2_def idle_ggtt_vma_def pinned_vma_def I915_VMA_BIND_MASK_def
        I915_VMA_GLOBAL_BIND_def I915_VMA_LOCAL_BIND_def)
  have pi: "pin_insert ?env s2 4096 4096 PIN_GLOBAL = Some (0, s4)"
    unfolding pin_insert_def i
    by (simp add: ggtt m)
  have b: "i915_vma_bind ?env s4 (ucast PIN_GLOBAL) False = Some (- ERESTARTSYS, s4)"
    by (simp add: i915_vma_bind_def gem_bug_on_def Let_def s4_def s3_def s2_def
        idle_ggtt_vma_def pinned_vma_def interrupted_bind_env_def hole_env_def
        PIN_GLOBAL_def range_overflows_def I915_VMA_GLOBAL_BIND_def
        I915_VMA_LOCAL_BIND_def ERESTARTSYS_def)
  have r: "pin_remove s4 (- ERESTARTSYS)
             = Some (- ERESTARTSYS, idle_ggtt_vma\<lparr>flags := 0x6000\<rparr>)"
    by (simp add: pin_remove_def pin_unwind_def i915_vma_detach_def drm_mm_remove_node_def
        i915_vma_put_pages_def uu_vma_put_pages_def gem_bug_on_def Let_def
        i915_vma_is_bound_def drm_mm_node_allocated_def s4_def s3_def s2_def
        idle_ggtt_vma_def pinned_vma_def I915_VMA_BIND_MASK_def I915_VMA_GLOBAL_BIND_def
        I915_VMA_LOCAL_BIND_def)
  have f: "\<not> i915_vma_is_closed s2" "flags s2 = 0x2000" "pages s4 \<noteq> None"
    "PIN_GLOBAL AND ucast (vm_bind_async_flags s2) = 0"
    by (simp_all add: i915_vma_is_closed_def s2_def s3_def s4_def idle_ggtt_vma_def
        pinned_vma_def)
  have e: "active_acquire_ret ?env = 0" "vma_res_err ?env = 0" "vm_mutex_ret ?env = 0"
    "\<not> has_moving ?env"
    by (simp_all add: interrupted_bind_env_def hole_env_def)
  have l: "pin_locked ?env s2 4096 4096 PIN_GLOBAL False
             = Some (- ERESTARTSYS, idle_ggtt_vma\<lparr>flags := 0x6000\<rparr>)"
    by (simp add: pin_locked_def Let_def gem_bug_on_def f e interrupted_bind_env_rets(5)
        pin_request_bits pi b r)
  have run: "i915_vma_pin_ww ?env idle_ggtt_vma 4096 4096 PIN_GLOBAL
      = Some (- ERESTARTSYS, idle_ggtt_vma\<lparr>flags := 0x6000\<rparr>)"
    by (simp add: i915_vma_pin_ww_def Let_def gem_bug_on_def q g f e l pin_request_bits)
  have rest: "- ERESTARTSYS \<noteq> (0::int)" "flags idle_ggtt_vma = 0x2000"
    "\<not> i915_vma_is_map_and_fenceable idle_ggtt_vma"
    "i915_vma_is_map_and_fenceable (idle_ggtt_vma\<lparr>flags := 0x6000\<rparr>)"
    by (simp_all add: ERESTARTSYS_def idle_ggtt_vma_def pinned_vma_def
        i915_vma_is_map_and_fenceable_def I915_VMA_CAN_FENCE_def)
  from run rest show ?thesis
    by simp
qed

end
